theory Spec2Isabelle
  imports Main "HOL-Library.Word"
begin

unbundle bit_operations_syntax

section \<open>The handshake I/O driver of s2n (tls/s2n_handshake_io.c)\<close>

subsection \<open>Message kinds and the message catalog\<close>

text \<open>
  Modelled from the spec: the enumeration \<^verbatim>\<open>message_type_t\<close> is declared in a header
  that is not part of the sources. Its enumerators are the sixteen kinds the source names
  in \<^verbatim>\<open>state_machine\<close> and \<^verbatim>\<open>message_names\<close>, in the order of section 3 of the
  specification. The first enumerator, \<open>CLIENT_HELLO\<close>, is the one with value 0: it is what
  a slot of a C array holds when no initialiser names it.
\<close>

datatype message_type_t =
    CLIENT_HELLO
  | SERVER_HELLO
  | SERVER_NEW_SESSION_TICKET
  | SERVER_CERT
  | SERVER_CERT_STATUS
  | SERVER_KEY
  | SERVER_CERT_REQ
  | SERVER_HELLO_DONE
  | CLIENT_CERT
  | CLIENT_KEY
  | CLIENT_CERT_VERIFY
  | CLIENT_CHANGE_CIPHER_SPEC
  | CLIENT_FINISHED
  | SERVER_CHANGE_CIPHER_SPEC
  | SERVER_FINISHED
  | APPLICATION_DATA

type_synonym byte = "8 word"

text \<open>The handshake message types of RFC 5246 7.4, as the source defines them.\<close>

definition TLS_HELLO_REQUEST :: byte where "TLS_HELLO_REQUEST = 0"
definition TLS_CLIENT_HELLO :: byte where "TLS_CLIENT_HELLO = 1"
definition TLS_SERVER_HELLO :: byte where "TLS_SERVER_HELLO = 2"
definition TLS_SERVER_NEW_SESSION_TICKET :: byte where "TLS_SERVER_NEW_SESSION_TICKET = 4"
definition TLS_SERVER_CERT :: byte where "TLS_SERVER_CERT = 11"
definition TLS_SERVER_KEY :: byte where "TLS_SERVER_KEY = 12"
definition TLS_SERVER_CERT_REQ :: byte where "TLS_SERVER_CERT_REQ = 13"
definition TLS_CLIENT_CERT_REQ :: byte where "TLS_CLIENT_CERT_REQ = 13"
definition TLS_SERVER_HELLO_DONE :: byte where "TLS_SERVER_HELLO_DONE = 14"
definition TLS_CLIENT_CERT :: byte where "TLS_CLIENT_CERT = 11"
definition TLS_CLIENT_CERT_VERIFY :: byte where "TLS_CLIENT_CERT_VERIFY = 15"
definition TLS_CLIENT_KEY :: byte where "TLS_CLIENT_KEY = 16"
definition TLS_CLIENT_FINISHED :: byte where "TLS_CLIENT_FINISHED = 20"
definition TLS_SERVER_FINISHED :: byte where "TLS_SERVER_FINISHED = 20"
definition TLS_SERVER_CERT_STATUS :: byte where "TLS_SERVER_CERT_STATUS = 22"

lemmas tls_message_types =
  TLS_HELLO_REQUEST_def TLS_CLIENT_HELLO_def TLS_SERVER_HELLO_def
  TLS_SERVER_NEW_SESSION_TICKET_def TLS_SERVER_CERT_def TLS_SERVER_KEY_def
  TLS_SERVER_CERT_REQ_def TLS_CLIENT_CERT_REQ_def TLS_SERVER_HELLO_DONE_def
  TLS_CLIENT_CERT_def TLS_CLIENT_CERT_VERIFY_def TLS_CLIENT_KEY_def
  TLS_CLIENT_FINISHED_def TLS_SERVER_FINISHED_def TLS_SERVER_CERT_STATUS_def

text \<open>
  Modelled from the spec: the record content types and the length of a handshake header
  are macros of headers that are not part of the sources. The content types are the four
  of RFC 5246 6.2.1; the driver only compares them. A handshake header is 4 bytes
  (section 6 of the specification).
\<close>

definition TLS_CHANGE_CIPHER_SPEC :: byte where "TLS_CHANGE_CIPHER_SPEC = 20"
definition TLS_ALERT :: byte where "TLS_ALERT = 21"
definition TLS_HANDSHAKE :: byte where "TLS_HANDSHAKE = 22"
definition TLS_APPLICATION_DATA :: byte where "TLS_APPLICATION_DATA = 23"
definition TLS_HANDSHAKE_HEADER_LENGTH :: nat where "TLS_HANDSHAKE_HEADER_LENGTH = 4"

lemmas tls_record_types =
  TLS_CHANGE_CIPHER_SPEC_def TLS_ALERT_def TLS_HANDSHAKE_def TLS_APPLICATION_DATA_def

text \<open>
  The endpoint's role; \<^verbatim>\<open>handler[conn->mode]\<close> indexes a descriptor's pair of handlers
  with it, the server's first.
\<close>

datatype s2n_mode = S2N_SERVER | S2N_CLIENT

text \<open>
  The per-message handlers are external functions; the catalog holds their names. A
  \<^verbatim>\<open>NULL\<close> slot is \<open>None\<close>.
\<close>

datatype handler_fn =
    s2n_client_hello_recv | s2n_client_hello_send
  | s2n_server_hello_send | s2n_server_hello_recv
  | s2n_server_nst_send | s2n_server_nst_recv
  | s2n_server_cert_send | s2n_server_cert_recv
  | s2n_server_status_send | s2n_server_status_recv
  | s2n_server_key_send | s2n_server_key_recv
  | s2n_client_cert_req_send | s2n_client_cert_req_recv
  | s2n_server_done_send | s2n_server_done_recv
  | s2n_client_cert_recv | s2n_client_cert_send
  | s2n_client_key_recv | s2n_client_key_send
  | s2n_client_cert_verify_recv | s2n_client_cert_verify_send
  | s2n_client_ccs_recv | s2n_ccs_send
  | s2n_client_finished_recv | s2n_client_finished_send
  | s2n_server_ccs_recv
  | s2n_server_finished_send | s2n_server_finished_recv

record s2n_handshake_action =
  record_type :: byte
  message_type :: byte
  writer :: char
  handler :: "s2n_mode \<Rightarrow> handler_fn option"

definition action ::
  "byte \<Rightarrow> byte \<Rightarrow> char \<Rightarrow> handler_fn option \<Rightarrow> handler_fn option \<Rightarrow> s2n_handshake_action"
where
  "action rt mt w hs hc =
     \<lparr> record_type = rt, message_type = mt, writer = w,
       handler = (\<lambda>m. case m of S2N_SERVER \<Rightarrow> hs | S2N_CLIENT \<Rightarrow> hc) \<rparr>"

fun state_machine :: "message_type_t \<Rightarrow> s2n_handshake_action" where
  "state_machine CLIENT_HELLO =
     action TLS_HANDSHAKE TLS_CLIENT_HELLO CHR ''C''
       (Some s2n_client_hello_recv) (Some s2n_client_hello_send)"
| "state_machine SERVER_HELLO =
     action TLS_HANDSHAKE TLS_SERVER_HELLO CHR ''S''
       (Some s2n_server_hello_send) (Some s2n_server_hello_recv)"
| "state_machine SERVER_NEW_SESSION_TICKET =
     action TLS_HANDSHAKE TLS_SERVER_NEW_SESSION_TICKET CHR ''S''
       (Some s2n_server_nst_send) (Some s2n_server_nst_recv)"
| "state_machine SERVER_CERT =
     action TLS_HANDSHAKE TLS_SERVER_CERT CHR ''S''
       (Some s2n_server_cert_send) (Some s2n_server_cert_recv)"
| "state_machine SERVER_CERT_STATUS =
     action TLS_HANDSHAKE TLS_SERVER_CERT_STATUS CHR ''S''
       (Some s2n_server_status_send) (Some s2n_server_status_recv)"
| "state_machine SERVER_KEY =
     action TLS_HANDSHAKE TLS_SERVER_KEY CHR ''S''
       (Some s2n_server_key_send) (Some s2n_server_key_recv)"
| "state_machine SERVER_CERT_REQ =
     action TLS_HANDSHAKE TLS_CLIENT_CERT_REQ CHR ''S''
       (Some s2n_client_cert_req_send) (Some s2n_client_cert_req_recv)"
| "state_machine SERVER_HELLO_DONE =
     action TLS_HANDSHAKE TLS_SERVER_HELLO_DONE CHR ''S''
       (Some s2n_server_done_send) (Some s2n_server_done_recv)"
| "state_machine CLIENT_CERT =
     action TLS_HANDSHAKE TLS_CLIENT_CERT CHR ''C''
       (Some s2n_client_cert_recv) (Some s2n_client_cert_send)"
| "state_machine CLIENT_KEY =
     action TLS_HANDSHAKE TLS_CLIENT_KEY CHR ''C''
       (Some s2n_client_key_recv) (Some s2n_client_key_send)"
| "state_machine CLIENT_CERT_VERIFY =
     action TLS_HANDSHAKE TLS_CLIENT_CERT_VERIFY CHR ''C''
       (Some s2n_client_cert_verify_recv) (Some s2n_client_cert_verify_send)"
| "state_machine CLIENT_CHANGE_CIPHER_SPEC =
     action TLS_CHANGE_CIPHER_SPEC 0 CHR ''C''
       (Some s2n_client_ccs_recv) (Some s2n_ccs_send)"
| "state_machine CLIENT_FINISHED =
     action TLS_HANDSHAKE TLS_CLIENT_FINISHED CHR ''C''
       (Some s2n_client_finished_recv) (Some s2n_client_finished_send)"
| "state_machine SERVER_CHANGE_CIPHER_SPEC =
     action TLS_CHANGE_CIPHER_SPEC 0 CHR ''S''
       (Some s2n_ccs_send) (Some s2n_server_ccs_recv)"
| "state_machine SERVER_FINISHED =
     action TLS_HANDSHAKE TLS_SERVER_FINISHED CHR ''S''
       (Some s2n_server_finished_send) (Some s2n_server_finished_recv)"
| "state_machine APPLICATION_DATA =
     action TLS_APPLICATION_DATA 0 CHR ''B'' None None"

subsection \<open>The handshake-type bitset and the variant table\<close>

text \<open>
  Modelled from the spec: the flags of the handshake type are macros of a header that is
  not part of the sources. Their bit positions are those the source itself uses in
  \<^verbatim>\<open>s2n_connection_get_handshake_type_name\<close>, where bit \<open>i\<close> of the bitset selects
  \<^verbatim>\<open>handshake_type_names[i]\<close>: NEGOTIATED, FULL_HANDSHAKE, PERFECT_FORWARD_SECRECY,
  OCSP_STATUS, CLIENT_AUTH, WITH_SESSION_TICKET, NO_CLIENT_CERT. \<open>INITIAL\<close> is the
  all-zero value.
\<close>

type_synonym handshake_type_t = "32 word"

definition INITIAL :: handshake_type_t where "INITIAL = 0"
definition NEGOTIATED :: handshake_type_t where "NEGOTIATED = 1"
definition FULL_HANDSHAKE :: handshake_type_t where "FULL_HANDSHAKE = 2"
definition PERFECT_FORWARD_SECRECY :: handshake_type_t where "PERFECT_FORWARD_SECRECY = 4"
definition OCSP_STATUS :: handshake_type_t where "OCSP_STATUS = 8"
definition CLIENT_AUTH :: handshake_type_t where "CLIENT_AUTH = 16"
definition WITH_SESSION_TICKET :: handshake_type_t where "WITH_SESSION_TICKET = 32"
definition NO_CLIENT_CERT :: handshake_type_t where "NO_CLIENT_CERT = 64"

lemmas handshake_flags =
  INITIAL_def NEGOTIATED_def FULL_HANDSHAKE_def PERFECT_FORWARD_SECRECY_def
  OCSP_STATUS_def CLIENT_AUTH_def WITH_SESSION_TICKET_def NO_CLIENT_CERT_def

text \<open>
  The designated initialisers of \<^verbatim>\<open>handshakes[128][16]\<close>, in the order of the source:
  the index expression of each, and the message kinds listed for it.
\<close>

definition handshakes_init :: "(handshake_type_t \<times> message_type_t list) list" where
  "handshakes_init = [
    (INITIAL,
      [CLIENT_HELLO,
       SERVER_HELLO]),
    (NEGOTIATED,
      [CLIENT_HELLO,
       SERVER_HELLO, SERVER_CHANGE_CIPHER_SPEC, SERVER_FINISHED,
       CLIENT_CHANGE_CIPHER_SPEC, CLIENT_FINISHED,
       APPLICATION_DATA]),
    (NEGOTIATED OR WITH_SESSION_TICKET,
      [CLIENT_HELLO,
       SERVER_HELLO, SERVER_NEW_SESSION_TICKET, SERVER_CHANGE_CIPHER_SPEC, SERVER_FINISHED,
       CLIENT_CHANGE_CIPHER_SPEC, CLIENT_FINISHED,
       APPLICATION_DATA]),
    (NEGOTIATED OR FULL_HANDSHAKE,
      [CLIENT_HELLO,
       SERVER_HELLO, SERVER_CERT, SERVER_HELLO_DONE,
       CLIENT_KEY, CLIENT_CHANGE_CIPHER_SPEC, CLIENT_FINISHED,
       SERVER_CHANGE_CIPHER_SPEC, SERVER_FINISHED,
       APPLICATION_DATA]),
    (NEGOTIATED OR FULL_HANDSHAKE OR WITH_SESSION_TICKET,
      [CLIENT_HELLO,
       SERVER_HELLO, SERVER_CERT, SERVER_HELLO_DONE,
       CLIENT_KEY, CLIENT_CHANGE_CIPHER_SPEC, CLIENT_FINISHED,
       SERVER_NEW_SESSION_TICKET, SERVER_CHANGE_CIPHER_SPEC, SERVER_FINISHED,
       APPLICATION_DATA]),
    (NEGOTIATED OR FULL_HANDSHAKE OR PERFECT_FORWARD_SECRECY,
      [CLIENT_HELLO,
       SERVER_HELLO, SERVER_CERT, SERVER_KEY, SERVER_HELLO_DONE,
       CLIENT_KEY, CLIENT_CHANGE_CIPHER_SPEC, CLIENT_FINISHED,
       SERVER_CHANGE_CIPHER_SPEC, SERVER_FINISHED,
       APPLICATION_DATA]),
    (NEGOTIATED OR FULL_HANDSHAKE OR PERFECT_FORWARD_SECRECY OR WITH_SESSION_TICKET,
      [CLIENT_HELLO,
       SERVER_HELLO, SERVER_CERT, SERVER_KEY, SERVER_HELLO_DONE,
       CLIENT_KEY, CLIENT_CHANGE_CIPHER_SPEC, CLIENT_FINISHED,
       SERVER_NEW_SESSION_TICKET, SERVER_CHANGE_CIPHER_SPEC, SERVER_FINISHED,
       APPLICATION_DATA]),
    (NEGOTIATED OR FULL_HANDSHAKE OR OCSP_STATUS,
      [CLIENT_HELLO,
       SERVER_HELLO, SERVER_CERT, SERVER_CERT_STATUS, SERVER_HELLO_DONE,
       CLIENT_KEY, CLIENT_CHANGE_CIPHER_SPEC, CLIENT_FINISHED,
       SERVER_CHANGE_CIPHER_SPEC, SERVER_FINISHED,
       APPLICATION_DATA]),
    (NEGOTIATED OR FULL_HANDSHAKE OR OCSP_STATUS OR WITH_SESSION_TICKET,
      [CLIENT_HELLO,
       SERVER_HELLO, SERVER_CERT, SERVER_CERT_STATUS, SERVER_HELLO_DONE,
       CLIENT_KEY, CLIENT_CHANGE_CIPHER_SPEC, CLIENT_FINISHED,
       SERVER_NEW_SESSION_TICKET, SERVER_CHANGE_CIPHER_SPEC, SERVER_FINISHED,
       APPLICATION_DATA]),
    (NEGOTIATED OR FULL_HANDSHAKE OR PERFECT_FORWARD_SECRECY OR OCSP_STATUS,
      [CLIENT_HELLO,
       SERVER_HELLO, SERVER_CERT, SERVER_CERT_STATUS, SERVER_KEY, SERVER_HELLO_DONE,
       CLIENT_KEY, CLIENT_CHANGE_CIPHER_SPEC, CLIENT_FINISHED,
       SERVER_CHANGE_CIPHER_SPEC, SERVER_FINISHED,
       APPLICATION_DATA]),
    (NEGOTIATED OR FULL_HANDSHAKE OR PERFECT_FORWARD_SECRECY OR OCSP_STATUS
       OR WITH_SESSION_TICKET,
      [CLIENT_HELLO,
       SERVER_HELLO, SERVER_CERT, SERVER_CERT_STATUS, SERVER_KEY, SERVER_HELLO_DONE,
       CLIENT_KEY, CLIENT_CHANGE_CIPHER_SPEC, CLIENT_FINISHED,
       SERVER_NEW_SESSION_TICKET, SERVER_CHANGE_CIPHER_SPEC, SERVER_FINISHED,
       APPLICATION_DATA]),
    (NEGOTIATED OR FULL_HANDSHAKE OR CLIENT_AUTH,
      [CLIENT_HELLO,
       SERVER_HELLO, SERVER_CERT, SERVER_CERT_REQ, SERVER_HELLO_DONE,
       CLIENT_CERT, CLIENT_KEY, CLIENT_CERT_VERIFY, CLIENT_CHANGE_CIPHER_SPEC, CLIENT_FINISHED,
       SERVER_CHANGE_CIPHER_SPEC, SERVER_FINISHED,
       APPLICATION_DATA]),
    (NEGOTIATED OR FULL_HANDSHAKE OR CLIENT_AUTH OR NO_CLIENT_CERT,
      [CLIENT_HELLO,
       SERVER_HELLO, SERVER_CERT, SERVER_CERT_REQ, SERVER_HELLO_DONE,
       CLIENT_CERT, CLIENT_KEY, CLIENT_CHANGE_CIPHER_SPEC, CLIENT_FINISHED,
       SERVER_CHANGE_CIPHER_SPEC, SERVER_FINISHED,
       APPLICATION_DATA]),
    (NEGOTIATED OR FULL_HANDSHAKE OR CLIENT_AUTH OR WITH_SESSION_TICKET,
      [CLIENT_HELLO,
       SERVER_HELLO, SERVER_CERT, SERVER_CERT_REQ, SERVER_HELLO_DONE,
       CLIENT_CERT, CLIENT_KEY, CLIENT_CERT_VERIFY, CLIENT_CHANGE_CIPHER_SPEC, CLIENT_FINISHED,
       SERVER_NEW_SESSION_TICKET, SERVER_CHANGE_CIPHER_SPEC, SERVER_FINISHED,
       APPLICATION_DATA]),
    (NEGOTIATED OR FULL_HANDSHAKE OR CLIENT_AUTH OR NO_CLIENT_CERT OR WITH_SESSION_TICKET,
      [CLIENT_HELLO,
       SERVER_HELLO, SERVER_CERT, SERVER_CERT_REQ, SERVER_HELLO_DONE,
       CLIENT_CERT, CLIENT_KEY, CLIENT_CHANGE_CIPHER_SPEC, CLIENT_FINISHED,
       SERVER_NEW_SESSION_TICKET, SERVER_CHANGE_CIPHER_SPEC, SERVER_FINISHED,
       APPLICATION_DATA]),
    (NEGOTIATED OR FULL_HANDSHAKE OR PERFECT_FORWARD_SECRECY OR CLIENT_AUTH,
      [CLIENT_HELLO,
       SERVER_HELLO, SERVER_CERT, SERVER_KEY, SERVER_CERT_REQ, SERVER_HELLO_DONE,
       CLIENT_CERT, CLIENT_KEY, CLIENT_CERT_VERIFY, CLIENT_CHANGE_CIPHER_SPEC, CLIENT_FINISHED,
       SERVER_CHANGE_CIPHER_SPEC, SERVER_FINISHED,
       APPLICATION_DATA]),
    (NEGOTIATED OR FULL_HANDSHAKE OR PERFECT_FORWARD_SECRECY OR CLIENT_AUTH
       OR NO_CLIENT_CERT,
      [CLIENT_HELLO,
       SERVER_HELLO, SERVER_CERT, SERVER_KEY, SERVER_CERT_REQ, SERVER_HELLO_DONE,
       CLIENT_CERT, CLIENT_KEY, CLIENT_CHANGE_CIPHER_SPEC, CLIENT_FINISHED,
       SERVER_CHANGE_CIPHER_SPEC, SERVER_FINISHED,
       APPLICATION_DATA]),
    (NEGOTIATED OR FULL_HANDSHAKE OR PERFECT_FORWARD_SECRECY OR CLIENT_AUTH
       OR WITH_SESSION_TICKET,
      [CLIENT_HELLO,
       SERVER_HELLO, SERVER_CERT, SERVER_KEY, SERVER_CERT_REQ, SERVER_HELLO_DONE,
       CLIENT_CERT, CLIENT_KEY, CLIENT_CERT_VERIFY, CLIENT_CHANGE_CIPHER_SPEC, CLIENT_FINISHED,
       SERVER_NEW_SESSION_TICKET, SERVER_CHANGE_CIPHER_SPEC, SERVER_FINISHED,
       APPLICATION_DATA]),
    (NEGOTIATED OR FULL_HANDSHAKE OR PERFECT_FORWARD_SECRECY OR CLIENT_AUTH
       OR NO_CLIENT_CERT OR WITH_SESSION_TICKET,
      [CLIENT_HELLO,
       SERVER_HELLO, SERVER_CERT, SERVER_KEY, SERVER_CERT_REQ, SERVER_HELLO_DONE,
       CLIENT_CERT, CLIENT_KEY, CLIENT_CHANGE_CIPHER_SPEC, CLIENT_FINISHED,
       SERVER_NEW_SESSION_TICKET, SERVER_CHANGE_CIPHER_SPEC, SERVER_FINISHED,
       APPLICATION_DATA]),
    (NEGOTIATED OR FULL_HANDSHAKE OR OCSP_STATUS OR CLIENT_AUTH,
      [CLIENT_HELLO,
       SERVER_HELLO, SERVER_CERT, SERVER_CERT_STATUS, SERVER_CERT_REQ, SERVER_HELLO_DONE,
       CLIENT_CERT, CLIENT_KEY, CLIENT_CERT_VERIFY, CLIENT_CHANGE_CIPHER_SPEC, CLIENT_FINISHED,
       SERVER_CHANGE_CIPHER_SPEC, SERVER_FINISHED,
       APPLICATION_DATA]),
    (NEGOTIATED OR FULL_HANDSHAKE OR OCSP_STATUS OR CLIENT_AUTH OR NO_CLIENT_CERT,
      [CLIENT_HELLO,
       SERVER_HELLO, SERVER_CERT, SERVER_CERT_STATUS, SERVER_CERT_REQ, SERVER_HELLO_DONE,
       CLIENT_CERT, CLIENT_KEY, CLIENT_CHANGE_CIPHER_SPEC, CLIENT_FINISHED,
       SERVER_CHANGE_CIPHER_SPEC, SERVER_FINISHED,
       APPLICATION_DATA]),
    (NEGOTIATED OR FULL_HANDSHAKE OR OCSP_STATUS OR CLIENT_AUTH OR WITH_SESSION_TICKET,
      [CLIENT_HELLO,
       SERVER_HELLO, SERVER_CERT, SERVER_CERT_STATUS, SERVER_CERT_REQ, SERVER_HELLO_DONE,
       CLIENT_CERT, CLIENT_KEY, CLIENT_CERT_VERIFY, CLIENT_CHANGE_CIPHER_SPEC, CLIENT_FINISHED,
       SERVER_NEW_SESSION_TICKET, SERVER_CHANGE_CIPHER_SPEC, SERVER_FINISHED,
       APPLICATION_DATA]),
    (NEGOTIATED OR FULL_HANDSHAKE OR OCSP_STATUS OR CLIENT_AUTH OR NO_CLIENT_CERT
       OR WITH_SESSION_TICKET,
      [CLIENT_HELLO,
       SERVER_HELLO, SERVER_CERT, SERVER_CERT_STATUS, SERVER_CERT_REQ, SERVER_HELLO_DONE,
       CLIENT_CERT, CLIENT_KEY, CLIENT_CHANGE_CIPHER_SPEC, CLIENT_FINISHED,
       SERVER_NEW_SESSION_TICKET, SERVER_CHANGE_CIPHER_SPEC, SERVER_FINISHED,
       APPLICATION_DATA]),
    (NEGOTIATED OR FULL_HANDSHAKE OR PERFECT_FORWARD_SECRECY OR OCSP_STATUS OR CLIENT_AUTH,
      [CLIENT_HELLO,
       SERVER_HELLO, SERVER_CERT, SERVER_CERT_STATUS, SERVER_KEY, SERVER_CERT_REQ,
       SERVER_HELLO_DONE,
       CLIENT_CERT, CLIENT_KEY, CLIENT_CERT_VERIFY, CLIENT_CHANGE_CIPHER_SPEC, CLIENT_FINISHED,
       SERVER_CHANGE_CIPHER_SPEC, SERVER_FINISHED,
       APPLICATION_DATA]),
    (NEGOTIATED OR FULL_HANDSHAKE OR PERFECT_FORWARD_SECRECY OR OCSP_STATUS OR CLIENT_AUTH
       OR NO_CLIENT_CERT,
      [CLIENT_HELLO,
       SERVER_HELLO, SERVER_CERT, SERVER_CERT_STATUS, SERVER_KEY, SERVER_CERT_REQ,
       SERVER_HELLO_DONE,
       CLIENT_CERT, CLIENT_KEY, CLIENT_CHANGE_CIPHER_SPEC, CLIENT_FINISHED,
       SERVER_CHANGE_CIPHER_SPEC, SERVER_FINISHED,
       APPLICATION_DATA]),
    (NEGOTIATED OR FULL_HANDSHAKE OR PERFECT_FORWARD_SECRECY OR OCSP_STATUS OR CLIENT_AUTH
       OR WITH_SESSION_TICKET,
      [CLIENT_HELLO,
       SERVER_HELLO, SERVER_CERT, SERVER_CERT_STATUS, SERVER_KEY, SERVER_CERT_REQ,
       SERVER_HELLO_DONE,
       CLIENT_CERT, CLIENT_KEY, CLIENT_CERT_VERIFY, CLIENT_CHANGE_CIPHER_SPEC, CLIENT_FINISHED,
       SERVER_NEW_SESSION_TICKET, SERVER_CHANGE_CIPHER_SPEC, SERVER_FINISHED,
       APPLICATION_DATA]),
    (NEGOTIATED OR FULL_HANDSHAKE OR PERFECT_FORWARD_SECRECY OR OCSP_STATUS OR CLIENT_AUTH
       OR NO_CLIENT_CERT OR WITH_SESSION_TICKET,
      [CLIENT_HELLO,
       SERVER_HELLO, SERVER_CERT, SERVER_CERT_STATUS, SERVER_KEY, SERVER_CERT_REQ,
       SERVER_HELLO_DONE,
       CLIENT_CERT, CLIENT_KEY, CLIENT_CHANGE_CIPHER_SPEC, CLIENT_FINISHED,
       SERVER_NEW_SESSION_TICKET, SERVER_CHANGE_CIPHER_SPEC, SERVER_FINISHED,
       APPLICATION_DATA])
  ]"

text \<open>
  The sequence the table holds for a bitset: the kinds its initialiser lists, \<open>None\<close> for
  a bitset that no initialiser names. (No index is named twice, see
  \<open>handshakes_init_distinct\<close>, so the first initialiser is the only one.)
\<close>

definition handshakes_entry :: "handshake_type_t \<Rightarrow> message_type_t list option" where
  "handshakes_entry t = map_of handshakes_init t"

text \<open>
  The array \<^verbatim>\<open>handshakes[128][16]\<close> as C reads it: \<^verbatim>\<open>handshakes[t][n]\<close> is the \<open>n\<close>-th
  kind an initialiser lists for \<open>t\<close>, and the kind of value 0 (\<open>CLIENT_HELLO\<close>) in every
  slot that no initialiser fills. An index outside the array has no defined value: \<open>None\<close>.
\<close>

definition handshakes :: "handshake_type_t \<Rightarrow> nat \<Rightarrow> message_type_t option" where
  "handshakes t n =
     (if 128 \<le> unat t \<or> 16 \<le> n then None
      else case handshakes_entry t of
             None \<Rightarrow> Some CLIENT_HELLO
           | Some ms \<Rightarrow> Some (if n < length ms then ms ! n else CLIENT_HELLO))"

subsection \<open>Byte buffers\<close>

text \<open>
  Modelled from the spec: the stuffer primitives live in a source file that is not part of
  the sources. A stuffer is a byte buffer with a write cursor and a read cursor and a
  \<open>wiped\<close> flag. \<open>blob_data\<close> holds the bytes written since the last wipe (the write
  cursor is its length); the bytes still to be read start at \<open>read_cursor\<close>. Wiping
  empties the buffer and sets the flag; writing clears the flag; copying moves bytes from
  the unread part of one stuffer to the end of another and fails when the source holds
  too few; rereading puts the read cursor back at the start.
\<close>

record s2n_stuffer =
  blob_data :: "byte list"
  read_cursor :: nat
  wiped :: bool

definition s2n_stuffer_data_available :: "s2n_stuffer \<Rightarrow> nat" where
  "s2n_stuffer_data_available st = length (blob_data st) - read_cursor st"

definition s2n_stuffer_unread :: "s2n_stuffer \<Rightarrow> byte list" where
  "s2n_stuffer_unread st = drop (read_cursor st) (blob_data st)"

definition s2n_stuffer_wiped :: s2n_stuffer where
  "s2n_stuffer_wiped = \<lparr> blob_data = [], read_cursor = 0, wiped = True \<rparr>"

definition s2n_stuffer_skip_read :: "nat \<Rightarrow> s2n_stuffer \<Rightarrow> s2n_stuffer" where
  "s2n_stuffer_skip_read n st = st\<lparr> read_cursor := read_cursor st + n \<rparr>"

definition s2n_stuffer_write_bytes :: "byte list \<Rightarrow> s2n_stuffer \<Rightarrow> s2n_stuffer" where
  "s2n_stuffer_write_bytes bs st = st\<lparr> blob_data := blob_data st @ bs, wiped := False \<rparr>"

subsection \<open>The connection\<close>

datatype s2n_error =
    S2N_ERR_OK
  | S2N_ERR_BAD_MESSAGE
  | S2N_ERR_BLOCKED
  | S2N_ERR_ALERT
  | S2N_ERR_NULL
  | S2N_ERR_STUFFER_OUT_OF_DATA
  | S2N_ERR_OTHER nat

datatype s2n_cert_auth_type = S2N_CERT_AUTH_NONE | S2N_CERT_AUTH_REQUIRED | S2N_CERT_AUTH_OPTIONAL

datatype s2n_session_ticket_status = S2N_NO_TICKET | S2N_DECRYPT_TICKET | S2N_NEW_TICKET

datatype s2n_blocked_status = S2N_NOT_BLOCKED | S2N_BLOCKED_ON_READ | S2N_BLOCKED_ON_WRITE

datatype s2n_in_status = ENCRYPTED | PLAINTEXT

datatype s2n_hash_algorithm =
    S2N_HASH_MD5 | S2N_HASH_SHA1 | S2N_HASH_MD5_SHA1
  | S2N_HASH_SHA224 | S2N_HASH_SHA256 | S2N_HASH_SHA384 | S2N_HASH_SHA512

text \<open>
  What the driver does to its collaborators, in the order it does it: a call of a
  per-message handler (with the handshake buffer it is given), a call of
  \<^verbatim>\<open>s2n_hash_update\<close> on one of the transcript hashes (with the bytes fed), a call of
  \<^verbatim>\<open>s2n_record_write\<close> (with the record type and the payload).
\<close>

datatype s2n_event =
    Ev_handler handler_fn s2n_stuffer
  | Ev_sslv2_handler s2n_stuffer
  | Ev_hash_update s2n_hash_algorithm "byte list"
  | Ev_record_write byte "byte list"

text \<open>
  The fields of \<^verbatim>\<open>struct s2n_connection\<close> (and of its \<^verbatim>\<open>handshake\<close> and
  \<^verbatim>\<open>config\<close>) that the driver itself reads or writes, the three thread-local error
  variables, the caller's \<^verbatim>\<open>*blocked\<close>, and \<open>rest\<close>: everything else of the connection,
  which only the collaborators look at. \<open>trace\<close> is a ghost field: it records the calls
  listed above and is out of the collaborators' reach.
\<close>

record 'x s2n_connection =
  mode :: s2n_mode
  handshake_type :: handshake_type_t
  message_number :: nat
  io :: s2n_stuffer
  header_in :: s2n_stuffer
  conn_in :: s2n_stuffer
  conn_out :: s2n_stuffer
  in_status :: s2n_in_status
  corked_io :: bool
  use_tickets :: bool
  session_ticket_status :: s2n_session_ticket_status
  client_session_resumed :: bool
  session_id_len :: nat
  s2n_errno :: s2n_error
  s2n_debug_str :: string
  errno :: int
  blocked :: s2n_blocked_status
  trace :: "s2n_event list"
  rest :: 'x

text \<open>
  A function of the driver returns an \<^verbatim>\<open>int\<close> and leaves the connection changed, also
  when it fails. \<open>None\<close> stands for a run with no defined return: an array read outside
  its bounds, a call through a \<^verbatim>\<open>NULL\<close> handler, or a loop that never ends.
\<close>

type_synonym 'x ret = "(int \<times> 'x s2n_connection) option"

text \<open>
  The collaborators: the functions of other source files that the driver calls, and the
  constants of headers that are not part of the sources. A function that can change the
  connection maps it to its return value and the connection it leaves; a getter with an
  out-parameter returns the error it raises or the value it stores; a predicate is a
  function of the connection.
\<close>

record 'x s2n_env =
  run_handler :: "handler_fn \<Rightarrow> 'x s2n_connection \<Rightarrow> int \<times> 'x s2n_connection"
  s2n_sslv2_client_hello_recv :: "'x s2n_connection \<Rightarrow> int \<times> 'x s2n_connection"
  s2n_socket_quickack :: "'x s2n_connection \<Rightarrow> int \<times> 'x s2n_connection"
  s2n_socket_was_corked :: "'x s2n_connection \<Rightarrow> bool"
  s2n_connection_is_managed_corked :: "'x s2n_connection \<Rightarrow> bool"
  s2n_socket_write_cork :: "'x s2n_connection \<Rightarrow> int \<times> 'x s2n_connection"
  s2n_socket_write_uncork :: "'x s2n_connection \<Rightarrow> int \<times> 'x s2n_connection"
  s2n_get_public_random_data :: "'x s2n_connection \<Rightarrow> int \<times> 'x s2n_connection"
  S2N_TLS_SESSION_ID_MAX_LEN :: nat
  s2n_decrypt_session_ticket :: "'x s2n_connection \<Rightarrow> int \<times> 'x s2n_connection"
  s2n_config_is_encrypt_decrypt_key_available :: "'x s2n_connection \<Rightarrow> int"
  s2n_allowed_to_cache_connection :: "'x s2n_connection \<Rightarrow> bool"
  s2n_resume_from_cache :: "'x s2n_connection \<Rightarrow> int \<times> 'x s2n_connection"
  s2n_connection_get_client_auth_type :: "'x s2n_connection \<Rightarrow> s2n_error + s2n_cert_auth_type"
  s2n_kex_is_ephemeral :: "'x s2n_connection \<Rightarrow> bool"
  s2n_server_can_send_ocsp :: "'x s2n_connection \<Rightarrow> bool"
  s2n_server_sent_ocsp :: "'x s2n_connection \<Rightarrow> bool"
  s2n_handshake_is_hash_required :: "'x s2n_connection \<Rightarrow> s2n_hash_algorithm \<Rightarrow> bool"
  s2n_hash_update ::
    "s2n_hash_algorithm \<Rightarrow> byte list \<Rightarrow> 'x s2n_connection \<Rightarrow> int \<times> 'x s2n_connection"
  s2n_handshake_write_header :: "byte \<Rightarrow> 'x s2n_connection \<Rightarrow> int \<times> 'x s2n_connection"
  s2n_handshake_finish_header :: "'x s2n_connection \<Rightarrow> int \<times> 'x s2n_connection"
  s2n_record_max_write_payload_size :: "'x s2n_connection \<Rightarrow> s2n_error + nat"
  s2n_record_write ::
    "byte \<Rightarrow> byte list \<Rightarrow> 'x s2n_connection \<Rightarrow> int \<times> 'x s2n_connection"
  s2n_flush :: "'x s2n_connection \<Rightarrow> (int \<times> s2n_blocked_status) \<times> 'x s2n_connection"
  s2n_read_full_record ::
    "'x s2n_connection \<Rightarrow> (int \<times> byte \<times> bool) \<times> 'x s2n_connection"
  s2n_process_alert_fragment :: "'x s2n_connection \<Rightarrow> int \<times> 'x s2n_connection"
  s2n_connection_kill :: "'x s2n_connection \<Rightarrow> int \<times> 'x s2n_connection"
  cache_delete :: "'x s2n_connection \<Rightarrow> 'x s2n_connection"
  S2N_MAXIMUM_HANDSHAKE_MESSAGE_LENGTH :: nat

subsection \<open>Calling conventions\<close>

text \<open>
  \<^verbatim>\<open>GUARD(x)\<close> returns -1 from the enclosing function when \<open>x\<close> is negative and goes on
  otherwise. \<open>GUARD f k\<close> runs \<open>f\<close> and, unless it failed, the rest \<open>k\<close> of the function.
\<close>

definition GUARD ::
  "('s \<Rightarrow> (int \<times> 's) option) \<Rightarrow> ('s \<Rightarrow> (int \<times> 's) option) \<Rightarrow> 's \<Rightarrow> (int \<times> 's) option"
where
  "GUARD f k c =
     Option.bind (f c) (\<lambda>(r, c'). if r < 0 then Some (- 1, c') else k c')"

text \<open>
  \<^verbatim>\<open>S2N_ERROR(x)\<close> stores the place of the error in \<^verbatim>\<open>s2n_debug_str\<close> and \<open>x\<close> in
  \<^verbatim>\<open>s2n_errno\<close>, and returns -1. The place is given as the source line.
\<close>

definition S2N_ERROR :: "string \<Rightarrow> s2n_error \<Rightarrow> 'x s2n_connection \<Rightarrow> 'x ret" where
  "S2N_ERROR line e c = Some (- 1, c\<lparr> s2n_errno := e, s2n_debug_str := line \<rparr>)"

text \<open>
  A call of a collaborator. Whatever the collaborator does, the ghost trace is the
  driver's: it is put back after the call.
\<close>

definition ext ::
  "('x s2n_connection \<Rightarrow> int \<times> 'x s2n_connection) \<Rightarrow> 'x s2n_connection \<Rightarrow> 'x ret"
where
  "ext f c = (case f c of (r, c') \<Rightarrow> Some (r, c'\<lparr> trace := trace c \<rparr>))"

definition ok :: "'x s2n_connection \<Rightarrow> 'x ret" where
  "ok c = Some (0, c)"

text \<open>
  A getter that fails returns -1 with its error in \<^verbatim>\<open>s2n_errno\<close>; one that succeeds
  hands its value to the rest of the function.
\<close>

definition GUARD_get ::
  "('x s2n_connection \<Rightarrow> s2n_error + 'v) \<Rightarrow> ('v \<Rightarrow> 'x s2n_connection \<Rightarrow> 'x ret) \<Rightarrow>
   'x s2n_connection \<Rightarrow> 'x ret"
where
  "GUARD_get g k c =
     (case g c of Inl e \<Rightarrow> Some (- 1, c\<lparr> s2n_errno := e \<rparr>) | Inr v \<Rightarrow> k v c)"

subsection \<open>The progression engine\<close>

definition ACTIVE_MESSAGE :: "'x s2n_connection \<Rightarrow> message_type_t option" where
  "ACTIVE_MESSAGE c = handshakes (handshake_type c) (message_number c)"

definition PREVIOUS_MESSAGE :: "'x s2n_connection \<Rightarrow> message_type_t option" where
  "PREVIOUS_MESSAGE c =
     (if message_number c = 0 then None
      else handshakes (handshake_type c) (message_number c - 1))"

definition ACTIVE_STATE :: "'x s2n_connection \<Rightarrow> s2n_handshake_action option" where
  "ACTIVE_STATE c = map_option state_machine (ACTIVE_MESSAGE c)"

definition PREVIOUS_STATE :: "'x s2n_connection \<Rightarrow> s2n_handshake_action option" where
  "PREVIOUS_STATE c = map_option state_machine (PREVIOUS_MESSAGE c)"

definition EXPECTED_MESSAGE_TYPE :: "'x s2n_connection \<Rightarrow> byte option" where
  "EXPECTED_MESSAGE_TYPE c = map_option message_type (ACTIVE_STATE c)"

definition s2n_conn_get_current_message_type :: "'x s2n_connection \<Rightarrow> message_type_t option" where
  "s2n_conn_get_current_message_type c = ACTIVE_MESSAGE c"

definition s2n_advance_message :: "'x s2n_env \<Rightarrow> 'x s2n_connection \<Rightarrow> 'x ret" where
  "s2n_advance_message env c0 =
     (let this = (if mode c0 = S2N_CLIENT then CHR ''C'' else CHR ''S'');
          c1 = c0\<lparr> message_number := message_number c0 + 1 \<rparr>
      in GUARD (ext (s2n_socket_quickack env)) (\<lambda>c.
           if \<not> corked_io c \<or> s2n_socket_was_corked env c then Some (0, c)
           else
             case ACTIVE_STATE c of None \<Rightarrow> None | Some a \<Rightarrow>
             case PREVIOUS_STATE c of None \<Rightarrow> None | Some p \<Rightarrow>
               if writer a = writer p then Some (0, c)
               else if writer a = this then
                 (if s2n_connection_is_managed_corked env c
                  then GUARD (ext (s2n_socket_write_cork env)) ok c
                  else Some (0, c))
               else
                 (if s2n_connection_is_managed_corked env c
                  then GUARD (ext (s2n_socket_write_uncork env)) ok c
                  else Some (0, c))) c1)"

definition s2n_generate_new_client_session_id :: "'x s2n_env \<Rightarrow> 'x s2n_connection \<Rightarrow> 'x ret" where
  "s2n_generate_new_client_session_id env c =
     (if mode c = S2N_SERVER then
        GUARD (ext (s2n_get_public_random_data env))
          (\<lambda>c. Some (0, c\<lparr> session_id_len := S2N_TLS_SESSION_ID_MAX_LEN env \<rparr>)) c
      else Some (0, c))"

text \<open>
  \<^verbatim>\<open>s2n_conn_set_handshake_type\<close> from the label \<^verbatim>\<open>skip_cache_lookup\<close> on.
\<close>

definition skip_cache_lookup :: "'x s2n_env \<Rightarrow> 'x s2n_connection \<Rightarrow> 'x ret" where
  "skip_cache_lookup env c0 =
     (if mode c0 = S2N_CLIENT \<and> client_session_resumed c0 then Some (0, c0)
      else
        GUARD (s2n_generate_new_client_session_id env) (\<lambda>c1.
          GUARD_get (s2n_connection_get_client_auth_type env) (\<lambda>client_cert_auth_type c2.
            let c3 =
                  (if mode c2 = S2N_CLIENT \<and> client_cert_auth_type = S2N_CERT_AUTH_REQUIRED
                   then c2\<lparr> handshake_type := handshake_type c2 OR CLIENT_AUTH \<rparr>
                   else if mode c2 = S2N_SERVER \<and> client_cert_auth_type \<noteq> S2N_CERT_AUTH_NONE
                   then c2\<lparr> handshake_type := handshake_type c2 OR CLIENT_AUTH \<rparr>
                   else c2);
                c4 =
                  (if s2n_kex_is_ephemeral env c3
                   then c3\<lparr> handshake_type := handshake_type c3 OR PERFECT_FORWARD_SECRECY \<rparr>
                   else c3);
                c5 =
                  (if s2n_server_can_send_ocsp env c4 \<or> s2n_server_sent_ocsp env c4
                   then c4\<lparr> handshake_type := handshake_type c4 OR OCSP_STATUS \<rparr>
                   else c4)
            in Some (0, c5))
            (c1\<lparr> handshake_type := handshake_type c1 OR FULL_HANDSHAKE \<rparr>)) c0)"

definition s2n_conn_set_handshake_type :: "'x s2n_env \<Rightarrow> 'x s2n_connection \<Rightarrow> 'x ret" where
  "s2n_conn_set_handshake_type env c0 =
     (let c1 = c0\<lparr> handshake_type := NEGOTIATED \<rparr> in
      if use_tickets c1 \<and> session_ticket_status c1 = S2N_DECRYPT_TICKET then
        Option.bind (ext (s2n_decrypt_session_ticket env) c1) (\<lambda>(r, c2).
          if r = 0 then Some (0, c2)
          else
            skip_cache_lookup env
              (if s2n_config_is_encrypt_decrypt_key_available env c2 = 1
               then c2\<lparr> session_ticket_status := S2N_NEW_TICKET,
                        handshake_type := handshake_type c2 OR WITH_SESSION_TICKET \<rparr>
               else c2))
      else
        let c2 =
              (if use_tickets c1 \<and> session_ticket_status c1 = S2N_NEW_TICKET
               then c1\<lparr> handshake_type := handshake_type c1 OR WITH_SESSION_TICKET \<rparr>
               else c1)
        in
          if s2n_allowed_to_cache_connection env c2 then
            Option.bind (ext (s2n_resume_from_cache env) c2) (\<lambda>(r, c3).
              if r = 0 then Some (0, c3) else skip_cache_lookup env c3)
          else skip_cache_lookup env c2)"

definition s2n_conn_set_handshake_no_client_cert :: "'x s2n_env \<Rightarrow> 'x s2n_connection \<Rightarrow> 'x ret" where
  "s2n_conn_set_handshake_no_client_cert env c =
     GUARD_get (s2n_connection_get_client_auth_type env) (\<lambda>client_cert_auth_type c.
       if client_cert_auth_type \<noteq> S2N_CERT_AUTH_OPTIONAL
       then S2N_ERROR ''s2n_handshake_io.c:472'' S2N_ERR_BAD_MESSAGE c
       else Some (0, c\<lparr> handshake_type := handshake_type c OR NO_CLIENT_CERT \<rparr>)) c"

lemma GUARD_mono [partial_function_mono]:
  assumes "\<And>c'. mono_option (\<lambda>F. K F c')"
  shows "mono_option (\<lambda>F. GUARD f (K F) c)"
  unfolding GUARD_def
  by (intro partial_function_mono assms) (auto intro!: partial_function_mono assms)

lemma GUARD_get_mono [partial_function_mono]:
  assumes "\<And>v c'. mono_option (\<lambda>F. K F v c')"
  shows "mono_option (\<lambda>F. GUARD_get g (K F) c)"
  unfolding GUARD_get_def
  by (cases "g c") (auto intro!: partial_function_mono assms)

subsection \<open>Transcript hashing\<close>

text \<open>
  A call of \<^verbatim>\<open>s2n_hash_update\<close> on the transcript hash of one algorithm. The hash
  primitive is a collaborator; the call is recorded.
\<close>

definition hash_update ::
  "'x s2n_env \<Rightarrow> s2n_hash_algorithm \<Rightarrow> byte list \<Rightarrow> 'x s2n_connection \<Rightarrow> 'x ret"
where
  "hash_update env alg data c =
     (case s2n_hash_update env alg data c of
        (r, c') \<Rightarrow> Some (r, c'\<lparr> trace := trace c @ [Ev_hash_update alg data] \<rparr>))"

definition hash_update_if_required ::
  "'x s2n_env \<Rightarrow> s2n_hash_algorithm \<Rightarrow> byte list \<Rightarrow>
   ('x s2n_connection \<Rightarrow> 'x ret) \<Rightarrow> 'x s2n_connection \<Rightarrow> 'x ret"
where
  "hash_update_if_required env alg data k c =
     (if s2n_handshake_is_hash_required env c alg
      then GUARD (hash_update env alg data) k c
      else k c)"

definition s2n_conn_update_handshake_hashes ::
  "'x s2n_env \<Rightarrow> byte list \<Rightarrow> 'x s2n_connection \<Rightarrow> 'x ret"
where
  "s2n_conn_update_handshake_hashes env data =
     hash_update_if_required env S2N_HASH_MD5 data (
     hash_update_if_required env S2N_HASH_SHA1 data (\<lambda>c.
       let md5_sha1_required =
             (s2n_handshake_is_hash_required env c S2N_HASH_MD5 \<and>
              s2n_handshake_is_hash_required env c S2N_HASH_SHA1)
       in
         (if md5_sha1_required
          then GUARD (hash_update env S2N_HASH_MD5_SHA1 data)
          else (\<lambda>k. k)) (
         hash_update_if_required env S2N_HASH_SHA224 data (
         hash_update_if_required env S2N_HASH_SHA256 data (
         hash_update_if_required env S2N_HASH_SHA384 data (
         hash_update_if_required env S2N_HASH_SHA512 data ok)))) c))"

subsection \<open>The read path\<close>

text \<open>
  \<^verbatim>\<open>s2n_stuffer_copy(&conn->in, &conn->handshake.io, n)\<close>: moves \<open>n\<close> unread bytes of the
  inbound record to the end of the handshake buffer.
\<close>

definition s2n_stuffer_copy_in_io :: "nat \<Rightarrow> 'x s2n_connection \<Rightarrow> int \<times> 'x s2n_connection" where
  "s2n_stuffer_copy_in_io n c =
     (if s2n_stuffer_data_available (conn_in c) < n
      then (- 1, c\<lparr> s2n_errno := S2N_ERR_STUFFER_OUT_OF_DATA \<rparr>)
      else (0, c\<lparr> conn_in := s2n_stuffer_skip_read n (conn_in c),
                  io := s2n_stuffer_write_bytes (take n (s2n_stuffer_unread (conn_in c))) (io c) \<rparr>))"

text \<open>
  Modelled from the spec: \<^verbatim>\<open>s2n_handshake_parse_header\<close> is not part of the sources. It
  reads the 4-byte header at the read cursor of the handshake buffer: one byte of message
  type, three bytes of big-endian body length (section 6 of the specification), and fails
  when fewer than 4 bytes are there.
\<close>

definition uint24 :: "byte \<Rightarrow> byte \<Rightarrow> byte \<Rightarrow> nat" where
  "uint24 b1 b2 b3 = unat b1 * 65536 + unat b2 * 256 + unat b3"

definition s2n_handshake_parse_header ::
  "'x s2n_connection \<Rightarrow> (s2n_error + byte \<times> nat) \<times> 'x s2n_connection"
where
  "s2n_handshake_parse_header c =
     (if s2n_stuffer_data_available (io c) < TLS_HANDSHAKE_HEADER_LENGTH
      then (Inl S2N_ERR_STUFFER_OUT_OF_DATA, c)
      else
        case s2n_stuffer_unread (io c) of
          t # l1 # l2 # l3 # _ \<Rightarrow>
            (Inr (t, uint24 l1 l2 l3),
             c\<lparr> io := s2n_stuffer_skip_read TLS_HANDSHAKE_HEADER_LENGTH (io c) \<rparr>)
        | _ \<Rightarrow> (Inl S2N_ERR_STUFFER_OUT_OF_DATA, c))"

text \<open>
  \<^verbatim>\<open>read_full_handshake_message\<close> returns 1 (more data is needed), 0 (the whole message
  was read) or -1, and stores the message type through its out-parameter once the header
  is parsed (0 stands for the parameter left unwritten). The subtraction that computes
  \<^verbatim>\<open>bytes_to_take\<close> is one of \<^verbatim>\<open>uint32_t\<close>: it wraps around (\<open>uint32_sub\<close>).
\<close>

definition uint32_sub :: "nat \<Rightarrow> nat \<Rightarrow> nat" where
  "uint32_sub a b = (a + 2 ^ 32 - b mod 2 ^ 32) mod 2 ^ 32"

text \<open>
  \<^verbatim>\<open>read_full_handshake_message\<close> from line 641 on, where the 4 bytes of the header are
  in the handshake buffer.
\<close>

definition read_handshake_message_body ::
  "'x s2n_env \<Rightarrow> 'x s2n_connection \<Rightarrow> (int \<times> byte) \<times> 'x s2n_connection"
where
  "read_handshake_message_body env c1 =
     (case s2n_handshake_parse_header c1 of
        (Inl e, c2) \<Rightarrow> ((- 1, 0), c2\<lparr> s2n_errno := e \<rparr>)
      | (Inr (msg_type, handshake_message_length), c2) \<Rightarrow>
          if handshake_message_length > S2N_MAXIMUM_HANDSHAKE_MESSAGE_LENGTH env
          then ((- 1, msg_type),
                c2\<lparr> s2n_errno := S2N_ERR_BAD_MESSAGE,
                    s2n_debug_str := ''s2n_handshake_io.c:644'' \<rparr>)
          else
            let bytes_to_take =
                  min (uint32_sub handshake_message_length
                         (s2n_stuffer_data_available (io c2)))
                      (s2n_stuffer_data_available (conn_in c2))
            in
              case s2n_stuffer_copy_in_io bytes_to_take c2 of (r, c3) \<Rightarrow>
                if r < 0 then ((- 1, msg_type), c3)
                else if s2n_stuffer_data_available (io c3) = handshake_message_length
                then ((0, msg_type), c3)
                else ((1, msg_type), c3\<lparr> io := (io c3)\<lparr> read_cursor := 0 \<rparr> \<rparr>))"

definition read_full_handshake_message ::
  "'x s2n_env \<Rightarrow> 'x s2n_connection \<Rightarrow> (int \<times> byte) \<times> 'x s2n_connection"
where
  "read_full_handshake_message env c0 =
     (let current_handshake_data = s2n_stuffer_data_available (io c0) in
        if current_handshake_data < TLS_HANDSHAKE_HEADER_LENGTH then
          if s2n_stuffer_data_available (conn_in c0)
               < TLS_HANDSHAKE_HEADER_LENGTH - current_handshake_data
          then
            case s2n_stuffer_copy_in_io (s2n_stuffer_data_available (conn_in c0)) c0 of
              (r, c1) \<Rightarrow> if r < 0 then ((- 1, 0), c1) else ((1, 0), c1)
          else
            case s2n_stuffer_copy_in_io (TLS_HANDSHAKE_HEADER_LENGTH - current_handshake_data) c0 of
              (r, c1) \<Rightarrow> if r < 0 then ((- 1, 0), c1) else read_handshake_message_body env c1
        else read_handshake_message_body env c0)"

text \<open>
  \<^verbatim>\<open>s2n_handshake_conn_update_hashes\<close>: rewinds the handshake buffer, parses the header
  again and feeds header and body, taken from the start of the buffer, through the
  transcript hashes. The blob is read up to \<open>4 + length\<close>; a buffer that holds fewer
  written bytes has no defined content there.
\<close>

definition s2n_handshake_conn_update_hashes :: "'x s2n_env \<Rightarrow> 'x s2n_connection \<Rightarrow> 'x ret" where
  "s2n_handshake_conn_update_hashes env c0 =
     (case s2n_handshake_parse_header (c0\<lparr> io := (io c0)\<lparr> read_cursor := 0 \<rparr> \<rparr>) of
        (Inl e, c1) \<Rightarrow> Some (- 1, c1\<lparr> s2n_errno := e \<rparr>)
      | (Inr (msg_type, handshake_message_length), c1) \<Rightarrow>
          if length (blob_data (io c1)) < TLS_HANDSHAKE_HEADER_LENGTH + handshake_message_length
          then None
          else
            s2n_conn_update_handshake_hashes env
              (take (TLS_HANDSHAKE_HEADER_LENGTH + handshake_message_length) (blob_data (io c1)))
              c1)"

text \<open>
  \<^verbatim>\<open>ACTIVE_STATE(conn).handler[conn->mode] (conn)\<close>: the call of the handler of the
  current position, recorded with the handshake buffer the handler is given.
\<close>

definition call_handler :: "'x s2n_env \<Rightarrow> 'x s2n_connection \<Rightarrow> 'x ret" where
  "call_handler env c =
     (case ACTIVE_STATE c of
        None \<Rightarrow> None
      | Some a \<Rightarrow>
          (case handler a (mode c) of
             None \<Rightarrow> None
           | Some h \<Rightarrow>
               (case run_handler env h c of
                  (r, c') \<Rightarrow> Some (r, c'\<lparr> trace := trace c @ [Ev_handler h (io c)] \<rparr>))))"

text \<open>
  The handler of an SSLv2 client hello is not in the catalog; it is called by name.
\<close>

definition call_sslv2_handler :: "'x s2n_env \<Rightarrow> 'x s2n_connection \<Rightarrow> 'x ret" where
  "call_sslv2_handler env c =
     (case s2n_sslv2_client_hello_recv env c of
        (r, c') \<Rightarrow> Some (r, c'\<lparr> trace := trace c @ [Ev_sslv2_handler (io c)] \<rparr>))"

text \<open>
  \<^verbatim>\<open>s2n_handshake_handle_sslv2\<close> hashes bytes 2 to 4 of the record header and the bytes
  of the record, taken from the start of its blob; a header blob of fewer than 5 written
  bytes has no defined content there.
\<close>

definition s2n_handshake_handle_sslv2 :: "'x s2n_env \<Rightarrow> 'x s2n_connection \<Rightarrow> 'x ret" where
  "s2n_handshake_handle_sslv2 env c0 =
     (case ACTIVE_MESSAGE c0 of
        None \<Rightarrow> None
      | Some m \<Rightarrow>
          if m \<noteq> CLIENT_HELLO
          then S2N_ERROR ''s2n_handshake_io.c:684'' S2N_ERR_BAD_MESSAGE c0
          else if length (blob_data (header_in c0)) < 5 then None
          else
            GUARD (s2n_conn_update_handshake_hashes env (take 3 (drop 2 (blob_data (header_in c0))))) (\<lambda>c1.
            GUARD (s2n_conn_update_handshake_hashes env
                     (take (s2n_stuffer_data_available (conn_in c1)) (blob_data (conn_in c1)))) (\<lambda>c2.
            GUARD (\<lambda>c. Some (s2n_stuffer_copy_in_io (s2n_stuffer_data_available (conn_in c)) c)) (
            GUARD (call_sslv2_handler env) (\<lambda>c3.
            GUARD (s2n_advance_message env) ok
              (c3\<lparr> io := s2n_stuffer_wiped, header_in := s2n_stuffer_wiped,
                   conn_in := s2n_stuffer_wiped, in_status := ENCRYPTED \<rparr>))) c2) c1) c0)"

text \<open>
  The two repairs of the handshake type that the client makes before the type check
  (lines 784 to 797 of the source). \<^verbatim>\<open>EXPECTED_MESSAGE_TYPE(conn)\<close> is read only when
  the conditions before it in the conjunction hold.
\<close>

definition switch_to_client_auth ::
  "s2n_cert_auth_type \<Rightarrow> byte \<Rightarrow> 'x s2n_connection \<Rightarrow> 'x s2n_connection option"
where
  "switch_to_client_auth client_cert_auth_type actual_handshake_message_type c =
     (if mode c = S2N_CLIENT
         \<and> client_cert_auth_type = S2N_CERT_AUTH_OPTIONAL
         \<and> actual_handshake_message_type = TLS_CLIENT_CERT_REQ
      then
        case EXPECTED_MESSAGE_TYPE c of
          None \<Rightarrow> None
        | Some expected \<Rightarrow>
            Some (if expected = TLS_SERVER_HELLO_DONE
                  then c\<lparr> handshake_type := handshake_type c OR CLIENT_AUTH \<rparr>
                  else c)
      else Some c)"

definition skip_cert_status :: "byte \<Rightarrow> 'x s2n_connection \<Rightarrow> 'x s2n_connection option" where
  "skip_cert_status actual_handshake_message_type c =
     (if mode c = S2N_CLIENT
      then
        case EXPECTED_MESSAGE_TYPE c of
          None \<Rightarrow> None
        | Some expected \<Rightarrow>
            Some (if expected = TLS_SERVER_CERT_STATUS
                     \<and> actual_handshake_message_type \<noteq> TLS_SERVER_CERT_STATUS
                  then c\<lparr> handshake_type := handshake_type c AND NOT OCSP_STATUS \<rparr>
                  else c)
      else Some c)"

text \<open>
  The end of a call of \<^verbatim>\<open>handshake_read_io\<close> that is done with its record: both record
  buffers are wiped (a wipe does not fail) and the next record is awaited.
\<close>

definition done_with_record :: "'x s2n_connection \<Rightarrow> 'x s2n_connection" where
  "done_with_record c =
     c\<lparr> header_in := s2n_stuffer_wiped, conn_in := s2n_stuffer_wiped, in_status := ENCRYPTED \<rparr>"

text \<open>
  The loop of \<^verbatim>\<open>handshake_read_io\<close> over the handshake messages of one record, and what
  follows it. The handler's return value \<open>r\<close> is kept while the transcript hashes are
  updated and the handshake buffer is wiped.
\<close>

partial_function (option) handshake_read_io_loop ::
  "'x s2n_env \<Rightarrow> 'x s2n_connection \<Rightarrow> 'x ret"
where
  "handshake_read_io_loop env c0 =
     (if s2n_stuffer_data_available (conn_in c0) \<noteq> 0 then
        case read_full_handshake_message env c0 of
          ((r, actual_handshake_message_type), c1) \<Rightarrow>
            if r < 0 then Some (- 1, c1)
            else if r = 1 then Some (0, done_with_record c1)
            else
              GUARD_get (s2n_connection_get_client_auth_type env) (\<lambda>client_cert_auth_type c2.
                Option.bind
                  (switch_to_client_auth client_cert_auth_type actual_handshake_message_type c2)
                  (\<lambda>c3.
                Option.bind (skip_cert_status actual_handshake_message_type c3) (\<lambda>c4.
                Option.bind (EXPECTED_MESSAGE_TYPE c4) (\<lambda>expected.
                  if actual_handshake_message_type \<noteq> expected
                  then S2N_ERROR ''s2n_handshake_io.c:799'' S2N_ERR_BAD_MESSAGE c4
                  else
                    Option.bind (call_handler env c4) (\<lambda>(r, c5).
                      GUARD (s2n_handshake_conn_update_hashes env) (\<lambda>c6.
                        if r < 0
                        then GUARD (ext (s2n_connection_kill env)) (\<lambda>c7. Some (r, c7))
                               (c6\<lparr> io := s2n_stuffer_wiped \<rparr>)
                        else GUARD (s2n_advance_message env)
                               (\<lambda>c7. handshake_read_io_loop env c7)
                               (c6\<lparr> io := s2n_stuffer_wiped \<rparr>)) c5))))) c1
      else Some (0, done_with_record c0))"

definition read_full_record ::
  "'x s2n_env \<Rightarrow> 'x s2n_connection \<Rightarrow> (int \<times> byte \<times> bool) \<times> 'x s2n_connection"
where
  "read_full_record env c =
     (case s2n_read_full_record env c of (res, c') \<Rightarrow> (res, c'\<lparr> trace := trace c \<rparr>))"

definition handshake_read_io :: "'x s2n_env \<Rightarrow> 'x s2n_connection \<Rightarrow> 'x ret" where
  "handshake_read_io env c0 =
     (case read_full_record env c0 of
        ((r, rec_type, isSSLv2), c1) \<Rightarrow>
          if r < 0 then Some (- 1, c1)
          else
            GUARD (if isSSLv2 then s2n_handshake_handle_sslv2 env else ok) (\<lambda>c2.
              if rec_type = TLS_APPLICATION_DATA
              then S2N_ERROR ''s2n_handshake_io.c:731'' S2N_ERR_BAD_MESSAGE c2
              else if rec_type = TLS_CHANGE_CIPHER_SPEC then
                if s2n_stuffer_data_available (conn_in c2) \<noteq> 1
                then S2N_ERROR ''s2n_handshake_io.c:733'' S2N_ERR_BAD_MESSAGE c2
                else
                  GUARD (\<lambda>c. Some (s2n_stuffer_copy_in_io (s2n_stuffer_data_available (conn_in c)) c)) (
                  GUARD (call_handler env) (\<lambda>c3.
                  GUARD (s2n_advance_message env) ok
                    (done_with_record (c3\<lparr> io := s2n_stuffer_wiped \<rparr>)))) c2
              else if rec_type \<noteq> TLS_HANDSHAKE then
                GUARD (if rec_type = TLS_ALERT then ext (s2n_process_alert_fragment env) else ok)
                  (\<lambda>c3. Some (0, done_with_record c3)) c2
              else handshake_read_io_loop env c2) c1)"

subsection \<open>The write path\<close>

text \<open>
  \<^verbatim>\<open>s2n_stuffer_raw_read\<close>: the next \<open>n\<close> unread bytes, or \<^verbatim>\<open>NULL\<close> (\<open>None\<close>) when the
  stuffer holds fewer.
\<close>

definition s2n_stuffer_raw_read :: "nat \<Rightarrow> s2n_stuffer \<Rightarrow> (byte list \<times> s2n_stuffer) option" where
  "s2n_stuffer_raw_read n st =
     (if s2n_stuffer_data_available st < n then None
      else Some (take n (s2n_stuffer_unread st), s2n_stuffer_skip_read n st))"

definition record_write :: "'x s2n_env \<Rightarrow> byte \<Rightarrow> byte list \<Rightarrow> 'x s2n_connection \<Rightarrow> 'x ret" where
  "record_write env rec_type out_data c =
     (case s2n_record_write env rec_type out_data c of
        (r, c') \<Rightarrow> Some (r, c'\<lparr> trace := trace c @ [Ev_record_write rec_type out_data] \<rparr>))"

text \<open>
  \<^verbatim>\<open>s2n_flush(conn, &blocked)\<close>: the flush primitive stores the blocked status through
  its second parameter. \<open>flush_local\<close> is the call of \<^verbatim>\<open>handshake_write_io\<close>, whose
  \<^verbatim>\<open>blocked\<close> is a local variable that nothing reads; \<open>flush_blocked\<close> is the call of
  \<^verbatim>\<open>s2n_negotiate\<close>, which passes its caller's \<^verbatim>\<open>blocked\<close> on.
\<close>

definition flush_local :: "'x s2n_env \<Rightarrow> 'x s2n_connection \<Rightarrow> 'x ret" where
  "flush_local env c =
     (case s2n_flush env c of ((r, b), c') \<Rightarrow> Some (r, c'\<lparr> trace := trace c \<rparr>))"

definition flush_blocked :: "'x s2n_env \<Rightarrow> 'x s2n_connection \<Rightarrow> 'x ret" where
  "flush_blocked env c =
     (case s2n_flush env c of ((r, b), c') \<Rightarrow> Some (r, c'\<lparr> trace := trace c, blocked := b \<rparr>))"

text \<open>
  The loop of \<^verbatim>\<open>handshake_write_io\<close> that writes the handshake buffer out in records of
  at most the maximum payload size, and what follows it.
\<close>

partial_function (option) handshake_write_io_loop ::
  "'x s2n_env \<Rightarrow> byte \<Rightarrow> 'x s2n_connection \<Rightarrow> 'x ret"
where
  "handshake_write_io_loop env rec_type c0 =
     (if s2n_stuffer_data_available (io c0) > 0 then
        GUARD_get (s2n_record_max_write_payload_size env) (\<lambda>max_payload_size c1.
          case s2n_stuffer_raw_read
                 (min (s2n_stuffer_data_available (io c1)) max_payload_size) (io c1) of
            None \<Rightarrow> Some (- 1, c1\<lparr> s2n_errno := S2N_ERR_NULL \<rparr>)
          | Some (out_data, io') \<Rightarrow>
              GUARD (record_write env rec_type out_data) (
              GUARD (if rec_type = TLS_HANDSHAKE
                     then s2n_conn_update_handshake_hashes env out_data else ok) (
              GUARD (flush_local env) (\<lambda>c2. handshake_write_io_loop env rec_type c2)))
                (c1\<lparr> io := io' \<rparr>)) c0
      else
        GUARD (s2n_advance_message env) ok
          (c0\<lparr> conn_out := s2n_stuffer_wiped, io := s2n_stuffer_wiped \<rparr>))"

definition handshake_write_io :: "'x s2n_env \<Rightarrow> 'x s2n_connection \<Rightarrow> 'x ret" where
  "handshake_write_io env c0 =
     (case ACTIVE_STATE c0 of
        None \<Rightarrow> None
      | Some a \<Rightarrow>
          GUARD
            (if wiped (io c0) then
               GUARD (if record_type a = TLS_HANDSHAKE
                      then ext (s2n_handshake_write_header env (message_type a)) else ok) (
               GUARD (call_handler env) (
                 if record_type a = TLS_HANDSHAKE
                 then ext (s2n_handshake_finish_header env) else ok))
             else ok)
            (handshake_write_io_loop env (record_type a)) c0)"

subsection \<open>The driver\<close>

text \<open>
  A call of the session cache's \<^verbatim>\<open>cache_delete\<close> callback; its return value is not
  looked at.
\<close>

definition call_cache_delete :: "'x s2n_env \<Rightarrow> 'x s2n_connection \<Rightarrow> 'x s2n_connection" where
  "call_cache_delete env c = (cache_delete env c)\<lparr> trace := trace c \<rparr>"

text \<open>
  \<^verbatim>\<open>s2n_negotiate\<close>. Each run of the loop body ends in a return or, after the check for
  the end of the handshake (where the handshake buffer is resized to zero: it is released,
  which the model shows as a wipe), in the next run.
\<close>

partial_function (option) s2n_negotiate :: "'x s2n_env \<Rightarrow> 'x s2n_connection \<Rightarrow> 'x ret" where
  "s2n_negotiate env c0 =
     (let this = (if mode c0 = S2N_CLIENT then CHR ''C'' else CHR ''S'') in
      Option.bind (ACTIVE_STATE c0) (\<lambda>a0.
        if writer a0 \<noteq> CHR ''B'' then
          GUARD (flush_blocked env) (\<lambda>c1.
            Option.bind (ACTIVE_STATE c1) (\<lambda>a1.
              if writer a1 = this then
                Option.bind (handshake_write_io env (c1\<lparr> blocked := S2N_BLOCKED_ON_WRITE \<rparr>))
                  (\<lambda>(r, c2).
                    if r < 0 \<and> s2n_errno c2 \<noteq> S2N_ERR_BLOCKED then
                      let write_errno = errno c2;
                          write_s2n_errno = s2n_errno c2;
                          write_s2n_debug_str = s2n_debug_str c2
                      in
                        Option.bind (handshake_read_io env c2) (\<lambda>(r', c3).
                          if r' < 0 \<and> s2n_errno c3 = S2N_ERR_ALERT then Some (- 1, c3)
                          else Some (- 1, c3\<lparr> errno := write_errno,
                                               s2n_errno := write_s2n_errno,
                                               s2n_debug_str := write_s2n_debug_str \<rparr>))
                    else
                      Option.bind (ACTIVE_STATE c2) (\<lambda>a2.
                        if writer a2 = CHR ''B''
                        then s2n_negotiate env (c2\<lparr> io := s2n_stuffer_wiped \<rparr>)
                        else s2n_negotiate env c2))
              else
                Option.bind (handshake_read_io env (c1\<lparr> blocked := S2N_BLOCKED_ON_READ \<rparr>))
                  (\<lambda>(r, c2).
                    if r < 0 then
                      Some (- 1,
                        if s2n_errno c2 \<noteq> S2N_ERR_BLOCKED
                           \<and> s2n_allowed_to_cache_connection env c2 \<and> session_id_len c2 \<noteq> 0
                        then call_cache_delete env c2 else c2)
                    else
                      Option.bind (ACTIVE_STATE c2) (\<lambda>a2.
                        if writer a2 = CHR ''B''
                        then s2n_negotiate env (c2\<lparr> io := s2n_stuffer_wiped \<rparr>)
                        else s2n_negotiate env c2)))) c0
        else Some (0, c0\<lparr> blocked := S2N_NOT_BLOCKED \<rparr>)))"

section \<open>An example set of collaborators\<close>

text \<open>
  A set of collaborators to run the driver on concrete inputs. The rest of the connection
  is the queue of the records still to arrive, each with its content type:
  \<^verbatim>\<open>s2n_read_full_record\<close> takes the next one into the inbound buffer, or reports that it
  would block. Every other collaborator succeeds and leaves the connection as it is:
  handlers accept every message, the client-auth mode is optional, the session cache is
  off, ticket keys are available, only SHA-256 is a required transcript hash, a record
  takes up to 16384 bytes of payload and a handshake message up to 65536 bytes of body.
\<close>

type_synonym wire = "(byte \<times> byte list) list"

definition next_record ::
  "wire s2n_connection \<Rightarrow> (int \<times> byte \<times> bool) \<times> wire s2n_connection"
where
  "next_record c =
     (case rest c of
        [] \<Rightarrow> ((- 1, 0, False), c\<lparr> s2n_errno := S2N_ERR_BLOCKED \<rparr>)
      | (rec_type, payload) # rs \<Rightarrow>
          ((0, rec_type, False),
           c\<lparr> conn_in := \<lparr> blob_data = payload, read_cursor = 0, wiped = False \<rparr>,
              in_status := PLAINTEXT, rest := rs \<rparr>))"

definition quiet_env :: "wire s2n_env" where
  "quiet_env =
     \<lparr> run_handler = (\<lambda>h c. (0, c)),
       s2n_sslv2_client_hello_recv = (\<lambda>c. (0, c)),
       s2n_socket_quickack = (\<lambda>c. (0, c)),
       s2n_socket_was_corked = (\<lambda>c. False),
       s2n_connection_is_managed_corked = (\<lambda>c. False),
       s2n_socket_write_cork = (\<lambda>c. (0, c)),
       s2n_socket_write_uncork = (\<lambda>c. (0, c)),
       s2n_get_public_random_data = (\<lambda>c. (0, c)),
       S2N_TLS_SESSION_ID_MAX_LEN = 32,
       s2n_decrypt_session_ticket = (\<lambda>c. (0, c)),
       s2n_config_is_encrypt_decrypt_key_available = (\<lambda>c. 1),
       s2n_allowed_to_cache_connection = (\<lambda>c. False),
       s2n_resume_from_cache = (\<lambda>c. (- 1, c)),
       s2n_connection_get_client_auth_type = (\<lambda>c. Inr S2N_CERT_AUTH_OPTIONAL),
       s2n_kex_is_ephemeral = (\<lambda>c. False),
       s2n_server_can_send_ocsp = (\<lambda>c. False),
       s2n_server_sent_ocsp = (\<lambda>c. False),
       s2n_handshake_is_hash_required = (\<lambda>c alg. alg = S2N_HASH_SHA256),
       s2n_hash_update = (\<lambda>alg data c. (0, c)),
       s2n_handshake_write_header = (\<lambda>t c. (0, c)),
       s2n_handshake_finish_header = (\<lambda>c. (0, c)),
       s2n_record_max_write_payload_size = (\<lambda>c. Inr 16384),
       s2n_record_write = (\<lambda>t data c. (0, c)),
       s2n_flush = (\<lambda>c. ((0, S2N_NOT_BLOCKED), c)),
       s2n_read_full_record = next_record,
       s2n_process_alert_fragment = (\<lambda>c. (0, c)),
       s2n_connection_kill = (\<lambda>c. (0, c)),
       cache_delete = (\<lambda>c. c),
       S2N_MAXIMUM_HANDSHAKE_MESSAGE_LENGTH = 65536 \<rparr>"

text \<open>
  A connection of the given role at the given place of the handshake, with empty buffers
  and the given records still to arrive.
\<close>

definition conn_at :: "s2n_mode \<Rightarrow> handshake_type_t \<Rightarrow> nat \<Rightarrow> wire \<Rightarrow> wire s2n_connection" where
  "conn_at m t n w =
     \<lparr> mode = m, handshake_type = t, message_number = n,
       io = s2n_stuffer_wiped, header_in = s2n_stuffer_wiped,
       conn_in = s2n_stuffer_wiped, conn_out = s2n_stuffer_wiped,
       in_status = ENCRYPTED, corked_io = False, use_tickets = False,
       session_ticket_status = S2N_NO_TICKET, client_session_resumed = False,
       session_id_len = 0, s2n_errno = S2N_ERR_OK, s2n_debug_str = [], errno = 0,
       blocked = S2N_NOT_BLOCKED, trace = [], rest = w \<rparr>"

section \<open>Properties of the variant table\<close>

lemma handshakes_init_distinct: "distinct (map fst handshakes_init)"
  by (simp add: handshakes_init_def handshake_flags)

lemma handshakes_init_keys:
  "map fst handshakes_init =
     [0, 1, 33, 3, 35, 7, 39, 11, 43, 15, 47, 19, 83, 51, 115, 23, 87, 55, 119, 27, 91, 59,
      123, 31, 95, 63, 127]"
  by (simp add: handshakes_init_def handshake_flags)

lemma dom_handshakes_entry: "dom handshakes_entry = set (map fst handshakes_init)"
proof -
  have "handshakes_entry = map_of handshakes_init"
    by (rule ext) (simp add: handshakes_entry_def)
  show ?thesis
    unfolding \<open>handshakes_entry = map_of handshakes_init\<close>
    by (simp add: dom_map_of_conv_image_fst)
qed

lemma handshakes_entry_in_init:
  "handshakes_entry t = Some ms \<Longrightarrow> (t, ms) \<in> set handshakes_init"
  by (simp add: handshakes_entry_def map_of_SomeD)

lemma handshakes_init_last:
  "list_all (\<lambda>(t, ms). ms \<noteq> [] \<and> (t \<noteq> INITIAL \<longrightarrow> last ms = APPLICATION_DATA))
     handshakes_init"
  by (simp add: handshakes_init_def handshake_flags)

lemma handshakes_entry_INITIAL: "handshakes_entry INITIAL = Some [CLIENT_HELLO, SERVER_HELLO]"
  by (simp add: handshakes_entry_def handshakes_init_def handshake_flags)

lemma handshakes_entry_NEGOTIATED:
  "handshakes_entry NEGOTIATED =
     Some [CLIENT_HELLO, SERVER_HELLO, SERVER_CHANGE_CIPHER_SPEC, SERVER_FINISHED,
           CLIENT_CHANGE_CIPHER_SPEC, CLIENT_FINISHED, APPLICATION_DATA]"
  by (simp add: handshakes_entry_def handshakes_init_def handshake_flags)

text \<open>
  C2, as the code has it. The sequence of every bitset with an entry is non-empty, and
  the sequence of every such bitset other than \<open>INITIAL\<close> ends in \<open>APPLICATION_DATA\<close>; the
  entry of \<open>INITIAL\<close> is the two-element sequence of \<open>CLIENT_HELLO\<close> and \<open>SERVER_HELLO\<close>, which
  does not end in \<open>APPLICATION_DATA\<close>.
\<close>

theorem variant_sequences_terminal:
  "(\<forall>t ms. handshakes_entry t = Some ms \<longrightarrow>
        ms \<noteq> [] \<and> (t \<noteq> INITIAL \<longrightarrow> last ms = APPLICATION_DATA))
   \<and> handshakes_entry INITIAL = Some [CLIENT_HELLO, SERVER_HELLO]"
proof (intro conjI allI impI)
  fix t ms
  assume "handshakes_entry t = Some ms"
  then have "(t, ms) \<in> set handshakes_init" by (rule handshakes_entry_in_init)
  with handshakes_init_last
  have *: "ms \<noteq> [] \<and> (t \<noteq> INITIAL \<longrightarrow> last ms = APPLICATION_DATA)"
    unfolding list_all_iff by blast
  from * show "ms \<noteq> []" by simp
  assume "t \<noteq> INITIAL"
  with * show "last ms = APPLICATION_DATA" by simp
qed (rule handshakes_entry_INITIAL)

theorem variant_sequences_terminal_witness:
  "handshakes_entry NEGOTIATED =
     Some [CLIENT_HELLO, SERVER_HELLO, SERVER_CHANGE_CIPHER_SPEC, SERVER_FINISHED,
           CLIENT_CHANGE_CIPHER_SPEC, CLIENT_FINISHED, APPLICATION_DATA]
   \<and> NEGOTIATED \<noteq> INITIAL
   \<and> last [CLIENT_HELLO, SERVER_HELLO, SERVER_CHANGE_CIPHER_SPEC, SERVER_FINISHED,
           CLIENT_CHANGE_CIPHER_SPEC, CLIENT_FINISHED, APPLICATION_DATA] = APPLICATION_DATA"
  using variant_sequences_terminal handshakes_entry_NEGOTIATED
  by (simp add: handshake_flags)

text \<open>
  C2 as stated fails: \<open>INITIAL\<close> has an entry, and its sequence ends in \<open>SERVER_HELLO\<close>.
\<close>

theorem variant_sequences_terminal_counterexample:
  "\<not> (\<forall>t ms. handshakes_entry t = Some ms \<longrightarrow> ms \<noteq> [] \<and> last ms = APPLICATION_DATA)"
proof
  assume "\<forall>t ms. handshakes_entry t = Some ms \<longrightarrow> ms \<noteq> [] \<and> last ms = APPLICATION_DATA"
  with handshakes_entry_INITIAL
  have "last [CLIENT_HELLO, SERVER_HELLO] = APPLICATION_DATA" by blast
  then show False by simp
qed

text \<open>
  The bitsets that the negotiation can produce, from section 4.2 of the specification:
  \<open>NEGOTIATED\<close> is set; a resumed handshake (no \<open>FULL_HANDSHAKE\<close>) carries no other flag
  but \<open>WITH_SESSION_TICKET\<close>; \<open>NO_CLIENT_CERT\<close> comes with \<open>CLIENT_AUTH\<close> only.
\<close>

definition legal_combination :: "handshake_type_t \<Rightarrow> bool" where
  "legal_combination t =
     (t < 128 \<and> t AND NEGOTIATED \<noteq> 0
      \<and> (t AND FULL_HANDSHAKE = 0 \<longrightarrow>
           t AND (PERFECT_FORWARD_SECRECY OR OCSP_STATUS OR CLIENT_AUTH OR NO_CLIENT_CERT) = 0)
      \<and> (t AND NO_CLIENT_CERT \<noteq> 0 \<longrightarrow> t AND CLIENT_AUTH \<noteq> 0))"

lemma entries_legal: "list_all (\<lambda>t. t = INITIAL \<or> legal_combination t) (map fst handshakes_init)"
  unfolding handshakes_init_keys by (simp add: legal_combination_def handshake_flags)

lemma legal_enum:
  "list_all (\<lambda>n. legal_combination (of_nat n) \<longrightarrow> (of_nat n :: 32 word) \<in> set (map fst handshakes_init)) (0 # 1 # [2..<128])"
  unfolding handshakes_init_keys
  by (simp add: upt_rec_numeral legal_combination_def handshake_flags del: upt.simps)

lemma legal_entries:
  assumes "legal_combination t"
  shows "t \<in> set (map fst handshakes_init)"
proof -
  have "t < 128" using assms by (simp add: legal_combination_def)
  then have "unat t < 128" by (simp add: word_less_nat_alt)
  then have "unat t = 0 \<or> unat t = 1 \<or> (2 \<le> unat t \<and> unat t < 128)" by arith
  then have "unat t \<in> set (0 # 1 # [2..<128])" by (simp only: list.set set_upt atLeastLessThan_iff insert_iff)
  with legal_enum have "legal_combination (of_nat (unat t)) \<longrightarrow> (of_nat (unat t) :: 32 word) \<in> set (map fst handshakes_init)"
    unfolding list_all_iff by blast
  with assms show ?thesis by simp
qed

lemma has_entry_iff: "(handshakes_entry t \<noteq> None) = (t = INITIAL \<or> legal_combination t)"
proof
  assume "handshakes_entry t \<noteq> None"
  then have "t \<in> set (map fst handshakes_init)" using dom_handshakes_entry by blast
  with entries_legal show "t = INITIAL \<or> legal_combination t" unfolding list_all_iff by blast
next
  assume "t = INITIAL \<or> legal_combination t"
  then have "t \<in> set (map fst handshakes_init)"
    using legal_entries by (auto simp: handshakes_init_keys INITIAL_def)
  then show "handshakes_entry t \<noteq> None" using dom_handshakes_entry by blast
qed

lemma card_entries: "card (dom handshakes_entry) = 27"
proof -
  have "card (set (map fst handshakes_init)) = length (map fst handshakes_init)"
    by (rule distinct_card) (rule handshakes_init_distinct)
  then show ?thesis by (simp add: dom_handshakes_entry handshakes_init_keys)
qed

lemma card_entries_negotiated: "card {t. handshakes_entry t \<noteq> None \<and> t \<noteq> INITIAL} = 26"
proof -
  have "{t. handshakes_entry t \<noteq> None \<and> t \<noteq> INITIAL} = dom handshakes_entry - {INITIAL}"
    by (auto simp: dom_def)
  moreover have "INITIAL \<in> dom handshakes_entry" using handshakes_entry_INITIAL by (simp add: dom_def)
  moreover have "finite (dom handshakes_entry)" by (simp add: dom_handshakes_entry)
  ultimately show ?thesis using card_entries by simp
qed

text \<open>
  The canonical sequence of a negotiated bitset, after the ordering rule of section 4.2 of
  the specification (this definition follows the specification's words, to be compared
  with the table of the source). Every sequence opens with the two hellos. A full
  handshake goes on, server side, with \<open>SERVER_CERT\<close>, optional \<open>SERVER_CERT_STATUS\<close>
  (with \<open>OCSP_STATUS\<close>), optional \<open>SERVER_KEY\<close> (with \<open>PERFECT_FORWARD_SECRECY\<close>),
  optional \<open>SERVER_CERT_REQ\<close> (with \<open>CLIENT_AUTH\<close>), \<open>SERVER_HELLO_DONE\<close>; client side, with
  optional \<open>CLIENT_CERT\<close> (with \<open>CLIENT_AUTH\<close>), \<open>CLIENT_KEY\<close>, optional
  \<open>CLIENT_CERT_VERIFY\<close> (with \<open>CLIENT_AUTH\<close>, unless \<open>NO_CLIENT_CERT\<close> is set),
  \<open>CLIENT_CHANGE_CIPHER_SPEC\<close>, \<open>CLIENT_FINISHED\<close>; then optional
  \<open>SERVER_NEW_SESSION_TICKET\<close> (with \<open>WITH_SESSION_TICKET\<close>),
  \<open>SERVER_CHANGE_CIPHER_SPEC\<close>, \<open>SERVER_FINISHED\<close>, \<open>APPLICATION_DATA\<close>. A resumed
  handshake has no certificate and no key exchange: the server finishes first, after the
  optional \<open>SERVER_NEW_SESSION_TICKET\<close>.
\<close>

definition optional :: "bool \<Rightarrow> 'a \<Rightarrow> 'a list" where
  "optional b x = (if b then [x] else [])"

definition canonical :: "handshake_type_t \<Rightarrow> message_type_t list" where
  "canonical t =
     (if t AND FULL_HANDSHAKE \<noteq> 0 then
        [CLIENT_HELLO, SERVER_HELLO, SERVER_CERT]
        @ optional (t AND OCSP_STATUS \<noteq> 0) SERVER_CERT_STATUS
        @ optional (t AND PERFECT_FORWARD_SECRECY \<noteq> 0) SERVER_KEY
        @ optional (t AND CLIENT_AUTH \<noteq> 0) SERVER_CERT_REQ
        @ [SERVER_HELLO_DONE]
        @ optional (t AND CLIENT_AUTH \<noteq> 0) CLIENT_CERT
        @ [CLIENT_KEY]
        @ optional (t AND CLIENT_AUTH \<noteq> 0 \<and> t AND NO_CLIENT_CERT = 0) CLIENT_CERT_VERIFY
        @ [CLIENT_CHANGE_CIPHER_SPEC, CLIENT_FINISHED]
        @ optional (t AND WITH_SESSION_TICKET \<noteq> 0) SERVER_NEW_SESSION_TICKET
        @ [SERVER_CHANGE_CIPHER_SPEC, SERVER_FINISHED, APPLICATION_DATA]
      else
        [CLIENT_HELLO, SERVER_HELLO]
        @ optional (t AND WITH_SESSION_TICKET \<noteq> 0) SERVER_NEW_SESSION_TICKET
        @ [SERVER_CHANGE_CIPHER_SPEC, SERVER_FINISHED,
           CLIENT_CHANGE_CIPHER_SPEC, CLIENT_FINISHED, APPLICATION_DATA])"

lemma entries_canonical:
  "list_all (\<lambda>(t, ms). ms = (if t = INITIAL then [CLIENT_HELLO, SERVER_HELLO] else canonical t))
     handshakes_init"
  by (simp add: handshakes_init_def canonical_def optional_def handshake_flags)

text \<open>
  C5, as the code has it. The table has an entry for exactly 27 bitsets: \<open>INITIAL\<close> and
  the 26 legal combinations of flags (2 resumed ones and 24 full handshakes). Each entry is
  a non-empty sequence: the canonical one of its bitset, and the two hellos for
  \<open>INITIAL\<close>. A bitset outside these has no entry: in particular every bitset with
  \<open>NO_CLIENT_CERT\<close> set and \<open>CLIENT_AUTH\<close> clear.
\<close>

theorem variant_table_entries:
  "card (dom handshakes_entry) = 27
   \<and> card {t. handshakes_entry t \<noteq> None \<and> t \<noteq> INITIAL} = 26
   \<and> (\<forall>t. (handshakes_entry t \<noteq> None) = (t = INITIAL \<or> legal_combination t))
   \<and> (\<forall>t ms. handshakes_entry t = Some ms \<longrightarrow> ms \<noteq> [])
   \<and> (\<forall>t ms. handshakes_entry t = Some ms \<longrightarrow>
          ms = (if t = INITIAL then [CLIENT_HELLO, SERVER_HELLO] else canonical t))
   \<and> (\<forall>t. t AND NO_CLIENT_CERT \<noteq> 0 \<and> t AND CLIENT_AUTH = 0 \<longrightarrow> handshakes_entry t = None)"
proof (intro conjI allI impI)
  show "card (dom handshakes_entry) = 27" by (rule card_entries)
  show "card {t. handshakes_entry t \<noteq> None \<and> t \<noteq> INITIAL} = 26" by (rule card_entries_negotiated)
  show "(handshakes_entry t \<noteq> None) = (t = INITIAL \<or> legal_combination t)" for t
    by (rule has_entry_iff)
  show "ms \<noteq> []" if "handshakes_entry t = Some ms" for t ms
  proof -
    from that have "(t, ms) \<in> set handshakes_init" by (rule handshakes_entry_in_init)
    with handshakes_init_last show ?thesis unfolding list_all_iff by blast
  qed
  show "ms = (if t = INITIAL then [CLIENT_HELLO, SERVER_HELLO] else canonical t)"
    if "handshakes_entry t = Some ms" for t ms
  proof -
    from that have "(t, ms) \<in> set handshakes_init" by (rule handshakes_entry_in_init)
    with entries_canonical show ?thesis unfolding list_all_iff by blast
  qed
  show "handshakes_entry t = None" if "t AND NO_CLIENT_CERT \<noteq> 0 \<and> t AND CLIENT_AUTH = 0" for t
  proof -
    from that have "\<not> legal_combination t" "t \<noteq> INITIAL"
      by (auto simp: legal_combination_def INITIAL_def)
    with has_entry_iff[of t] show ?thesis by simp
  qed
qed

theorem variant_table_entries_witness:
  "(NO_CLIENT_CERT OR NEGOTIATED) AND NO_CLIENT_CERT \<noteq> 0
   \<and> (NO_CLIENT_CERT OR NEGOTIATED) AND CLIENT_AUTH = 0
   \<and> handshakes_entry (NO_CLIENT_CERT OR NEGOTIATED) = None
   \<and> handshakes_entry NEGOTIATED \<noteq> None \<and> legal_combination NEGOTIATED
   \<and> handshakes_entry NEGOTIATED = Some (canonical NEGOTIATED)
   \<and> canonical NEGOTIATED =
       [CLIENT_HELLO, SERVER_HELLO, SERVER_CHANGE_CIPHER_SPEC, SERVER_FINISHED,
        CLIENT_CHANGE_CIPHER_SPEC, CLIENT_FINISHED, APPLICATION_DATA]"
  using variant_table_entries handshakes_entry_NEGOTIATED
  by (simp add: handshake_flags legal_combination_def canonical_def optional_def)

text \<open>
  C5 as stated fails: the bitsets with an entry are not 28, with or without \<open>INITIAL\<close>.
\<close>

theorem variant_table_entries_counterexample:
  "card {t. handshakes_entry t \<noteq> None} \<noteq> 28
   \<and> card {t. handshakes_entry t \<noteq> None \<and> t \<noteq> INITIAL} \<noteq> 28"
proof -
  have "{t. handshakes_entry t \<noteq> None} = dom handshakes_entry" by (simp add: dom_def)
  then show ?thesis using card_entries card_entries_negotiated by simp
qed

section \<open>Properties of the progression engine\<close>

text \<open>
  C8. Once the client-auth mode of the connection is known to be \<open>m\<close>:
  \<^verbatim>\<open>s2n_conn_set_handshake_no_client_cert\<close> fails with \<open>S2N_ERR_BAD_MESSAGE\<close> when \<open>m\<close> is
  not optional, and then only the error variables differ from the connection it was
  given, so the handshake type is unchanged; when \<open>m\<close> is optional it returns 0 and the
  only change is that \<open>NO_CLIENT_CERT\<close> is added to the handshake type.
\<close>

theorem no_client_cert_downgrade:
  assumes "s2n_connection_get_client_auth_type env c = Inr m"
  shows "s2n_conn_set_handshake_no_client_cert env c =
           (if m \<noteq> S2N_CERT_AUTH_OPTIONAL
            then Some (- 1, c\<lparr> s2n_errno := S2N_ERR_BAD_MESSAGE,
                               s2n_debug_str := ''s2n_handshake_io.c:472'' \<rparr>)
            else Some (0, c\<lparr> handshake_type := handshake_type c OR NO_CLIENT_CERT \<rparr>))"
  using assms
  by (simp add: s2n_conn_set_handshake_no_client_cert_def GUARD_get_def S2N_ERROR_def)

theorem no_client_cert_downgrade_witness:
  "s2n_connection_get_client_auth_type quiet_env (conn_at S2N_SERVER 19 5 [])
     = Inr S2N_CERT_AUTH_OPTIONAL
   \<and> s2n_conn_set_handshake_no_client_cert quiet_env (conn_at S2N_SERVER 19 5 [])
       = Some (0, conn_at S2N_SERVER 83 5 [])
   \<and> s2n_connection_get_client_auth_type
        (quiet_env\<lparr> s2n_connection_get_client_auth_type := \<lambda>c. Inr S2N_CERT_AUTH_REQUIRED \<rparr>)
        (conn_at S2N_SERVER 19 5 []) = Inr S2N_CERT_AUTH_REQUIRED
   \<and> s2n_conn_set_handshake_no_client_cert
        (quiet_env\<lparr> s2n_connection_get_client_auth_type := \<lambda>c. Inr S2N_CERT_AUTH_REQUIRED \<rparr>)
        (conn_at S2N_SERVER 19 5 [])
       = Some (- 1, (conn_at S2N_SERVER 19 5 [])\<lparr> s2n_errno := S2N_ERR_BAD_MESSAGE,
                               s2n_debug_str := ''s2n_handshake_io.c:472'' \<rparr>)"
  using no_client_cert_downgrade
          [of quiet_env "conn_at S2N_SERVER 19 5 []" S2N_CERT_AUTH_OPTIONAL]
        no_client_cert_downgrade
          [of "quiet_env\<lparr> s2n_connection_get_client_auth_type := \<lambda>c. Inr S2N_CERT_AUTH_REQUIRED \<rparr>"
              "conn_at S2N_SERVER 19 5 []" S2N_CERT_AUTH_REQUIRED]
  by (simp add: quiet_env_def conn_at_def handshake_flags)

lemma skip_cache_lookup_cache_free:
  "skip_cache_lookup
     (env\<lparr> s2n_allowed_to_cache_connection := allowed, s2n_resume_from_cache := lookup \<rparr>)
   = skip_cache_lookup env"
proof -
  let ?env' = "env\<lparr> s2n_allowed_to_cache_connection := allowed, s2n_resume_from_cache := lookup \<rparr>"
  have "s2n_generate_new_client_session_id ?env' = s2n_generate_new_client_session_id env"
    by (rule ext) (simp add: s2n_generate_new_client_session_id_def)
  then show ?thesis
    by (intro ext) (simp add: skip_cache_lookup_def)
qed

text \<open>
  C1, as the code has it. Tickets are enabled and the client presented an encrypted ticket.
  When the ticket decrypts (\<^verbatim>\<open>s2n_decrypt_session_ticket\<close> returns 0) the function returns
  0 at once, with the connection as the decryption left it: the session is resumed and
  the function itself adds no flag to \<open>NEGOTIATED\<close>. When the decryption fails,
  \<open>WITH_SESSION_TICKET\<close> is set (and the ticket status becomes \<open>S2N_NEW_TICKET\<close>) exactly
  when a key to mint tickets is available, and the function goes on at
  \<^verbatim>\<open>skip_cache_lookup\<close>. In both cases the session-ID cache is not consulted: the result
  is the same whatever \<^verbatim>\<open>s2n_allowed_to_cache_connection\<close> and \<^verbatim>\<open>s2n_resume_from_cache\<close>
  are.
\<close>

theorem session_ticket_presented:
  assumes "use_tickets c" and "session_ticket_status c = S2N_DECRYPT_TICKET"
    and "s2n_decrypt_session_ticket env (c\<lparr> handshake_type := NEGOTIATED \<rparr>) = (r, c')"
  shows "s2n_conn_set_handshake_type env c =
           (if r = 0 then Some (0, c'\<lparr> trace := trace c \<rparr>)
            else skip_cache_lookup env
                   (if s2n_config_is_encrypt_decrypt_key_available env (c'\<lparr> trace := trace c \<rparr>) = 1
                    then c'\<lparr> trace := trace c, session_ticket_status := S2N_NEW_TICKET,
                            handshake_type := handshake_type c' OR WITH_SESSION_TICKET \<rparr>
                    else c'\<lparr> trace := trace c \<rparr>))
         \<and> s2n_conn_set_handshake_type
             (env\<lparr> s2n_allowed_to_cache_connection := allowed, s2n_resume_from_cache := lookup \<rparr>) c
           = s2n_conn_set_handshake_type env c"
  using assms
  by (simp add: s2n_conn_set_handshake_type_def ext_def skip_cache_lookup_cache_free)

definition ticket_conn :: "wire s2n_connection" where
  "ticket_conn =
     (conn_at S2N_SERVER INITIAL 1 [])
       \<lparr> use_tickets := True, session_ticket_status := S2N_DECRYPT_TICKET \<rparr>"

theorem session_ticket_presented_witness:
  "use_tickets ticket_conn
   \<and> session_ticket_status ticket_conn = S2N_DECRYPT_TICKET
   \<and> s2n_decrypt_session_ticket
        (quiet_env\<lparr> s2n_decrypt_session_ticket := \<lambda>c. (- 1, c) \<rparr>)
        (ticket_conn\<lparr> handshake_type := NEGOTIATED \<rparr>)
       = (- 1, ticket_conn\<lparr> handshake_type := NEGOTIATED \<rparr>)
   \<and> s2n_conn_set_handshake_type
        (quiet_env\<lparr> s2n_decrypt_session_ticket := \<lambda>c. (- 1, c) \<rparr>) ticket_conn
       = Some (0, ticket_conn\<lparr> session_ticket_status := S2N_NEW_TICKET,
                              handshake_type := NEGOTIATED OR WITH_SESSION_TICKET
                                OR FULL_HANDSHAKE OR CLIENT_AUTH,
                              session_id_len := 32 \<rparr>)"
  using session_ticket_presented
          [of ticket_conn "quiet_env\<lparr> s2n_decrypt_session_ticket := \<lambda>c. (- 1, c) \<rparr>"
              "- 1" "ticket_conn\<lparr> handshake_type := NEGOTIATED \<rparr>"]
  by (simp add: quiet_env_def ticket_conn_def conn_at_def handshake_flags
      skip_cache_lookup_def s2n_generate_new_client_session_id_def GUARD_def GUARD_get_def
      ext_def)

text \<open>
  C1 as stated fails: the ticket decrypts, a key to mint tickets is available, and the
  handshake type that \<^verbatim>\<open>s2n_conn_set_handshake_type\<close> leaves is \<open>NEGOTIATED\<close> alone.
\<close>

theorem session_ticket_presented_counterexample:
  "use_tickets ticket_conn
   \<and> session_ticket_status ticket_conn = S2N_DECRYPT_TICKET
   \<and> s2n_decrypt_session_ticket quiet_env (ticket_conn\<lparr> handshake_type := NEGOTIATED \<rparr>)
       = (0, ticket_conn\<lparr> handshake_type := NEGOTIATED \<rparr>)
   \<and> s2n_config_is_encrypt_decrypt_key_available quiet_env
        (ticket_conn\<lparr> handshake_type := NEGOTIATED \<rparr>) = 1
   \<and> s2n_conn_set_handshake_type quiet_env ticket_conn
       = Some (0, ticket_conn\<lparr> handshake_type := NEGOTIATED \<rparr>)
   \<and> NEGOTIATED AND WITH_SESSION_TICKET = 0"
  by (simp add: s2n_conn_set_handshake_type_def ext_def quiet_env_def ticket_conn_def
      conn_at_def handshake_flags)

section \<open>Properties of the read path\<close>

text \<open>
  The bytes of the handshake stream that the read path has taken in but not yet handed to
  a handler: the unread bytes of the handshake buffer, then those of the inbound record.
\<close>

definition pending :: "'x s2n_connection \<Rightarrow> byte list" where
  "pending c = s2n_stuffer_unread (io c) @ s2n_stuffer_unread (conn_in c)"

lemma length_unread [simp]: "length (s2n_stuffer_unread st) = s2n_stuffer_data_available st"
  by (simp add: s2n_stuffer_unread_def s2n_stuffer_data_available_def)

lemma unread_skip_read:
  "s2n_stuffer_unread (s2n_stuffer_skip_read n st) = drop n (s2n_stuffer_unread st)"
  by (simp add: s2n_stuffer_unread_def s2n_stuffer_skip_read_def add.commute)

lemma available_skip_read:
  "s2n_stuffer_data_available (s2n_stuffer_skip_read n st) = s2n_stuffer_data_available st - n"
  by (simp add: s2n_stuffer_data_available_def s2n_stuffer_skip_read_def)

lemma unread_write_bytes:
  "read_cursor st \<le> length (blob_data st) \<Longrightarrow>
   s2n_stuffer_unread (s2n_stuffer_write_bytes bs st) = s2n_stuffer_unread st @ bs"
  by (simp add: s2n_stuffer_unread_def s2n_stuffer_write_bytes_def)

lemma available_write_bytes:
  "read_cursor st \<le> length (blob_data st) \<Longrightarrow>
   s2n_stuffer_data_available (s2n_stuffer_write_bytes bs st) = s2n_stuffer_data_available st + length bs"
  by (simp add: s2n_stuffer_data_available_def s2n_stuffer_write_bytes_def)

lemma parse_header_oversize:
  assumes "s2n_stuffer_unread (io c) = t # l1 # l2 # l3 # bs"
    and "uint24 l1 l2 l3 > S2N_MAXIMUM_HANDSHAKE_MESSAGE_LENGTH env"
  shows "s2n_handshake_parse_header c =
           (Inr (t, uint24 l1 l2 l3), c\<lparr> io := s2n_stuffer_skip_read TLS_HANDSHAKE_HEADER_LENGTH (io c) \<rparr>)"
proof -
  have "s2n_stuffer_data_available (io c) = length (s2n_stuffer_unread (io c))" by simp
  also have "\<dots> \<ge> 4" using assms(1) by simp
  finally show ?thesis using assms(1)
    by (simp add: s2n_handshake_parse_header_def TLS_HANDSHAKE_HEADER_LENGTH_def del: length_unread)
qed


lemma copy_in_io_ok:
  assumes "n \<le> s2n_stuffer_data_available (conn_in c)"
  shows "s2n_stuffer_copy_in_io n c =
           (0, c\<lparr> conn_in := s2n_stuffer_skip_read n (conn_in c),
                  io := s2n_stuffer_write_bytes (take n (s2n_stuffer_unread (conn_in c))) (io c) \<rparr>)"
  using assms by (simp add: s2n_stuffer_copy_in_io_def)

lemma read_full_handshake_message_oversize:
  assumes wf: "read_cursor (io c) \<le> length (blob_data (io c))"
    and hdr: "pending c = t # l1 # l2 # l3 # bs"
    and big: "uint24 l1 l2 l3 > S2N_MAXIMUM_HANDSHAKE_MESSAGE_LENGTH env"
  shows "\<exists>c'. read_full_handshake_message env c = ((- 1, t), c')
              \<and> s2n_errno c' = S2N_ERR_BAD_MESSAGE \<and> trace c' = trace c"
proof (cases "s2n_stuffer_data_available (io c) < 4")
  case False
  then have "length (s2n_stuffer_unread (io c)) \<ge> 4" by simp
  then have "take 4 (pending c) = take 4 (s2n_stuffer_unread (io c))"
    by (simp add: pending_def del: length_unread)
  with hdr have "take 4 (s2n_stuffer_unread (io c)) = [t, l1, l2, l3]" by simp
  then obtain bs' where u: "s2n_stuffer_unread (io c) = t # l1 # l2 # l3 # bs'"
    by (metis append_take_drop_id append_Cons append_Nil)
  show ?thesis
    using False parse_header_oversize[OF u big] big
    by (simp add: read_full_handshake_message_def read_handshake_message_body_def
        TLS_HANDSHAKE_HEADER_LENGTH_def Let_def)
next
  case True
  let ?k = "s2n_stuffer_data_available (io c)"
  have len: "length (pending c) \<ge> 4" using hdr by simp
  then have enough: "4 - ?k \<le> s2n_stuffer_data_available (conn_in c)"
    by (simp add: pending_def)
  let ?c1 = "c\<lparr> conn_in := s2n_stuffer_skip_read (4 - ?k) (conn_in c),
                 io := s2n_stuffer_write_bytes (take (4 - ?k) (s2n_stuffer_unread (conn_in c))) (io c) \<rparr>"
  have copy: "s2n_stuffer_copy_in_io (4 - ?k) c = (0, ?c1)"
    by (rule copy_in_io_ok[OF enough])
  have "s2n_stuffer_unread (io ?c1) = s2n_stuffer_unread (io c) @ take (4 - ?k) (s2n_stuffer_unread (conn_in c))"
    using wf by (simp add: unread_write_bytes)
  also have "\<dots> = take 4 (pending c)"
    using True by (simp add: pending_def)
  also have "\<dots> = t # l1 # l2 # l3 # []" using hdr by simp
  finally have u: "s2n_stuffer_unread (io ?c1) = t # l1 # l2 # l3 # []" .
  show ?thesis
    using True enough copy parse_header_oversize[OF u big] big
    by (simp add: read_full_handshake_message_def read_handshake_message_body_def
        TLS_HANDSHAKE_HEADER_LENGTH_def Let_def)
qed


lemma handshake_read_io_handshake_record:
  assumes "read_full_record env c0 = ((r, TLS_HANDSHAKE, False), c)" and "0 \<le> r"
  shows "handshake_read_io env c0 = handshake_read_io_loop env c"
  using assms by (simp add: handshake_read_io_def GUARD_def ok_def tls_record_types)

text \<open>
  C7. The read path is at a handshake message (the inbound record has bytes left) whose
  4-byte header, made of the bytes already in the handshake buffer and the next bytes of
  the record, declares a body longer than \<open>S2N_MAXIMUM_HANDSHAKE_MESSAGE_LENGTH\<close>. Then the
  loop over the messages of the record returns -1 with \<open>S2N_ERR_BAD_MESSAGE\<close> and the
  trace is the one it started with: no handler was called. So does
  \<^verbatim>\<open>handshake_read_io\<close> when this is the first message of the handshake record it reads.
\<close>

theorem oversized_handshake_message_rejected:
  assumes "read_cursor (io c) \<le> length (blob_data (io c))"
    and "s2n_stuffer_data_available (conn_in c) \<noteq> 0"
    and "pending c = t # l1 # l2 # l3 # bs"
    and "uint24 l1 l2 l3 > S2N_MAXIMUM_HANDSHAKE_MESSAGE_LENGTH env"
  shows "\<exists>c'. handshake_read_io_loop env c = Some (- 1, c')
              \<and> s2n_errno c' = S2N_ERR_BAD_MESSAGE \<and> trace c' = trace c
              \<and> (\<forall>c0 r. read_full_record env c0 = ((r, TLS_HANDSHAKE, False), c) \<and> 0 \<le> r
                    \<longrightarrow> handshake_read_io env c0 = Some (- 1, c'))"
proof -
  from read_full_handshake_message_oversize[OF assms(1,3,4)]
  obtain c' where "read_full_handshake_message env c = ((- 1, t), c')"
    and e: "s2n_errno c' = S2N_ERR_BAD_MESSAGE" and tr: "trace c' = trace c" by blast
  then have l: "handshake_read_io_loop env c = Some (- 1, c')"
    using assms(2) by (subst handshake_read_io_loop.simps) simp
  with e tr show ?thesis
    by (auto simp: handshake_read_io_handshake_record)
qed

text \<open>
  A client that is sent a handshake record holding only a header: a \<open>SERVER_HELLO\<close> that
  declares a body of 65537 bytes, one more than the maximum.
\<close>

definition oversize_conn :: "wire s2n_connection" where
  "oversize_conn = (conn_at S2N_CLIENT INITIAL 1 [(TLS_HANDSHAKE, [2, 1, 0, 1])])"

lemma next_record_oversize:
  "read_full_record quiet_env oversize_conn =
     ((0, TLS_HANDSHAKE, False),
      (conn_at S2N_CLIENT INITIAL 1 [])
        \<lparr> conn_in := \<lparr> blob_data = [2, 1, 0, 1], read_cursor = 0, wiped = False \<rparr>,
          in_status := PLAINTEXT \<rparr>)"
  by (simp add: read_full_record_def quiet_env_def next_record_def oversize_conn_def conn_at_def)

theorem oversized_handshake_message_rejected_witness:
  "\<exists>c'. handshake_read_io quiet_env oversize_conn = Some (- 1, c')
        \<and> s2n_errno c' = S2N_ERR_BAD_MESSAGE \<and> trace c' = trace oversize_conn"
proof -
  let ?c = "(conn_at S2N_CLIENT INITIAL 1 [])
        \<lparr> conn_in := \<lparr> blob_data = [2, 1, 0, 1], read_cursor = 0, wiped = False \<rparr>,
          in_status := PLAINTEXT \<rparr>"
  have 1: "read_cursor (io ?c) \<le> length (blob_data (io ?c))"
    by (simp add: conn_at_def s2n_stuffer_wiped_def)
  have 2: "s2n_stuffer_data_available (conn_in ?c) \<noteq> 0"
    by (simp add: s2n_stuffer_data_available_def)
  have 3: "pending ?c = 2 # 1 # 0 # 1 # []"
    by (simp add: pending_def conn_at_def s2n_stuffer_wiped_def s2n_stuffer_unread_def)
  have 4: "uint24 1 0 1 > S2N_MAXIMUM_HANDSHAKE_MESSAGE_LENGTH quiet_env"
    by (simp add: uint24_def quiet_env_def)
  from oversized_handshake_message_rejected[OF 1 2 3 4]
  obtain c' where "s2n_errno c' = S2N_ERR_BAD_MESSAGE" and "trace c' = trace ?c"
    and "\<forall>c0 r. read_full_record quiet_env c0 = ((r, TLS_HANDSHAKE, False), ?c) \<and> 0 \<le> r
                    \<longrightarrow> handshake_read_io quiet_env c0 = Some (- 1, c')" by blast
  moreover have "trace ?c = trace oversize_conn"
    by (simp add: oversize_conn_def conn_at_def)
  ultimately show ?thesis
    using next_record_oversize by auto
qed

lemma handshakes_INITIAL_1: "handshakes INITIAL 1 = Some SERVER_HELLO"
  using handshakes_entry_INITIAL by (simp add: handshakes_def INITIAL_def)

text \<open>
  C10. The read path receives a record of type \<open>TLS_CHANGE_CIPHER_SPEC\<close> with one byte of
  payload, the current position holds a message kind \<open>m\<close> with a handler \<open>h\<close> for this role,
  and the handler succeeds. Then \<^verbatim>\<open>handshake_read_io\<close> has called \<open>h\<close> on the byte and goes
  on to \<^verbatim>\<open>s2n_advance_message\<close>, whose result it returns. Nothing is assumed about the
  record type of \<open>m\<close>: the path compares it with nothing. In the example the position is
  \<open>SERVER_HELLO\<close>, a handshake message, and the position moves from 1 to 2.
\<close>

theorem change_cipher_spec_record_unchecked:
  assumes "read_full_record env c0 = ((r, TLS_CHANGE_CIPHER_SPEC, False), c1)" and "0 \<le> r"
    and "s2n_stuffer_data_available (conn_in c1) = 1"
    and "c2 = c1\<lparr> conn_in := s2n_stuffer_skip_read 1 (conn_in c1),
                    io := s2n_stuffer_write_bytes (take 1 (s2n_stuffer_unread (conn_in c1))) (io c1) \<rparr>"
    and "ACTIVE_MESSAGE c1 = Some m"
    and "handler (state_machine m) (mode c1) = Some h"
    and "run_handler env h c2 = (rh, c3)" and "0 \<le> rh"
  shows "handshake_read_io env c0 =
           GUARD (s2n_advance_message env) ok
             (done_with_record (c3\<lparr> trace := trace c1 @ [Ev_handler h (io c2)],
                                    io := s2n_stuffer_wiped \<rparr>))"
proof -
  have copy: "s2n_stuffer_copy_in_io (s2n_stuffer_data_available (conn_in c1)) c1 = (0, c2)"
    using assms(3,4) by (simp add: s2n_stuffer_copy_in_io_def)
  have act: "ACTIVE_STATE c2 = Some (state_machine m)"
    using assms(4,5) by (simp add: ACTIVE_STATE_def ACTIVE_MESSAGE_def)
  have call: "call_handler env c2 = Some (rh, c3\<lparr> trace := trace c1 @ [Ev_handler h (io c2)] \<rparr>)"
    using act assms(4,6,7) by (simp add: call_handler_def)
  show ?thesis
    using assms(1,2,3,8) copy call
    by (simp add: handshake_read_io_def GUARD_def ok_def tls_record_types)
qed

text \<open>A client that expects \<open>SERVER_HELLO\<close> and is sent a change-cipher-spec record.\<close>

definition ccs_conn :: "wire s2n_connection" where
  "ccs_conn = conn_at S2N_CLIENT INITIAL 1 [(TLS_CHANGE_CIPHER_SPEC, [1])]"

theorem change_cipher_spec_record_unchecked_witness:
  "ACTIVE_MESSAGE ccs_conn = Some SERVER_HELLO
   \<and> record_type (state_machine SERVER_HELLO) = TLS_HANDSHAKE
   \<and> TLS_HANDSHAKE \<noteq> TLS_CHANGE_CIPHER_SPEC
   \<and> handshake_read_io quiet_env ccs_conn =
       Some (0, (conn_at S2N_CLIENT INITIAL 2 [])
                  \<lparr> trace := [Ev_handler s2n_server_hello_recv
                                \<lparr> blob_data = [1], read_cursor = 0, wiped = False \<rparr>] \<rparr>)"
proof -
  let ?c1 = "(conn_at S2N_CLIENT INITIAL 1 [])
        \<lparr> conn_in := \<lparr> blob_data = [1], read_cursor = 0, wiped = False \<rparr>,
          in_status := PLAINTEXT \<rparr>"
  let ?c2 = "?c1\<lparr> conn_in := s2n_stuffer_skip_read 1 (conn_in ?c1),
                    io := s2n_stuffer_write_bytes (take 1 (s2n_stuffer_unread (conn_in ?c1))) (io ?c1) \<rparr>"
  have 1: "read_full_record quiet_env ccs_conn = ((0, TLS_CHANGE_CIPHER_SPEC, False), ?c1)"
    by (simp add: read_full_record_def quiet_env_def next_record_def ccs_conn_def conn_at_def)
  have 3: "s2n_stuffer_data_available (conn_in ?c1) = 1"
    by (simp add: s2n_stuffer_data_available_def)
  have 5: "ACTIVE_MESSAGE ?c1 = Some SERVER_HELLO"
    using handshakes_INITIAL_1 by (simp add: ACTIVE_MESSAGE_def conn_at_def)
  have 6: "handler (state_machine SERVER_HELLO) (mode ?c1) = Some s2n_server_hello_recv"
    by (simp add: action_def conn_at_def)
  have 7: "run_handler quiet_env s2n_server_hello_recv ?c2 = (0, ?c2)"
    by (simp add: quiet_env_def)
  have a: "ACTIVE_MESSAGE ccs_conn = Some SERVER_HELLO"
    using handshakes_INITIAL_1 by (simp add: ACTIVE_MESSAGE_def conn_at_def ccs_conn_def)
  have b: "record_type (state_machine SERVER_HELLO) = TLS_HANDSHAKE" by (simp add: action_def)
  have c: "TLS_HANDSHAKE \<noteq> TLS_CHANGE_CIPHER_SPEC" by (simp add: tls_record_types)
  have adv: "GUARD (s2n_advance_message quiet_env) ok
             (done_with_record (?c2\<lparr> trace := trace ?c1 @ [Ev_handler s2n_server_hello_recv (io ?c2)],
                                    io := s2n_stuffer_wiped \<rparr>))
     = Some (0, (conn_at S2N_CLIENT INITIAL 2 [])
                  \<lparr> trace := [Ev_handler s2n_server_hello_recv
                                \<lparr> blob_data = [1], read_cursor = 0, wiped = False \<rparr>] \<rparr>)"
    by (simp add: GUARD_def ok_def s2n_advance_message_def ext_def quiet_env_def done_with_record_def
        conn_at_def s2n_stuffer_wiped_def s2n_stuffer_write_bytes_def s2n_stuffer_skip_read_def
        s2n_stuffer_unread_def)
  show ?thesis
    using change_cipher_spec_record_unchecked[OF 1 _ 3 refl 5 6 7] a b c adv by simp
qed

lemma handshakes_SomeD:
  assumes "handshakes t n = Some m" and "m \<noteq> CLIENT_HELLO"
  shows "\<exists>ms. (t, ms) \<in> set handshakes_init \<and> n < length ms \<and> ms ! n = m \<and> unat t < 128 \<and> n < 16"
  using assms
  by (auto simp: handshakes_def split: if_splits option.splits dest: handshakes_entry_in_init)

lemma handshakes_init_client_auth:
  "list_all (\<lambda>(t, ms). t AND CLIENT_AUTH = 0 \<longrightarrow>
      list_all (\<lambda>n. ms ! n = SERVER_HELLO_DONE \<longrightarrow>
                  handshakes (t OR CLIENT_AUTH) n = Some SERVER_CERT_REQ) [0..<length ms])
     handshakes_init"
  by (simp add: handshakes_init_def handshake_flags handshakes_def handshakes_entry_def)

lemma handshakes_client_auth_switch:
  assumes "handshakes t n = Some SERVER_HELLO_DONE" and "t AND CLIENT_AUTH = 0"
  shows "handshakes (t OR CLIENT_AUTH) n = Some SERVER_CERT_REQ"
proof -
  from handshakes_SomeD[OF assms(1)] obtain ms
    where "(t, ms) \<in> set handshakes_init" "n < length ms" "ms ! n = SERVER_HELLO_DONE" by auto
  with handshakes_init_client_auth assms(2) show ?thesis
    unfolding list_all_iff by fastforce
qed


lemma EXPECTED_SERVER_HELLO_DONE:
  assumes "EXPECTED_MESSAGE_TYPE c = Some TLS_SERVER_HELLO_DONE"
  shows "ACTIVE_MESSAGE c = Some SERVER_HELLO_DONE"
proof -
  from assms obtain m where m: "ACTIVE_MESSAGE c = Some m"
    and t: "message_type (state_machine m) = TLS_SERVER_HELLO_DONE"
    by (auto simp: EXPECTED_MESSAGE_TYPE_def ACTIVE_STATE_def)
  from t have "m = SERVER_HELLO_DONE"
    by (cases m) (simp_all add: action_def tls_message_types)
  with m show ?thesis by simp
qed

text \<open>
  C6, as the code has it. On the client, with client-auth mode optional, a complete
  message of wire type \<open>TLS_CLIENT_CERT_REQ\<close> arrives where \<open>TLS_SERVER_HELLO_DONE\<close> is
  expected, and \<open>CLIENT_AUTH\<close> is not yet set in the handshake type. Then \<open>CLIENT_AUTH\<close> is
  added, the same message number now holds \<open>SERVER_CERT_REQ\<close>, whose wire type is the one
  that arrived, and the message is accepted: the handler \<^verbatim>\<open>s2n_client_cert_req_recv\<close> is
  called on it and the loop goes on as for every accepted message (transcript hashes,
  wipe, and then the connection is killed or the position advances).
\<close>

theorem client_cert_request_upgrade:
  assumes "s2n_stuffer_data_available (conn_in c0) \<noteq> 0"
    and "read_full_handshake_message env c0 = ((0, TLS_CLIENT_CERT_REQ), c1)"
    and "mode c1 = S2N_CLIENT"
    and "s2n_connection_get_client_auth_type env c1 = Inr S2N_CERT_AUTH_OPTIONAL"
    and "EXPECTED_MESSAGE_TYPE c1 = Some TLS_SERVER_HELLO_DONE"
    and "handshake_type c1 AND CLIENT_AUTH = 0"
    and "c2 = c1\<lparr> handshake_type := handshake_type c1 OR CLIENT_AUTH \<rparr>"
    and "run_handler env s2n_client_cert_req_recv c2 = (rh, c3)"
  shows "ACTIVE_MESSAGE c2 = Some SERVER_CERT_REQ
       \<and> EXPECTED_MESSAGE_TYPE c2 = Some TLS_CLIENT_CERT_REQ
       \<and> handshake_read_io_loop env c0 =
           GUARD (s2n_handshake_conn_update_hashes env) (\<lambda>c6.
             if rh < 0
             then GUARD (ext (s2n_connection_kill env)) (\<lambda>c7. Some (rh, c7))
                    (c6\<lparr> io := s2n_stuffer_wiped \<rparr>)
             else GUARD (s2n_advance_message env) (\<lambda>c7. handshake_read_io_loop env c7)
                    (c6\<lparr> io := s2n_stuffer_wiped \<rparr>))
             (c3\<lparr> trace := trace c1 @ [Ev_handler s2n_client_cert_req_recv (io c1)] \<rparr>)"
proof -
  have shd: "handshakes (handshake_type c1) (message_number c1) = Some SERVER_HELLO_DONE"
    using EXPECTED_SERVER_HELLO_DONE[OF assms(5)] by (simp add: ACTIVE_MESSAGE_def)
  have am: "ACTIVE_MESSAGE c2 = Some SERVER_CERT_REQ"
    using handshakes_client_auth_switch[OF shd assms(6)] assms(7) by (simp add: ACTIVE_MESSAGE_def)
  then have ex: "EXPECTED_MESSAGE_TYPE c2 = Some TLS_CLIENT_CERT_REQ"
    by (simp add: EXPECTED_MESSAGE_TYPE_def ACTIVE_STATE_def action_def)
  have sw: "switch_to_client_auth S2N_CERT_AUTH_OPTIONAL TLS_CLIENT_CERT_REQ c1 = Some c2"
    using assms(3,5,7) by (simp add: switch_to_client_auth_def)
  have sk: "skip_cert_status TLS_CLIENT_CERT_REQ c2 = Some c2"
    using assms(3,7) ex by (simp add: skip_cert_status_def tls_message_types)
  have call: "call_handler env c2 =
                Some (rh, c3\<lparr> trace := trace c1 @ [Ev_handler s2n_client_cert_req_recv (io c1)] \<rparr>)"
    using am assms(3,7,8) by (simp add: call_handler_def ACTIVE_STATE_def action_def)
  have "handshake_read_io_loop env c0 =
           GUARD (s2n_handshake_conn_update_hashes env) (\<lambda>c6.
             if rh < 0
             then GUARD (ext (s2n_connection_kill env)) (\<lambda>c7. Some (rh, c7))
                    (c6\<lparr> io := s2n_stuffer_wiped \<rparr>)
             else GUARD (s2n_advance_message env) (\<lambda>c7. handshake_read_io_loop env c7)
                    (c6\<lparr> io := s2n_stuffer_wiped \<rparr>))
             (c3\<lparr> trace := trace c1 @ [Ev_handler s2n_client_cert_req_recv (io c1)] \<rparr>)"
    using assms(1,2,4) sw sk ex call
    by (subst handshake_read_io_loop.simps) (simp add: GUARD_get_def)
  with am ex show ?thesis by simp
qed


lemma handshake_read_io_loop_done:
  "s2n_stuffer_data_available (conn_in c) = 0 \<Longrightarrow>
   handshake_read_io_loop env c = Some (0, done_with_record c)"
  by (subst handshake_read_io_loop.simps) simp

text \<open>
  A client in the middle of a record: the next message of the record is a
  \<open>CertificateRequest\<close> with an empty body.
\<close>

definition cert_req_conn :: "handshake_type_t \<Rightarrow> nat \<Rightarrow> wire s2n_connection" where
  "cert_req_conn t n =
     (conn_at S2N_CLIENT t n [])
       \<lparr> conn_in := \<lparr> blob_data = [13, 0, 0, 0], read_cursor = 0, wiped = False \<rparr>,
         in_status := PLAINTEXT \<rparr>"

definition cert_req_read :: "handshake_type_t \<Rightarrow> nat \<Rightarrow> wire s2n_connection" where
  "cert_req_read t n =
     (conn_at S2N_CLIENT t n [])
       \<lparr> conn_in := \<lparr> blob_data = [13, 0, 0, 0], read_cursor = 4, wiped = False \<rparr>,
         io := \<lparr> blob_data = [13, 0, 0, 0], read_cursor = 4, wiped = False \<rparr>,
         in_status := PLAINTEXT \<rparr>"

lemma read_cert_req:
  "read_full_handshake_message quiet_env (cert_req_conn t n) =
     ((0, TLS_CLIENT_CERT_REQ), cert_req_read t n)"
  by (simp add: read_full_handshake_message_def read_handshake_message_body_def uint32_sub_def
      cert_req_conn_def cert_req_read_def conn_at_def
      s2n_stuffer_wiped_def s2n_stuffer_data_available_def TLS_HANDSHAKE_HEADER_LENGTH_def
      s2n_stuffer_copy_in_io_def s2n_stuffer_skip_read_def s2n_stuffer_write_bytes_def
      s2n_stuffer_unread_def s2n_handshake_parse_header_def uint24_def quiet_env_def
      tls_message_types Let_def)

lemma handshakes_3_3: "handshakes 3 3 = Some SERVER_HELLO_DONE"
  by (simp add: handshakes_def handshakes_entry_def handshakes_init_def handshake_flags)

lemma handshakes_19_4: "handshakes 19 4 = Some SERVER_HELLO_DONE"
  by (simp add: handshakes_def handshakes_entry_def handshakes_init_def handshake_flags)

text \<open>
  C6 as stated fails when \<open>CLIENT_AUTH\<close> is already set: at position 4 of the sequence of
  \<open>NEGOTIATED | FULL_HANDSHAKE | CLIENT_AUTH\<close> (bitset 19), where \<open>SERVER_HELLO_DONE\<close> is
  expected after a first \<open>CertificateRequest\<close>, a second one leaves the bitset as it is and
  is rejected with \<open>S2N_ERR_BAD_MESSAGE\<close>; no handler is called.
\<close>

theorem client_cert_request_upgrade_counterexample:
  "mode (cert_req_read 19 4) = S2N_CLIENT
   \<and> s2n_connection_get_client_auth_type quiet_env (cert_req_read 19 4) = Inr S2N_CERT_AUTH_OPTIONAL
   \<and> s2n_stuffer_data_available (conn_in (cert_req_conn 19 4)) \<noteq> 0
   \<and> read_full_handshake_message quiet_env (cert_req_conn 19 4)
       = ((0, TLS_CLIENT_CERT_REQ), cert_req_read 19 4)
   \<and> EXPECTED_MESSAGE_TYPE (cert_req_read 19 4) = Some TLS_SERVER_HELLO_DONE
   \<and> handshake_read_io_loop quiet_env (cert_req_conn 19 4)
       = Some (- 1, (cert_req_read 19 4)\<lparr> s2n_errno := S2N_ERR_BAD_MESSAGE,
                         s2n_debug_str := ''s2n_handshake_io.c:799'' \<rparr>)
   \<and> trace (cert_req_read 19 4) = []"
proof -
  have ex: "EXPECTED_MESSAGE_TYPE (cert_req_read 19 4) = Some TLS_SERVER_HELLO_DONE"
    using handshakes_19_4
    by (simp add: EXPECTED_MESSAGE_TYPE_def ACTIVE_STATE_def ACTIVE_MESSAGE_def cert_req_read_def
        conn_at_def action_def)
  have m: "mode (cert_req_read 19 4) = S2N_CLIENT" by (simp add: cert_req_read_def conn_at_def)
  have a: "s2n_connection_get_client_auth_type quiet_env (cert_req_read 19 4) = Inr S2N_CERT_AUTH_OPTIONAL"
    by (simp add: quiet_env_def)
  have n: "s2n_stuffer_data_available (conn_in (cert_req_conn 19 4)) \<noteq> 0"
    by (simp add: cert_req_conn_def s2n_stuffer_data_available_def)
  have t: "handshake_type (cert_req_read 19 4) OR CLIENT_AUTH = handshake_type (cert_req_read 19 4)"
    by (simp add: cert_req_read_def conn_at_def CLIENT_AUTH_def)
  have l: "handshake_read_io_loop quiet_env (cert_req_conn 19 4)
       = Some (- 1, (cert_req_read 19 4)\<lparr> s2n_errno := S2N_ERR_BAD_MESSAGE,
                         s2n_debug_str := ''s2n_handshake_io.c:799'' \<rparr>)"
    using n m a ex t
    by (subst handshake_read_io_loop.simps)
       (simp add: read_cert_req GUARD_get_def switch_to_client_auth_def skip_cert_status_def
          S2N_ERROR_def tls_message_types)
  show ?thesis using ex m a n l read_cert_req
    by (simp add: cert_req_read_def conn_at_def)
qed


lemma handshakes_19_3: "handshakes 19 3 = Some SERVER_CERT_REQ"
  by (simp add: handshakes_def handshakes_entry_def handshakes_init_def handshake_flags)

theorem client_cert_request_upgrade_witness:
  "s2n_stuffer_data_available (conn_in (cert_req_conn 3 3)) \<noteq> 0
   \<and> read_full_handshake_message quiet_env (cert_req_conn 3 3)
       = ((0, TLS_CLIENT_CERT_REQ), cert_req_read 3 3)
   \<and> EXPECTED_MESSAGE_TYPE (cert_req_read 3 3) = Some TLS_SERVER_HELLO_DONE
   \<and> handshake_type (cert_req_read 3 3) AND CLIENT_AUTH = 0
   \<and> EXPECTED_MESSAGE_TYPE (cert_req_read 19 3) = Some TLS_CLIENT_CERT_REQ
   \<and> handshake_read_io_loop quiet_env (cert_req_conn 3 3)
       = Some (0, (conn_at S2N_CLIENT 19 4 [])
                    \<lparr> trace := [Ev_handler s2n_client_cert_req_recv
                                  \<lparr> blob_data = [13, 0, 0, 0], read_cursor = 4, wiped = False \<rparr>,
                                Ev_hash_update S2N_HASH_SHA256 [13, 0, 0, 0]] \<rparr>)"
proof -
  let ?c1 = "cert_req_read 3 3"
  let ?c2 = "?c1\<lparr> handshake_type := handshake_type ?c1 OR CLIENT_AUTH \<rparr>"
  have 1: "s2n_stuffer_data_available (conn_in (cert_req_conn 3 3)) \<noteq> 0"
    by (simp add: cert_req_conn_def s2n_stuffer_data_available_def)
  have 3: "mode ?c1 = S2N_CLIENT" by (simp add: cert_req_read_def conn_at_def)
  have 4: "s2n_connection_get_client_auth_type quiet_env ?c1 = Inr S2N_CERT_AUTH_OPTIONAL"
    by (simp add: quiet_env_def)
  have 5: "EXPECTED_MESSAGE_TYPE ?c1 = Some TLS_SERVER_HELLO_DONE"
    using handshakes_3_3
    by (simp add: EXPECTED_MESSAGE_TYPE_def ACTIVE_STATE_def ACTIVE_MESSAGE_def cert_req_read_def
        conn_at_def action_def)
  have 6: "handshake_type ?c1 AND CLIENT_AUTH = 0"
    by (simp add: cert_req_read_def conn_at_def CLIENT_AUTH_def)
  have 8: "run_handler quiet_env s2n_client_cert_req_recv ?c2 = (0, ?c2)"
    by (simp add: quiet_env_def)
  have c2: "?c2 = cert_req_read 19 3"
    by (simp add: cert_req_read_def conn_at_def CLIENT_AUTH_def)
  have hash: "s2n_handshake_conn_update_hashes quiet_env
                (cert_req_read 19 3\<lparr> trace := tr \<rparr>)
              = Some (0, cert_req_read 19 3\<lparr> trace := tr @ [Ev_hash_update S2N_HASH_SHA256 [13, 0, 0, 0]] \<rparr>)" for tr
    by (simp add: s2n_handshake_conn_update_hashes_def s2n_handshake_parse_header_def
        s2n_conn_update_handshake_hashes_def hash_update_if_required_def hash_update_def
        GUARD_def ok_def quiet_env_def cert_req_read_def conn_at_def
        s2n_stuffer_data_available_def s2n_stuffer_unread_def s2n_stuffer_skip_read_def
        TLS_HANDSHAKE_HEADER_LENGTH_def uint24_def Let_def)
  have adv: "s2n_advance_message quiet_env (cert_req_read 19 3\<lparr> trace := tr, io := s2n_stuffer_wiped \<rparr>)
              = Some (0, cert_req_read 19 4\<lparr> trace := tr, io := s2n_stuffer_wiped \<rparr>)" for tr
    by (simp add: s2n_advance_message_def GUARD_def ext_def quiet_env_def cert_req_read_def conn_at_def)
  have fin: "handshake_read_io_loop quiet_env (cert_req_read 19 4\<lparr> trace := tr, io := s2n_stuffer_wiped \<rparr>)
              = Some (0, (conn_at S2N_CLIENT 19 4 [])\<lparr> trace := tr \<rparr>)" for tr
    by (subst handshake_read_io_loop_done)
       (simp_all add: cert_req_read_def conn_at_def s2n_stuffer_data_available_def done_with_record_def)
  have ex': "EXPECTED_MESSAGE_TYPE (cert_req_read 19 3) = Some TLS_CLIENT_CERT_REQ"
    using client_cert_request_upgrade[OF 1 read_cert_req 3 4 5 6 refl 8] by (simp add: c2)
  have "handshake_read_io_loop quiet_env (cert_req_conn 3 3)
       = Some (0, (conn_at S2N_CLIENT 19 4 [])
                    \<lparr> trace := [Ev_handler s2n_client_cert_req_recv
                                  \<lparr> blob_data = [13, 0, 0, 0], read_cursor = 4, wiped = False \<rparr>,
                                Ev_hash_update S2N_HASH_SHA256 [13, 0, 0, 0]] \<rparr>)"
    using client_cert_request_upgrade[OF 1 read_cert_req 3 4 5 6 refl 8]
    unfolding c2
    by (simp add: GUARD_def hash adv fin) (simp add: cert_req_read_def conn_at_def)
  with 1 5 6 ex' read_cert_req show ?thesis by simp
qed

section \<open>Properties of the driver\<close>

text \<open>
  C9. It is this endpoint's turn to write, the pending output is flushed, and
  \<^verbatim>\<open>handshake_write_io\<close> fails with an error other than \<open>S2N_ERR_BLOCKED\<close>. Then
  \<^verbatim>\<open>s2n_negotiate\<close> calls \<^verbatim>\<open>handshake_read_io\<close> once and returns -1: with the
  connection as the read left it when the read failed with \<open>S2N_ERR_ALERT\<close>, and otherwise
  with \<^verbatim>\<open>errno\<close>, \<^verbatim>\<open>s2n_errno\<close> and \<^verbatim>\<open>s2n_debug_str\<close> put back to what the write
  left.
\<close>

theorem write_error_then_read_alert:
  assumes "ACTIVE_STATE c0 = Some a0" and "writer a0 \<noteq> CHR ''B''"
    and "flush_blocked env c0 = Some (rf, c1)" and "0 \<le> rf"
    and "ACTIVE_STATE c1 = Some a1"
    and "writer a1 = (if mode c0 = S2N_CLIENT then CHR ''C'' else CHR ''S'')"
    and "handshake_write_io env (c1\<lparr> blocked := S2N_BLOCKED_ON_WRITE \<rparr>) = Some (rw, c2)"
    and "rw < 0" and "s2n_errno c2 \<noteq> S2N_ERR_BLOCKED"
    and "handshake_read_io env c2 = Some (rr, c3)"
  shows "s2n_negotiate env c0 =
           Some (- 1,
             if rr < 0 \<and> s2n_errno c3 = S2N_ERR_ALERT then c3
             else c3\<lparr> errno := errno c2, s2n_errno := s2n_errno c2,
                      s2n_debug_str := s2n_debug_str c2 \<rparr>)"
  using assms
  by (subst s2n_negotiate.simps) (simp add: GUARD_def Let_def)

text \<open>A client about to send its hello; the peer's fatal alert is on the wire.\<close>

definition alerted_conn :: "wire s2n_connection" where
  "alerted_conn = conn_at S2N_CLIENT INITIAL 0 [(TLS_ALERT, [2, 40])]"

text \<open>Collaborators under which the hello cannot be sent and the alert is found.\<close>

definition failing_env :: "wire s2n_env" where
  "failing_env =
     quiet_env
       \<lparr> run_handler := (\<lambda>h c. (- 1, c\<lparr> s2n_errno := S2N_ERR_OTHER 1, errno := 32,
                                          s2n_debug_str := ''write failed'' \<rparr>)),
         s2n_process_alert_fragment := (\<lambda>c. (- 1, c\<lparr> s2n_errno := S2N_ERR_ALERT, errno := 0,
                                          s2n_debug_str := ''alert'' \<rparr>)) \<rparr>"



lemma ACTIVE_STATE_hello:
  "handshake_type c = INITIAL \<Longrightarrow> message_number c = 0 \<Longrightarrow>
   ACTIVE_STATE c = Some (state_machine CLIENT_HELLO)"
  using handshakes_entry_INITIAL
  by (simp add: ACTIVE_STATE_def ACTIVE_MESSAGE_def handshakes_def INITIAL_def)

lemma failing_write:
  assumes "handshake_type c = INITIAL" and "message_number c = 0" and "mode c = S2N_CLIENT"
    and "wiped (io c)"
  shows "handshake_write_io failing_env c =
           Some (- 1, c\<lparr> s2n_errno := S2N_ERR_OTHER 1, errno := 32,
                          s2n_debug_str := ''write failed'',
                          trace := trace c @ [Ev_handler s2n_client_hello_send (io c)] \<rparr>)"
  using assms ACTIVE_STATE_hello[of c]
  by (simp add: handshake_write_io_def GUARD_def ext_def call_handler_def failing_env_def
      quiet_env_def action_def tls_record_types)

theorem write_error_then_read_alert_witness:
  "(\<exists>c3. s2n_negotiate failing_env alerted_conn = Some (- 1, c3)
          \<and> s2n_errno c3 = S2N_ERR_ALERT)
   \<and> (\<exists>c3. s2n_negotiate failing_env (alerted_conn\<lparr> rest := [] \<rparr>) = Some (- 1, c3)
          \<and> s2n_errno c3 = S2N_ERR_OTHER 1 \<and> errno c3 = 32
          \<and> s2n_debug_str c3 = ''write failed'')"
proof -
  let ?a = "state_machine CLIENT_HELLO"
  have w: "writer ?a \<noteq> CHR ''B''" by (simp add: action_def)
  have wr: "writer ?a = (if mode c = S2N_CLIENT then CHR ''C'' else CHR ''S'')"
    if "mode c = S2N_CLIENT" for c :: "wire s2n_connection"
    using that by (simp add: action_def)
  { 
    fix w :: wire
    let ?c0 = "alerted_conn\<lparr> rest := w \<rparr>"
    let ?c1 = "?c0\<lparr> blocked := S2N_BLOCKED_ON_WRITE \<rparr>"
    let ?c2 = "?c1\<lparr> s2n_errno := S2N_ERR_OTHER 1, errno := 32,
                          s2n_debug_str := ''write failed'',
                          trace := trace ?c1 @ [Ev_handler s2n_client_hello_send (io ?c1)] \<rparr>"
    have 1: "ACTIVE_STATE ?c0 = Some ?a"
      by (rule ACTIVE_STATE_hello) (simp_all add: alerted_conn_def conn_at_def)
    have 3: "flush_blocked failing_env ?c0 = Some (0, ?c0)"
      by (simp add: flush_blocked_def failing_env_def quiet_env_def alerted_conn_def conn_at_def)
    have 6: "writer ?a = (if mode ?c0 = S2N_CLIENT then CHR ''C'' else CHR ''S'')"
      by (rule wr) (simp add: alerted_conn_def conn_at_def)
    have 7: "handshake_write_io failing_env ?c1 = Some (- 1, ?c2)"
      by (rule failing_write) (simp_all add: alerted_conn_def conn_at_def s2n_stuffer_wiped_def)
    have 9: "s2n_errno ?c2 \<noteq> S2N_ERR_BLOCKED" by simp
    note write_error_then_read_alert[OF 1 w 3 _ 1 6 7 _ 9]
  } note neg = this
  let ?c2 = "\<lambda>w. alerted_conn\<lparr> rest := w, blocked := S2N_BLOCKED_ON_WRITE,
                          s2n_errno := S2N_ERR_OTHER 1, errno := 32,
                          s2n_debug_str := ''write failed'',
                          trace := [Ev_handler s2n_client_hello_send s2n_stuffer_wiped] \<rparr>"
  have c2: "alerted_conn\<lparr> rest := w, blocked := S2N_BLOCKED_ON_WRITE,
              s2n_errno := S2N_ERR_OTHER 1, errno := 32, s2n_debug_str := ''write failed'',
              trace := trace (alerted_conn\<lparr> rest := w, blocked := S2N_BLOCKED_ON_WRITE \<rparr>)
                 @ [Ev_handler s2n_client_hello_send (io (alerted_conn\<lparr> rest := w, blocked := S2N_BLOCKED_ON_WRITE \<rparr>))] \<rparr>
            = ?c2 w" for w
    by (simp add: alerted_conn_def conn_at_def)
  have r1: "\<exists>c3. handshake_read_io failing_env (?c2 [(TLS_ALERT, [2, 40])]) = Some (- 1, c3)
               \<and> s2n_errno c3 = S2N_ERR_ALERT"
    by (simp add: handshake_read_io_def read_full_record_def failing_env_def quiet_env_def
        next_record_def GUARD_def ok_def ext_def tls_record_types alerted_conn_def conn_at_def)
  have r2: "\<exists>c3. handshake_read_io failing_env (?c2 []) = Some (- 1, c3)
               \<and> s2n_errno c3 = S2N_ERR_BLOCKED"
    by (simp add: handshake_read_io_def read_full_record_def failing_env_def quiet_env_def
        next_record_def alerted_conn_def conn_at_def)
  have e: "alerted_conn\<lparr> rest := [(TLS_ALERT, [2, 40])] \<rparr> = alerted_conn"
    by (simp add: alerted_conn_def conn_at_def)
  from r1 obtain c3 where a: "handshake_read_io failing_env (?c2 [(TLS_ALERT, [2, 40])]) = Some (- 1, c3)"
    and b: "s2n_errno c3 = S2N_ERR_ALERT" by blast
  from r2 obtain c3' where a': "handshake_read_io failing_env (?c2 []) = Some (- 1, c3')"
    and b': "s2n_errno c3' = S2N_ERR_BLOCKED" by blast
  have "s2n_negotiate failing_env alerted_conn = Some (- 1, c3)"
    using neg[of "[(TLS_ALERT, [2, 40])]" "- 1" c3] a b
    by (simp add: alerted_conn_def conn_at_def)
  moreover have "s2n_negotiate failing_env (alerted_conn\<lparr> rest := [] \<rparr>) =
      Some (- 1, c3'\<lparr> errno := 32, s2n_errno := S2N_ERR_OTHER 1, s2n_debug_str := ''write failed'' \<rparr>)"
    using neg[of "[]" "- 1" c3'] a' b'
    by (simp add: alerted_conn_def conn_at_def)
  ultimately show ?thesis using b by simp
qed

section \<open>Fragmentation of the handshake stream\<close>

subsection \<open>One run of the loop over the messages of a record\<close>

text \<open>
  One run of the body of the loop of \<^verbatim>\<open>handshake_read_io\<close> either returns (\<open>Stop\<close>) or
  goes on to the next run (\<open>Next\<close>). The body is cut in three: \<open>read_message\<close> is the
  call of \<^verbatim>\<open>read_full_handshake_message\<close> and the test of what it returns,
  \<open>check_message\<close> the code from there to the type check, \<open>accept_message\<close> the rest.
  \<open>handshake_read_io_loop_step\<close> shows that the loop is the three put together.
\<close>

datatype 'x flow = Stop "'x ret" | Next "'x s2n_connection"

definition run_flow :: "('x s2n_connection \<Rightarrow> 'x ret) \<Rightarrow> 'x flow \<Rightarrow> 'x ret" where
  "run_flow L fl = (case fl of Stop res \<Rightarrow> res | Next c \<Rightarrow> L c)"

lemma run_flow_simps [simp]: "run_flow L (Stop res) = res" "run_flow L (Next c) = L c"
  by (simp_all add: run_flow_def)

definition accept_message :: "'x s2n_env \<Rightarrow> 'x s2n_connection \<Rightarrow> 'x flow" where
  "accept_message env c4 =
     (case call_handler env c4 of
        None \<Rightarrow> Stop None
      | Some (r, c5) \<Rightarrow>
          (case s2n_handshake_conn_update_hashes env c5 of
             None \<Rightarrow> Stop None
           | Some (rh, c6) \<Rightarrow>
               if rh < 0 then Stop (Some (- 1, c6))
               else if r < 0
               then Stop (GUARD (ext (s2n_connection_kill env)) (\<lambda>c7. Some (r, c7))
                            (c6\<lparr> io := s2n_stuffer_wiped \<rparr>))
               else
                 (case s2n_advance_message env (c6\<lparr> io := s2n_stuffer_wiped \<rparr>) of
                    None \<Rightarrow> Stop None
                  | Some (ra, c7) \<Rightarrow> if ra < 0 then Stop (Some (- 1, c7)) else Next c7)))"

definition check_message :: "'x s2n_env \<Rightarrow> byte \<Rightarrow> 'x s2n_connection \<Rightarrow> 'x flow" where
  "check_message env actual c1 =
     (case s2n_connection_get_client_auth_type env c1 of
        Inl e \<Rightarrow> Stop (Some (- 1, c1\<lparr> s2n_errno := e \<rparr>))
      | Inr auth \<Rightarrow>
          (case switch_to_client_auth auth actual c1 of
             None \<Rightarrow> Stop None
           | Some c3 \<Rightarrow>
               (case skip_cert_status actual c3 of
                  None \<Rightarrow> Stop None
                | Some c4 \<Rightarrow>
                    (case EXPECTED_MESSAGE_TYPE c4 of
                       None \<Rightarrow> Stop None
                     | Some expected \<Rightarrow>
                         if actual \<noteq> expected
                         then Stop (S2N_ERROR ''s2n_handshake_io.c:799'' S2N_ERR_BAD_MESSAGE c4)
                         else accept_message env c4))))"

definition read_message :: "'x s2n_env \<Rightarrow> 'x s2n_connection \<Rightarrow> 'x flow" where
  "read_message env c0 =
     (case read_full_handshake_message env c0 of
        ((r, actual), c1) \<Rightarrow>
          if r < 0 then Stop (Some (- 1, c1))
          else if r = 1 then Stop (Some (0, done_with_record c1))
          else check_message env actual c1)"

lemma handshake_read_io_loop_step:
  "handshake_read_io_loop env c =
     (if s2n_stuffer_data_available (conn_in c) \<noteq> 0
      then run_flow (handshake_read_io_loop env) (read_message env c)
      else Some (0, done_with_record c))"
  apply (subst handshake_read_io_loop.simps)
  apply (simp add: read_message_def check_message_def accept_message_def GUARD_def GUARD_get_def
      split: prod.splits sum.splits option.splits)
  done

subsection \<open>Reassembly in closed form\<close>

lemma list4:
  assumes "4 \<le> length xs"
  shows "\<exists>a b c d r. xs = a # b # c # d # r"
  using assms by (auto simp: Suc_le_length_iff numeral_eq_Suc)

text \<open>The message type and the body length that the first 4 bytes of a stream declare.\<close>

definition header_type :: "byte list \<Rightarrow> byte" where
  "header_type S = S ! 0"

definition header_length :: "byte list \<Rightarrow> nat" where
  "header_length S = uint24 (S ! 1) (S ! 2) (S ! 3)"

lemma parse_header_eval:
  assumes "4 \<le> s2n_stuffer_data_available (io c)"
  shows "s2n_handshake_parse_header c =
           (Inr (header_type (s2n_stuffer_unread (io c)),
                 header_length (s2n_stuffer_unread (io c))),
            c\<lparr> io := s2n_stuffer_skip_read 4 (io c) \<rparr>)"
proof -
  have "4 \<le> length (s2n_stuffer_unread (io c))" using assms by simp
  from list4[OF this] obtain a b c' d r where "s2n_stuffer_unread (io c) = a # b # c' # d # r"
    by blast
  then show ?thesis
    using assms by (simp add: s2n_handshake_parse_header_def TLS_HANDSHAKE_HEADER_LENGTH_def
        header_type_def header_length_def)
qed

text \<open>
  The handshake buffer between two calls of the read path: rewound, and holding less
  than one complete message (fewer than 4 bytes, or a header that declares a body of a
  permitted length and less than this body).
\<close>

definition stuffer_partial :: "'x s2n_env \<Rightarrow> s2n_stuffer \<Rightarrow> bool" where
  "stuffer_partial env st =
     (read_cursor st = 0
      \<and> (4 \<le> length (blob_data st) \<longrightarrow>
            header_length (blob_data st) \<le> S2N_MAXIMUM_HANDSHAKE_MESSAGE_LENGTH env
            \<and> length (blob_data st) - 4 < header_length (blob_data st)))"

definition io_partial :: "'x s2n_env \<Rightarrow> 'x s2n_connection \<Rightarrow> bool" where
  "io_partial env c = stuffer_partial env (io c)"

lemma unat_byte_less: "unat (a :: byte) < 256"
  using unsigned_less[of a, where ?'a = nat] by simp

lemma uint24_less: "uint24 a b c < 16777216"
  using unat_byte_less[of a] unat_byte_less[of b] unat_byte_less[of c]
  unfolding uint24_def by linarith

lemma sub_mod_no_wrap:
  fixes a len M :: nat
  assumes "a \<le> len" and "len < M"
  shows "(len + M - a mod M) mod M = len - a"
proof -
  have a: "a mod M = a" using assms by simp
  have "len + M - a = (len - a) + M" using assms(1) by simp
  moreover have "(len - a) mod M = len - a" using assms(2) by simp
  ultimately show ?thesis unfolding a by simp
qed

lemma uint32_sub_no_wrap:
  assumes "a \<le> len" and "len < 16777216"
  shows "uint32_sub len a = len - a"
  unfolding uint32_sub_def
proof (rule sub_mod_no_wrap[OF assms(1)])
  have "(16777216::nat) \<le> 2 ^ 32" by simp
  with assms(2) show "len < 2 ^ 32" by (rule less_le_trans)
qed

lemma uint32_sub_uint24: "a \<le> uint24 x y z \<Longrightarrow> uint32_sub (uint24 x y z) a = uint24 x y z - a"
  by (rule uint32_sub_no_wrap) (simp_all add: uint24_less)

text \<open>
  What \<^verbatim>\<open>read_full_handshake_message\<close> computes when the handshake buffer \<open>st\<close> holds
  the start of a message, in terms of the stream \<open>S\<close> of the bytes of the buffer followed
  by the unread bytes of the record: the return value with the message type, the number of
  bytes taken from the record, and the handshake buffer that is left. This is a closed
  form, not a translation: \<open>read_full_handshake_message_reassemble\<close> below proves that the
  function of the source computes it.
\<close>

definition frame ::
  "'x s2n_env \<Rightarrow> s2n_stuffer \<Rightarrow> byte list \<Rightarrow> (int \<times> byte) \<times> nat \<times> s2n_stuffer"
where
  "frame env st S =
     (let lb = length (blob_data st) in
      if length S < 4 then
        ((1, 0), length S - lb, \<lparr> blob_data = S, read_cursor = 0, wiped = False \<rparr>)
      else if header_length S > S2N_MAXIMUM_HANDSHAKE_MESSAGE_LENGTH env then
        ((- 1, header_type S), 4 - lb,
         (if lb < 4 then \<lparr> blob_data = take 4 S, read_cursor = 4, wiped = False \<rparr>
          else st\<lparr> read_cursor := 4 \<rparr>))
      else
        let n = min (4 + header_length S) (length S);
            whole = (n = 4 + header_length S)
        in ((if whole then 0 else 1, header_type S), n - lb,
            \<lparr> blob_data = take n S, read_cursor = (if whole then 4 else 0), wiped = False \<rparr>))"

text \<open>The same in terms of the unread bytes \<open>U\<close> of the record, and on the connection.\<close>

definition reassembled ::
  "'x s2n_env \<Rightarrow> s2n_stuffer \<Rightarrow> byte list \<Rightarrow> (int \<times> byte) \<times> nat \<times> s2n_stuffer"
where
  "reassembled env st U = frame env st (blob_data st @ U)"

definition reassemble ::
  "'x s2n_env \<Rightarrow> 'x s2n_connection \<Rightarrow> (int \<times> byte) \<times> 'x s2n_connection"
where
  "reassemble env c =
     (case reassembled env (io c) (s2n_stuffer_unread (conn_in c)) of
        ((r, t), n, st) \<Rightarrow>
          ((r, t),
           if r < 0
           then c\<lparr> conn_in := s2n_stuffer_skip_read n (conn_in c), io := st,
                   s2n_errno := S2N_ERR_BAD_MESSAGE,
                   s2n_debug_str := ''s2n_handshake_io.c:644'' \<rparr>
           else c\<lparr> conn_in := s2n_stuffer_skip_read n (conn_in c), io := st \<rparr>))"

lemma header_length_less: "header_length S < 16777216"
  by (simp add: header_length_def uint24_less)

lemma header_take: "4 \<le> n \<Longrightarrow> header_length (take n S) = header_length S"
  "4 \<le> n \<Longrightarrow> header_type (take n S) = header_type S"
  by (simp_all add: header_length_def header_type_def)

lemma header_append: "4 \<le> length B \<Longrightarrow> header_length (B @ U) = header_length B"
  "4 \<le> length B \<Longrightarrow> header_type (B @ U) = header_type B"
  by (auto simp: header_length_def header_type_def nth_append)

lemma reassemble_short:
  assumes "blob_data (io c) = B" and "s2n_stuffer_unread (conn_in c) = U" and "S = B @ U"
    and "length S < 4"
  shows "reassemble env c =
         ((1, 0), c\<lparr> conn_in := s2n_stuffer_skip_read (length U) (conn_in c),
                     io := \<lparr> blob_data = S, read_cursor = 0, wiped = False \<rparr> \<rparr>)"
  unfolding reassemble_def reassembled_def frame_def Let_def assms(1,2) assms(3)[symmetric]
  using assms(4) by (simp add: assms(3))

lemma reassemble_big:
  assumes "blob_data (io c) = B" and "s2n_stuffer_unread (conn_in c) = U" and "S = B @ U"
    and "4 \<le> length S" and "header_length S > S2N_MAXIMUM_HANDSHAKE_MESSAGE_LENGTH env"
  shows "reassemble env c =
         ((- 1, header_type S),
         c\<lparr> conn_in := s2n_stuffer_skip_read (4 - length B) (conn_in c),
            io := (if length B < 4 then \<lparr> blob_data = take 4 S, read_cursor = 4, wiped = False \<rparr>
                   else (io c)\<lparr> read_cursor := 4 \<rparr>),
            s2n_errno := S2N_ERR_BAD_MESSAGE,
            s2n_debug_str := ''s2n_handshake_io.c:644'' \<rparr>)"
  unfolding reassemble_def reassembled_def frame_def Let_def assms(1,2) assms(3)[symmetric]
  using assms(4,5) by simp

lemma reassemble_ok:
  assumes "blob_data (io c) = B" and "s2n_stuffer_unread (conn_in c) = U" and "S = B @ U"
    and "4 \<le> length S" and "\<not> header_length S > S2N_MAXIMUM_HANDSHAKE_MESSAGE_LENGTH env"
    and "n = min (4 + header_length S) (length S)"
  shows "reassemble env c =
           ((if n = 4 + header_length S then 0 else 1, header_type S),
            c\<lparr> conn_in := s2n_stuffer_skip_read (n - length B) (conn_in c),
               io := \<lparr> blob_data = take n S, read_cursor = (if n = 4 + header_length S then 4 else 0),
                       wiped = False \<rparr> \<rparr>)"
  unfolding reassemble_def reassembled_def frame_def Let_def assms(1,2) assms(3)[symmetric]
    assms(6)[symmetric]
  using assms(4,5) by simp

lemma skip_read_skip_read:
  "s2n_stuffer_skip_read m (s2n_stuffer_skip_read n st) = s2n_stuffer_skip_read (n + m) st"
  by (simp add: s2n_stuffer_skip_read_def add.assoc)

lemma skip_read_0 [simp]: "s2n_stuffer_skip_read 0 st = st"
  by (simp add: s2n_stuffer_skip_read_def)

lemma body_char:
  assumes rc: "read_cursor (io c) = 0"
    and B: "blob_data (io c) = B" and len4: "4 \<le> length B"
    and parse: "s2n_handshake_parse_header c =
                 (Inr (t, len), c\<lparr> io := s2n_stuffer_skip_read 4 (io c) \<rparr>)"
    and len: "len < 16777216"
    and part: "length B - 4 \<le> len"
    and small: "\<not> len > S2N_MAXIMUM_HANDSHAKE_MESSAGE_LENGTH env"
    and U: "s2n_stuffer_unread (conn_in c) = U"
    and k: "k = min (len - (length B - 4)) (length U)"
  shows "read_handshake_message_body env c =
           ((if length B - 4 + k = len then 0 else 1, t),
            c\<lparr> conn_in := s2n_stuffer_skip_read k (conn_in c),
               io := \<lparr> blob_data = B @ take k U,
                       read_cursor = (if length B - 4 + k = len then 4 else 0),
                       wiped = False \<rparr> \<rparr>)"
proof -
  have av: "s2n_stuffer_data_available (io c) = length B"
    using rc B by (simp add: s2n_stuffer_data_available_def)
  have av2: "s2n_stuffer_data_available (s2n_stuffer_skip_read 4 (io c)) = length B - 4"
    using av by (simp add: available_skip_read)
  have sub: "uint32_sub len (length B - 4) = len - (length B - 4)"
    using part len by (rule uint32_sub_no_wrap)
  have avU: "s2n_stuffer_data_available (conn_in c) = length U"
    using U by (simp add: length_unread[symmetric] del: length_unread)
  have kU: "k \<le> s2n_stuffer_data_available (conn_in c)" using k avU by simp
  have copy: "s2n_stuffer_copy_in_io k (c\<lparr> io := s2n_stuffer_skip_read 4 (io c) \<rparr>) =
                (0, c\<lparr> conn_in := s2n_stuffer_skip_read k (conn_in c),
                       io := \<lparr> blob_data = B @ take k U, read_cursor = 4, wiped = False \<rparr> \<rparr>)"
    using kU U B rc
    by (simp add: s2n_stuffer_copy_in_io_def s2n_stuffer_write_bytes_def s2n_stuffer_skip_read_def)
  have av3: "s2n_stuffer_data_available \<lparr> blob_data = B @ take k U, read_cursor = 4, wiped = False \<rparr>
               = length B - 4 + k"
    using len4 k by (simp add: s2n_stuffer_data_available_def)
  have btt: "min (uint32_sub len (s2n_stuffer_data_available (s2n_stuffer_skip_read 4 (io c))))
                 (s2n_stuffer_data_available (conn_in c)) = k"
    unfolding av2 sub avU k ..
  show ?thesis
    unfolding read_handshake_message_body_def parse
    using small by (simp add: Let_def btt copy av3)
qed

lemma body_oversize:
  assumes parse: "s2n_handshake_parse_header c =
                 (Inr (t, len), c\<lparr> io := s2n_stuffer_skip_read 4 (io c) \<rparr>)"
    and big: "len > S2N_MAXIMUM_HANDSHAKE_MESSAGE_LENGTH env"
  shows "read_handshake_message_body env c =
           ((- 1, t), c\<lparr> io := s2n_stuffer_skip_read 4 (io c),
                          s2n_errno := S2N_ERR_BAD_MESSAGE,
                          s2n_debug_str := ''s2n_handshake_io.c:644'' \<rparr>)"
  unfolding read_handshake_message_body_def parse using big by simp

lemma read_full_handshake_message_reassemble:
  assumes inv: "io_partial env c"
  shows "read_full_handshake_message env c = reassemble env c"
proof -
  define B where "B = blob_data (io c)"
  define U where "U = s2n_stuffer_unread (conn_in c)"
  define S where "S = B @ U"
  have rc: "read_cursor (io c) = 0" using inv by (simp add: io_partial_def stuffer_partial_def)
  have av: "s2n_stuffer_data_available (io c) = length B"
    using rc by (simp add: s2n_stuffer_data_available_def B_def)
  have avU: "s2n_stuffer_data_available (conn_in c) = length U"
    by (simp add: U_def)
  show ?thesis
  proof (cases "length B < 4")
    case short: True
    show ?thesis
    proof (cases "length U < 4 - length B")
      case True
      then have "length S < 4" using short by (simp add: S_def)
      then have r: "reassemble env c =
         ((1, 0), c\<lparr> conn_in := s2n_stuffer_skip_read (length U) (conn_in c),
                     io := \<lparr> blob_data = S, read_cursor = 0, wiped = False \<rparr> \<rparr>)"
        by (rule reassemble_short[OF B_def[symmetric] U_def[symmetric] S_def])
      have "s2n_stuffer_copy_in_io (length U) c =
              (0, c\<lparr> conn_in := s2n_stuffer_skip_read (length U) (conn_in c),
                     io := \<lparr> blob_data = S, read_cursor = 0, wiped = False \<rparr> \<rparr>)"
        using rc by (simp add: s2n_stuffer_copy_in_io_def avU s2n_stuffer_write_bytes_def
            U_def[symmetric] B_def[symmetric] S_def)
      then show ?thesis
        unfolding r using short True
        by (simp add: read_full_handshake_message_def av avU TLS_HANDSHAKE_HEADER_LENGTH_def)
    next
      case False
      then have S4: "4 \<le> length S" using short by (simp add: S_def)
      let ?c1 = "c\<lparr> conn_in := s2n_stuffer_skip_read (4 - length B) (conn_in c),
                     io := \<lparr> blob_data = take 4 S, read_cursor = 0, wiped = False \<rparr> \<rparr>"
      have t4: "B @ take (4 - length B) U = take 4 S" using short by (simp add: S_def)
      have copy: "s2n_stuffer_copy_in_io (4 - length B) c = (0, ?c1)"
        using rc False by (simp add: s2n_stuffer_copy_in_io_def avU s2n_stuffer_write_bytes_def
            U_def[symmetric] B_def[symmetric] t4)
      have rf: "read_full_handshake_message env c = read_handshake_message_body env ?c1"
        using short False copy
        by (simp add: read_full_handshake_message_def av avU TLS_HANDSHAKE_HEADER_LENGTH_def)
      have av1: "s2n_stuffer_data_available (io ?c1) = 4"
        using S4 by (simp add: s2n_stuffer_data_available_def)
      have un1: "s2n_stuffer_unread (io ?c1) = take 4 S"
        by (simp add: s2n_stuffer_unread_def)
      have parse: "s2n_handshake_parse_header ?c1 =
          (Inr (header_type S, header_length S), ?c1\<lparr> io := s2n_stuffer_skip_read 4 (io ?c1) \<rparr>)"
        using parse_header_eval[of ?c1] av1 unfolding un1 by (simp add: header_take)
      show ?thesis
      proof (cases "header_length S > S2N_MAXIMUM_HANDSHAKE_MESSAGE_LENGTH env")
        case True
        have "reassemble env c = ((- 1, header_type S),
         c\<lparr> conn_in := s2n_stuffer_skip_read (4 - length B) (conn_in c),
            io := \<lparr> blob_data = take 4 S, read_cursor = 4, wiped = False \<rparr>,
            s2n_errno := S2N_ERR_BAD_MESSAGE,
            s2n_debug_str := ''s2n_handshake_io.c:644'' \<rparr>)"
          using reassemble_big[OF B_def[symmetric] U_def[symmetric] S_def S4 True] short
          by simp
        then show ?thesis
          unfolding rf body_oversize[OF parse True]
          by (simp add: s2n_stuffer_skip_read_def)
      next
        case small: False
        define k where "k = min (header_length S - (length (take 4 S) - 4)) (length (drop (4 - length B) U))"
        have U1: "s2n_stuffer_unread (conn_in ?c1) = drop (4 - length B) U"
          by (simp add: unread_skip_read U_def)
        have b: "read_handshake_message_body env ?c1 =
           ((if length (take 4 S) - 4 + k = header_length S then 0 else 1, header_type S),
            ?c1\<lparr> conn_in := s2n_stuffer_skip_read k (conn_in ?c1),
               io := \<lparr> blob_data = take 4 S @ take k (drop (4 - length B) U),
                       read_cursor = (if length (take 4 S) - 4 + k = header_length S then 4 else 0),
                       wiped = False \<rparr> \<rparr>)"
          by (rule body_char[OF _ _ _ parse header_length_less _ small U1 k_def])
             (use S4 in simp_all)
        define n where "n = min (4 + header_length S) (length S)"
        have kn: "4 + k = n"
        proof -
          have "length (take 4 S) = 4" using S4 by simp
          moreover have "length (drop (4 - length B) U) = length S - 4"
            using short False by (simp add: S_def)
          ultimately have "k = min (header_length S) (length S - 4)" by (simp add: k_def)
          then show ?thesis using S4 unfolding n_def by arith
        qed
        have tk: "take 4 S @ take k (drop (4 - length B) U) = take n S"
        proof -
          have "drop (4 - length B) U = drop 4 S" using short by (simp add: S_def)
          then have "take 4 S @ take k (drop (4 - length B) U) = take 4 S @ take k (drop 4 S)"
            by simp
          also have "\<dots> = take (4 + k) S" by (simp add: take_add)
          finally show ?thesis using kn by simp
        qed
        have sk: "s2n_stuffer_skip_read k (s2n_stuffer_skip_read (4 - length B) (conn_in c))
                  = s2n_stuffer_skip_read (n - length B) (conn_in c)"
          using kn short by (simp add: skip_read_skip_read)
        have wh: "(length (take 4 S) - 4 + k = header_length S) = (n = 4 + header_length S)"
          using S4 kn by auto
        have "reassemble env c =
           ((if n = 4 + header_length S then 0 else 1, header_type S),
            c\<lparr> conn_in := s2n_stuffer_skip_read (n - length B) (conn_in c),
               io := \<lparr> blob_data = take n S, read_cursor = (if n = 4 + header_length S then 4 else 0),
                       wiped = False \<rparr> \<rparr>)"
          by (rule reassemble_ok[OF B_def[symmetric] U_def[symmetric] S_def S4 small n_def])
        then show ?thesis
          unfolding rf b tk wh by (simp add: sk)
      qed
    qed
  next
    case long: False
    then have B4: "4 \<le> length B" by simp
    then have S4: "4 \<le> length S" by (simp add: S_def)
    have hl: "header_length S = header_length B" "header_type S = header_type B"
      using B4 by (simp_all add: S_def header_append)
    have rf: "read_full_handshake_message env c = read_handshake_message_body env c"
      using long by (simp add: read_full_handshake_message_def av TLS_HANDSHAKE_HEADER_LENGTH_def)
    have un: "s2n_stuffer_unread (io c) = B"
      using rc by (simp add: s2n_stuffer_unread_def B_def)
    have parse: "s2n_handshake_parse_header c =
          (Inr (header_type S, header_length S), c\<lparr> io := s2n_stuffer_skip_read 4 (io c) \<rparr>)"
      using parse_header_eval[of c] av B4 unfolding un hl by simp
    show ?thesis
    proof (cases "header_length S > S2N_MAXIMUM_HANDSHAKE_MESSAGE_LENGTH env")
      case True
      have "reassemble env c = ((- 1, header_type S),
         c\<lparr> io := (io c)\<lparr> read_cursor := 4 \<rparr>,
            s2n_errno := S2N_ERR_BAD_MESSAGE,
            s2n_debug_str := ''s2n_handshake_io.c:644'' \<rparr>)"
        using reassemble_big[OF B_def[symmetric] U_def[symmetric] S_def S4 True] long B4
        by simp
      then show ?thesis
        unfolding rf body_oversize[OF parse True]
        using rc by (simp add: s2n_stuffer_skip_read_def)
    next
      case small: False
      define k where "k = min (header_length S - (length B - 4)) (length U)"
      have part: "length B - 4 \<le> header_length S"
        using inv B4 unfolding hl by (simp add: io_partial_def stuffer_partial_def B_def)
      have b: "read_handshake_message_body env c =
           ((if length B - 4 + k = header_length S then 0 else 1, header_type S),
            c\<lparr> conn_in := s2n_stuffer_skip_read k (conn_in c),
               io := \<lparr> blob_data = B @ take k U,
                       read_cursor = (if length B - 4 + k = header_length S then 4 else 0),
                       wiped = False \<rparr> \<rparr>)"
        by (rule body_char[OF rc _ B4 parse header_length_less part small _ k_def])
           (simp_all add: B_def U_def)
      define n where "n = min (4 + header_length S) (length S)"
      have kn: "length B + k = n"
      proof -
        have "length S = length B + length U" by (simp add: S_def)
        then show ?thesis using B4 part unfolding k_def n_def by arith
      qed
      have nk: "n - length B = k" using kn by simp
      have tk: "B @ take k U = take n S"
        using kn by (simp add: S_def nk)
      have wh: "(length B - 4 + k = header_length S) = (n = 4 + header_length S)"
        using B4 kn by auto
      have "reassemble env c =
           ((if n = 4 + header_length S then 0 else 1, header_type S),
            c\<lparr> conn_in := s2n_stuffer_skip_read (n - length B) (conn_in c),
               io := \<lparr> blob_data = take n S, read_cursor = (if n = 4 + header_length S then 4 else 0),
                       wiped = False \<rparr> \<rparr>)"
        by (rule reassemble_ok[OF B_def[symmetric] U_def[symmetric] S_def S4 small n_def])
      then show ?thesis
        unfolding rf b tk wh nk by simp
    qed
  qed
qed

lemma frame_more:
  assumes "frame env st S = ((1, t), n, st')"
  shows "n = length S - length (blob_data st)
         \<and> st' = \<lparr> blob_data = S, read_cursor = 0, wiped = False \<rparr>
         \<and> stuffer_partial env st'"
proof (cases "length S < 4")
  case True
  then show ?thesis using assms
    by (auto simp add: frame_def Let_def stuffer_partial_def)
next
  case False
  with assms have small: "\<not> header_length S > S2N_MAXIMUM_HANDSHAKE_MESSAGE_LENGTH env"
    by (auto simp: frame_def Let_def split: if_splits)
  define m where "m = min (4 + header_length S) (length S)"
  from assms False small have nw: "m \<noteq> 4 + header_length S"
    by (auto simp: frame_def Let_def m_def split: if_splits)
  with False have m: "m = length S" and lt: "length S - 4 < header_length S"
    unfolding m_def by arith+
  show ?thesis
    using assms False small nw unfolding frame_def Let_def m_def[symmetric]
    by (auto simp: m lt stuffer_partial_def)
qed

lemma frame_whole:
  assumes "stuffer_partial env st" and "blob_data st = take (length (blob_data st)) S"
    and "length (blob_data st) \<le> length S"
    and "frame env st S = ((0, t), n, st')"
  shows "1 \<le> n \<and> length (blob_data st) + n \<le> length S"
proof -
  define lb where "lb = length (blob_data st)"
  from assms(4) have S4: "\<not> length S < 4"
    by (auto simp: frame_def Let_def split: if_splits)
  from assms(4) S4 have small: "\<not> header_length S > S2N_MAXIMUM_HANDSHAKE_MESSAGE_LENGTH env"
    by (auto simp: frame_def Let_def split: if_splits)
  define m where "m = min (4 + header_length S) (length S)"
  from assms(4) S4 small
  have w: "m = 4 + header_length S" and n: "n = m - lb"
    by (auto simp: frame_def Let_def m_def lb_def split: if_splits)
  have "lb < 4 + header_length S"
  proof (cases "4 \<le> lb")
    case True
    then have "header_length (take lb S) = header_length S" by (simp add: header_take)
    then have "header_length (blob_data st) = header_length S"
      using assms(2) by (simp add: lb_def)
    with assms(1) True show ?thesis unfolding stuffer_partial_def lb_def by arith
  qed simp
  with w n assms(3) show ?thesis unfolding m_def lb_def by arith
qed

lemma frame_stable:
  assumes "fst (fst (frame env st S)) \<noteq> 1"
  shows "frame env st (S @ T) = frame env st S"
proof -
  from assms have S4: "4 \<le> length S"
    by (auto simp: frame_def Let_def split: if_splits)
  then have h: "header_length (S @ T) = header_length S" "header_type (S @ T) = header_type S"
    by (simp_all add: header_append)
  have t4: "take 4 (S @ T) = take 4 S" using S4 by simp
  show ?thesis
  proof (cases "header_length S > S2N_MAXIMUM_HANDSHAKE_MESSAGE_LENGTH env")
    case True
    then show ?thesis using S4 h t4
      by (simp add: frame_def Let_def)
  next
    case False
    define m where "m = min (4 + header_length S) (length S)"
    from assms S4 False have "m = 4 + header_length S"
      by (auto simp: frame_def Let_def m_def split: if_splits)
    then have w: "4 + header_length S \<le> length S" unfolding m_def by arith
    then have m: "min (4 + header_length S) (length S) = 4 + header_length S"
      "min (4 + header_length S) (length S + length T) = 4 + header_length S"
      by simp_all
    show ?thesis
      using False S4 h w by (simp add: frame_def Let_def m)
  qed
qed

text \<open>The same with an empty handshake buffer: only the count of bytes taken differs.\<close>

lemma frame_canonical:
  assumes "stuffer_partial env st" and "take (length (blob_data st)) S = blob_data st"
    and "length (blob_data st) \<le> length S"
  shows "frame env st S =
           (case frame env s2n_stuffer_wiped S of
              (res, n, st') \<Rightarrow> (res, n - length (blob_data st), st'))"
proof (cases "4 \<le> length (blob_data st)")
  case True
  then have "header_length (take (length (blob_data st)) S) = header_length S"
    by (simp add: header_take)
  then have "header_length S \<le> S2N_MAXIMUM_HANDSHAKE_MESSAGE_LENGTH env"
    using assms(1,2) True by (simp add: stuffer_partial_def)
  then show ?thesis
    using True assms(3) by (simp add: frame_def Let_def s2n_stuffer_wiped_def)
next
  case False
  then show ?thesis
    by (simp add: frame_def Let_def s2n_stuffer_wiped_def)
qed

lemma frame_partial:
  assumes "stuffer_partial env st"
  shows "\<exists>t. frame env s2n_stuffer_wiped (blob_data st)
              = ((1, t), length (blob_data st),
                 \<lparr> blob_data = blob_data st, read_cursor = 0, wiped = False \<rparr>)"
proof (cases "4 \<le> length (blob_data st)")
  case True
  with assms have a: "header_length (blob_data st) \<le> S2N_MAXIMUM_HANDSHAKE_MESSAGE_LENGTH env"
    and b: "length (blob_data st) - 4 < header_length (blob_data st)"
    by (simp_all add: stuffer_partial_def)
  from True b have m: "min (4 + header_length (blob_data st)) (length (blob_data st))
                       = length (blob_data st)"
    and ne: "length (blob_data st) \<noteq> 4 + header_length (blob_data st)" by arith+
  show ?thesis
    using True a by (simp add: frame_def Let_def s2n_stuffer_wiped_def m ne)
next
  case False
  then show ?thesis
    by (simp add: frame_def Let_def s2n_stuffer_wiped_def)
qed

subsection \<open>Collaborators that do not look at the record\<close>

text \<open>The connection with the three fields of the record being read set.\<close>

definition with_record ::
  "s2n_stuffer \<Rightarrow> s2n_stuffer \<Rightarrow> s2n_in_status \<Rightarrow> 'x s2n_connection \<Rightarrow> 'x s2n_connection"
where
  "with_record x y z c = c\<lparr> conn_in := x, header_in := y, in_status := z \<rparr>"

lemma with_record_sel [simp]:
  "conn_in (with_record x y z c) = x"
  "header_in (with_record x y z c) = y"
  "in_status (with_record x y z c) = z"
  "io (with_record x y z c) = io c"
  "mode (with_record x y z c) = mode c"
  "handshake_type (with_record x y z c) = handshake_type c"
  "message_number (with_record x y z c) = message_number c"
  "trace (with_record x y z c) = trace c"
  "corked_io (with_record x y z c) = corked_io c"
  "s2n_errno (with_record x y z c) = s2n_errno c"
  by (simp_all add: with_record_def)

lemma with_record_idem [simp]:
  "with_record x y z (with_record x' y' z' c) = with_record x y z c"
  by (simp add: with_record_def)

lemma with_record_same [simp]:
  "with_record (conn_in c) (header_in c) (in_status c) c = c"
  by (simp add: with_record_def)

lemma with_record_upd:
  "(with_record x y z c)\<lparr> io := v \<rparr> = with_record x y z (c\<lparr> io := v \<rparr>)"
  "(with_record x y z c)\<lparr> s2n_errno := e \<rparr> = with_record x y z (c\<lparr> s2n_errno := e \<rparr>)"
  "(with_record x y z c)\<lparr> s2n_debug_str := d \<rparr> = with_record x y z (c\<lparr> s2n_debug_str := d \<rparr>)"
  "(with_record x y z c)\<lparr> trace := t \<rparr> = with_record x y z (c\<lparr> trace := t \<rparr>)"
  "(with_record x y z c)\<lparr> handshake_type := h \<rparr> = with_record x y z (c\<lparr> handshake_type := h \<rparr>)"
  "(with_record x y z c)\<lparr> message_number := n \<rparr> = with_record x y z (c\<lparr> message_number := n \<rparr>)"
  by (simp_all add: with_record_def)

lemma with_record_conn_in [simp]:
  "(with_record x y z c)\<lparr> conn_in := x' \<rparr> = with_record x' y z c"
  "with_record x y z (c\<lparr> conn_in := x' \<rparr>) = with_record x y z c"
  by (simp_all add: with_record_def)

lemma done_with_record_eq: "done_with_record c = with_record s2n_stuffer_wiped s2n_stuffer_wiped ENCRYPTED c"
  by (simp add: done_with_record_def with_record_def)

text \<open>
  A collaborator that does not look at the record being read and leaves it as it is:
  whatever the inbound buffers hold, it does the same to the rest of the connection.
\<close>

definition record_blind ::
  "('x s2n_connection \<Rightarrow> int \<times> 'x s2n_connection) \<Rightarrow> bool"
where
  "record_blind f =
     (\<forall>x y z c. f (with_record x y z c) = (case f c of (r, c') \<Rightarrow> (r, with_record x y z c')))"

definition record_free :: "('x s2n_connection \<Rightarrow> 'a) \<Rightarrow> bool" where
  "record_free p = (\<forall>x y z c. p (with_record x y z c) = p c)"

text \<open>A collaborator that leaves the handshake buffer as it is.\<close>

definition keeps_io :: "('x s2n_connection \<Rightarrow> int \<times> 'x s2n_connection) \<Rightarrow> bool" where
  "keeps_io f = (\<forall>c. io (snd (f c)) = io c)"

text \<open>
  What the loop over the messages of a record expects of its collaborators: the handlers,
  the hash primitive, \<^verbatim>\<open>s2n_connection_kill\<close> and the socket functions work on the
  handshake buffer and the rest of the connection, not on the record buffers; the socket
  functions do not touch the handshake buffer; the getters do not depend on the record
  buffers.
\<close>

definition read_path_collaborators :: "'x s2n_env \<Rightarrow> bool" where
  "read_path_collaborators env =
     ((\<forall>h. record_blind (run_handler env h))
      \<and> (\<forall>alg data. record_blind (s2n_hash_update env alg data))
      \<and> record_blind (s2n_connection_kill env)
      \<and> record_blind (s2n_socket_quickack env) \<and> keeps_io (s2n_socket_quickack env)
      \<and> record_blind (s2n_socket_write_cork env) \<and> keeps_io (s2n_socket_write_cork env)
      \<and> record_blind (s2n_socket_write_uncork env) \<and> keeps_io (s2n_socket_write_uncork env)
      \<and> record_free (s2n_connection_get_client_auth_type env)
      \<and> record_free (s2n_handshake_is_hash_required env)
      \<and> record_free (s2n_socket_was_corked env)
      \<and> record_free (s2n_connection_is_managed_corked env))"

text \<open>Results and flows with the record buffers set.\<close>

definition ret_with :: "s2n_stuffer \<Rightarrow> s2n_stuffer \<Rightarrow> s2n_in_status \<Rightarrow> 'x ret \<Rightarrow> 'x ret" where
  "ret_with x y z res = map_option (\<lambda>(r, c). (r, with_record x y z c)) res"

lemma ret_with_simps [simp]:
  "ret_with x y z None = None"
  "ret_with x y z (Some (r, c)) = Some (r, with_record x y z c)"
  by (simp_all add: ret_with_def)

lemma ext_blind:
  assumes "record_blind f"
  shows "ext f (with_record x y z c) = ret_with x y z (ext f c)"
  using assms by (simp add: ext_def record_blind_def with_record_upd split: prod.splits)

lemma GUARD_blind:
  assumes "f (with_record x y z c) = ret_with x y z (f c)"
    and "\<And>c'. k (with_record x y z c') = ret_with x y z (k c')"
  shows "GUARD f k (with_record x y z c) = ret_with x y z (GUARD f k c)"
  using assms by (cases "f c") (auto simp: GUARD_def)

lemma ok_blind: "ok (with_record x y z c) = ret_with x y z (ok c)"
  by (simp add: ok_def)

lemma ACTIVE_blind [simp]:
  "ACTIVE_MESSAGE (with_record x y z c) = ACTIVE_MESSAGE c"
  "PREVIOUS_MESSAGE (with_record x y z c) = PREVIOUS_MESSAGE c"
  "ACTIVE_STATE (with_record x y z c) = ACTIVE_STATE c"
  "PREVIOUS_STATE (with_record x y z c) = PREVIOUS_STATE c"
  "EXPECTED_MESSAGE_TYPE (with_record x y z c) = EXPECTED_MESSAGE_TYPE c"
  by (simp_all add: ACTIVE_MESSAGE_def PREVIOUS_MESSAGE_def ACTIVE_STATE_def PREVIOUS_STATE_def
      EXPECTED_MESSAGE_TYPE_def)

lemma s2n_advance_message_blind:
  assumes "read_path_collaborators env"
  shows "s2n_advance_message env (with_record x y z c) = ret_with x y z (s2n_advance_message env c)"
proof -
  have q: "record_blind (s2n_socket_quickack env)" "record_blind (s2n_socket_write_cork env)"
    "record_blind (s2n_socket_write_uncork env)"
    and p: "\<And>c. s2n_socket_was_corked env (with_record x y z c) = s2n_socket_was_corked env c"
      "\<And>c. s2n_connection_is_managed_corked env (with_record x y z c) = s2n_connection_is_managed_corked env c"
    using assms by (simp_all add: read_path_collaborators_def record_free_def)
  show ?thesis
    unfolding s2n_advance_message_def Let_def
    apply (simp add: with_record_upd)
    apply (intro conjI impI GUARD_blind ext_blind q)
     apply (auto simp: p split: option.splits intro!: GUARD_blind ext_blind q ok_blind)
    done
qed

definition flow_with :: "s2n_stuffer \<Rightarrow> s2n_stuffer \<Rightarrow> s2n_in_status \<Rightarrow> 'x flow \<Rightarrow> 'x flow" where
  "flow_with x y z fl =
     (case fl of Stop res \<Rightarrow> Stop (ret_with x y z res) | Next c \<Rightarrow> Next (with_record x y z c))"

lemma flow_with_simps [simp]:
  "flow_with x y z (Stop res) = Stop (ret_with x y z res)"
  "flow_with x y z (Next c) = Next (with_record x y z c)"
  by (simp_all add: flow_with_def)

lemma hash_update_blind:
  assumes "read_path_collaborators env"
  shows "hash_update env alg data (with_record x y z c) = ret_with x y z (hash_update env alg data c)"
proof -
  have "record_blind (s2n_hash_update env alg data)"
    using assms by (simp add: read_path_collaborators_def)
  then show ?thesis
    by (simp add: hash_update_def record_blind_def with_record_upd split: prod.splits)
qed

lemma required_blind:
  assumes "read_path_collaborators env"
  shows "s2n_handshake_is_hash_required env (with_record x y z c) = s2n_handshake_is_hash_required env c"
  using assms by (simp add: read_path_collaborators_def record_free_def)

lemma hash_update_if_required_blind:
  assumes "read_path_collaborators env"
    and "\<And>c'. k (with_record x y z c') = ret_with x y z (k c')"
  shows "hash_update_if_required env alg data k (with_record x y z c)
         = ret_with x y z (hash_update_if_required env alg data k c)"
  unfolding hash_update_if_required_def
  by (auto simp: required_blind[OF assms(1)] assms(2)
      intro!: GUARD_blind hash_update_blind[OF assms(1)])

lemma s2n_conn_update_handshake_hashes_blind:
  assumes "read_path_collaborators env"
  shows "s2n_conn_update_handshake_hashes env data (with_record x y z c)
         = ret_with x y z (s2n_conn_update_handshake_hashes env data c)"
  unfolding s2n_conn_update_handshake_hashes_def Let_def
  by (intro hash_update_if_required_blind[OF assms])
     (auto simp: required_blind[OF assms]
        intro!: hash_update_if_required_blind[OF assms] GUARD_blind hash_update_blind[OF assms]
          ok_blind)

lemma parse_header_blind:
  "s2n_handshake_parse_header (with_record x y z c)
   = (case s2n_handshake_parse_header c of (res, c') \<Rightarrow> (res, with_record x y z c'))"
  by (simp add: s2n_handshake_parse_header_def with_record_upd split: list.splits)

lemma s2n_handshake_conn_update_hashes_blind:
  assumes "read_path_collaborators env"
  shows "s2n_handshake_conn_update_hashes env (with_record x y z c)
         = ret_with x y z (s2n_handshake_conn_update_hashes env c)"
  unfolding s2n_handshake_conn_update_hashes_def
  by (simp add: with_record_upd parse_header_blind s2n_conn_update_handshake_hashes_blind[OF assms]
      split: prod.splits sum.splits)

lemma call_handler_blind:
  assumes "read_path_collaborators env"
  shows "call_handler env (with_record x y z c) = ret_with x y z (call_handler env c)"
proof -
  have "record_blind (run_handler env h)" for h
    using assms by (simp add: read_path_collaborators_def)
  then show ?thesis
    by (simp add: call_handler_def record_blind_def with_record_upd
        split: option.splits prod.splits)
qed

lemma switch_to_client_auth_blind:
  "switch_to_client_auth a t (with_record x y z c)
   = map_option (with_record x y z) (switch_to_client_auth a t c)"
  by (simp add: switch_to_client_auth_def with_record_upd split: option.splits)

lemma skip_cert_status_blind:
  "skip_cert_status t (with_record x y z c) = map_option (with_record x y z) (skip_cert_status t c)"
  by (simp add: skip_cert_status_def with_record_upd split: option.splits)

lemma accept_message_blind:
  assumes "read_path_collaborators env"
  shows "accept_message env (with_record x y z c) = flow_with x y z (accept_message env c)"
proof -
  have kill: "record_blind (s2n_connection_kill env)"
    using assms by (simp add: read_path_collaborators_def)
  have k: "GUARD (ext (s2n_connection_kill env)) (\<lambda>c7. Some (r, c7)) (with_record x y z c')
           = ret_with x y z (GUARD (ext (s2n_connection_kill env)) (\<lambda>c7. Some (r, c7)) c')" for r c'
    by (rule GUARD_blind) (simp_all add: ext_blind[OF kill])
  show ?thesis
  proof (cases "call_handler env c")
    case None
    then show ?thesis by (simp add: accept_message_def call_handler_blind[OF assms])
  next
    case (Some p)
    obtain r c5 where p: "p = (r, c5)" by (cases p)
    note ch = Some[unfolded p]
    show ?thesis
    proof (cases "s2n_handshake_conn_update_hashes env c5")
      case None
      then show ?thesis
        by (simp add: accept_message_def call_handler_blind[OF assms] ch
            s2n_handshake_conn_update_hashes_blind[OF assms])
    next
      case (Some q)
      obtain rh c6 where q: "q = (rh, c6)" by (cases q)
      note uh = Some[unfolded q]
      show ?thesis
      proof (cases "s2n_advance_message env (c6\<lparr> io := s2n_stuffer_wiped \<rparr>)")
        case None
        then show ?thesis
          by (simp add: accept_message_def call_handler_blind[OF assms] ch uh
              s2n_handshake_conn_update_hashes_blind[OF assms] with_record_upd
              s2n_advance_message_blind[OF assms] k)
      next
        case (Some w)
        obtain ra c7 where w: "w = (ra, c7)" by (cases w)
        note adv = Some[unfolded w]
        show ?thesis
          by (simp add: accept_message_def call_handler_blind[OF assms] ch uh adv
              s2n_handshake_conn_update_hashes_blind[OF assms] with_record_upd
              s2n_advance_message_blind[OF assms] k)
      qed
    qed
  qed
qed

lemma check_message_blind:
  assumes "read_path_collaborators env"
  shows "check_message env t (with_record x y z c) = flow_with x y z (check_message env t c)"
proof -
  have a: "s2n_connection_get_client_auth_type env (with_record x y z c)
           = s2n_connection_get_client_auth_type env c"
    using assms by (simp add: read_path_collaborators_def record_free_def)
  show ?thesis
    unfolding check_message_def a
    by (simp add: switch_to_client_auth_blind skip_cert_status_blind accept_message_blind[OF assms]
        with_record_upd S2N_ERROR_def
        split: sum.splits option.splits)
qed

subsection \<open>The read path over an unfragmented stream\<close>

text \<open>
  What a run of the read path leaves, apart from the record being read: the connection
  with the record buffers wiped and the handshake buffer marked as written to. \<open>outcome\<close>
  is the return value with the connection seen this way.
\<close>

definition settle :: "'x s2n_connection \<Rightarrow> 'x s2n_connection" where
  "settle c =
     with_record s2n_stuffer_wiped s2n_stuffer_wiped ENCRYPTED (c\<lparr> io := (io c)\<lparr> wiped := False \<rparr> \<rparr>)"

definition outcome :: "'x ret \<Rightarrow> 'x ret" where
  "outcome res = map_option (\<lambda>(rc, c). (rc, settle c)) res"

lemma outcome_simps [simp]:
  "outcome None = None"
  "outcome (Some (rc, c)) = Some (rc, settle c)"
  by (simp_all add: outcome_def)

lemma settle_with_record [simp]: "settle (with_record x y z c) = settle c"
  by (simp add: settle_def with_record_def)

lemma settle_settle [simp]: "settle (settle c) = settle c"
  by (simp add: settle_def with_record_def)

lemma outcome_ret_with [simp]: "outcome (ret_with x y z res) = outcome res"
  by (cases res) auto

lemma outcome_outcome [simp]: "outcome (outcome res) = outcome res"
  by (cases res) auto

lemma frame_results: "fst (fst (frame env st S)) \<in> {- 1, 0, 1}"
  by (simp add: frame_def Let_def)

lemma frame_not_wiped: "frame env s2n_stuffer_wiped S = (res, n, st) \<Longrightarrow> wiped st = False"
  by (auto simp: frame_def Let_def s2n_stuffer_wiped_def split: if_splits)

lemma frame_whole_wiped:
  assumes "frame env s2n_stuffer_wiped S = ((r, t), n, st)" and "\<not> r < 0" and "r \<noteq> 1"
  shows "r = 0 \<and> 1 \<le> n \<and> n \<le> length S"
proof -
  from frame_results[of env s2n_stuffer_wiped S] assms have r: "r = 0" by auto
  have p: "stuffer_partial env s2n_stuffer_wiped"
    by (simp add: stuffer_partial_def s2n_stuffer_wiped_def)
  from frame_whole[OF p _ _ assms(1)[unfolded r]] r show ?thesis
    by (simp add: s2n_stuffer_wiped_def)
qed

text \<open>
  The read path over a byte stream \<open>S\<close> that is not cut into records, from an empty
  handshake buffer: message after message is framed off the stream, checked and handled
  as the loop of \<^verbatim>\<open>handshake_read_io\<close> does, until the stream ends (in the middle of a
  message or not) or a message fails. What is left of the stream stays in the handshake
  buffer. The record buffers are kept wiped. \<open>loop_stream\<close> below proves that the loop of
  the source, on the bytes it has in the handshake buffer and in the record, does what
  \<open>stream\<close> does.
\<close>

function stream :: "'x s2n_env \<Rightarrow> 'x s2n_connection \<Rightarrow> byte list \<Rightarrow> 'x ret" where
  "stream env c S =
     (case frame env s2n_stuffer_wiped S of
        ((r, t), n, st) \<Rightarrow>
          if r < 0
          then S2N_ERROR ''s2n_handshake_io.c:644'' S2N_ERR_BAD_MESSAGE
                 (with_record s2n_stuffer_wiped s2n_stuffer_wiped ENCRYPTED (c\<lparr> io := st \<rparr>))
          else if r = 1
          then Some (0, with_record s2n_stuffer_wiped s2n_stuffer_wiped ENCRYPTED (c\<lparr> io := st \<rparr>))
          else
            case check_message env t
                   (with_record s2n_stuffer_wiped s2n_stuffer_wiped ENCRYPTED (c\<lparr> io := st \<rparr>)) of
              Stop res \<Rightarrow> outcome res
            | Next c' \<Rightarrow> stream env c' (drop n S))"
  by pat_completeness auto

termination
proof (relation "measure (\<lambda>(env, c, S). length S)")
  show "wf (measure (\<lambda>(env, c, S). length S))" by simp
next
  fix env :: "'x s2n_env" and c :: "'x s2n_connection" and S x y r t n st c'
  assume "(x, y) = frame env s2n_stuffer_wiped S" "(r, t) = x" "(n, st) = y"
    "\<not> r < 0" "r \<noteq> 1"
  then have "frame env s2n_stuffer_wiped S = ((r, t), n, st)" by simp
  from frame_whole_wiped[OF this \<open>\<not> r < 0\<close> \<open>r \<noteq> 1\<close>]
  show "((env, c', drop n S), env, c, S) \<in> measure (\<lambda>(env, c, S). length S)"
    by auto
qed

declare stream.simps [simp del]

lemma stream_blind1: "stream env (with_record x y z c) S = stream env c S"
  unfolding stream.simps[of env "with_record x y z c"] stream.simps[of env c]
  by (simp add: with_record_def split: prod.splits)

lemma stream_blind2: "stream env (c\<lparr> io := v \<rparr>) S = stream env c S"
  unfolding stream.simps[of env "c\<lparr> io := v \<rparr>"] stream.simps[of env c]
  by (simp add: with_record_def split: prod.splits)

lemmas stream_blind = stream_blind1 stream_blind2

lemma stream_settle [simp]: "stream env (settle c) S = stream env c S"
  by (simp add: settle_def stream_blind)

text \<open>What is left of the handshake buffer when a message has been handled.\<close>

lemma ext_io:
  assumes "keeps_io f" and "ext f c = Some (r, c')"
  shows "io c' = io c"
  using assms by (auto simp: ext_def keeps_io_def split: prod.splits dest: spec[of _ c])

lemma s2n_advance_message_io:
  assumes "read_path_collaborators env" and "s2n_advance_message env c = Some (r, c')"
  shows "io c' = io c"
proof -
  have k: "keeps_io (s2n_socket_quickack env)" "keeps_io (s2n_socket_write_cork env)"
    "keeps_io (s2n_socket_write_uncork env)"
    using assms(1) by (simp_all add: read_path_collaborators_def)
  from assms(2) show ?thesis
    unfolding s2n_advance_message_def Let_def GUARD_def ok_def
    by (auto split: option.splits if_splits prod.splits Option.bind_splits
        dest!: ext_io[OF k(1)] ext_io[OF k(2)] ext_io[OF k(3)])
qed

lemma accept_message_Next:
  assumes "read_path_collaborators env" and "accept_message env c = Next c'"
  shows "io c' = s2n_stuffer_wiped"
  using assms(2) unfolding accept_message_def
  by (auto split: option.splits if_splits prod.splits
      dest!: s2n_advance_message_io[OF assms(1)])

lemma check_message_Next:
  assumes "read_path_collaborators env" and "check_message env t c = Next c'"
  shows "io c' = s2n_stuffer_wiped"
  using assms(2) unfolding check_message_def
  by (auto split: option.splits if_splits sum.splits simp: S2N_ERROR_def
      dest!: accept_message_Next[OF assms(1)])

lemma accept_message_Stop:
  assumes "accept_message env c = Stop (Some (rc, c'))"
  shows "rc < 0"
  using assms unfolding accept_message_def GUARD_def
  by (auto split: option.splits if_splits prod.splits Option.bind_splits)

lemma check_message_Stop:
  assumes "check_message env t c = Stop (Some (rc, c'))"
  shows "rc < 0"
  using assms unfolding check_message_def
  by (auto split: option.splits if_splits sum.splits simp: S2N_ERROR_def
      dest!: accept_message_Stop)

lemma buffer_eq:
  assumes "read_cursor st = 0"
  shows "st\<lparr> wiped := False \<rparr> = \<lparr> blob_data = blob_data st, read_cursor = 0, wiped = False \<rparr>"
  using assms by (cases st) simp

lemma buffer_not_wiped:
  assumes "wiped st = False"
  shows "st\<lparr> wiped := False \<rparr> = st"
  using assms by (cases st) simp

text \<open>
  The loop over the messages of a record does to the connection what \<open>stream\<close> does on
  the bytes of the handshake buffer followed by the unread bytes of the record.
\<close>

lemma loop_stream:
  assumes env: "read_path_collaborators env"
  shows "io_partial env c \<Longrightarrow>
         outcome (handshake_read_io_loop env c)
           = stream env c (blob_data (io c) @ s2n_stuffer_unread (conn_in c))"
proof (induction "s2n_stuffer_data_available (conn_in c)" arbitrary: c rule: less_induct)
  case less
  define B where "B = blob_data (io c)"
  define U where "U = s2n_stuffer_unread (conn_in c)"
  have inv: "stuffer_partial env (io c)" using less.prems by (simp add: io_partial_def)
  have rc: "read_cursor (io c) = 0" using inv by (simp add: stuffer_partial_def)
  obtain res n st where fr0: "frame env s2n_stuffer_wiped (B @ U) = (res, n, st)"
    by (cases "frame env s2n_stuffer_wiped (B @ U)") auto
  obtain r t where res: "res = (r, t)" by (cases res) auto
  note fr = fr0[unfolded res]
  have w: "st\<lparr> wiped := False \<rparr> = st"
    using frame_not_wiped[OF fr] by (rule buffer_not_wiped)
  have goal: "?case = (outcome (handshake_read_io_loop env c) = stream env c (B @ U))"
    by (simp add: B_def U_def)
  show ?case unfolding goal
  proof (cases "s2n_stuffer_data_available (conn_in c) = 0")
    case True
    then have "length U = 0" by (simp add: U_def)
    then have U: "U = []" by simp
    from frame_partial[OF inv] obtain t' where
      "frame env s2n_stuffer_wiped B
         = ((1, t'), length B, \<lparr> blob_data = B, read_cursor = 0, wiped = False \<rparr>)"
      by (auto simp: B_def)
    then have "stream env c (B @ U) =
        Some (0, with_record s2n_stuffer_wiped s2n_stuffer_wiped ENCRYPTED
                   (c\<lparr> io := \<lparr> blob_data = B, read_cursor = 0, wiped = False \<rparr> \<rparr>))"
      by (simp add: stream.simps U)
    moreover have "handshake_read_io_loop env c = Some (0, done_with_record c)"
      using True by (simp add: handshake_read_io_loop_step)
    moreover have "settle (done_with_record c) =
        with_record s2n_stuffer_wiped s2n_stuffer_wiped ENCRYPTED
                   (c\<lparr> io := \<lparr> blob_data = B, read_cursor = 0, wiped = False \<rparr> \<rparr>)"
      by (simp add: done_with_record_eq) (simp add: settle_def buffer_eq[OF rc] B_def)
    ultimately show "outcome (handshake_read_io_loop env c) = stream env c (B @ U)" by simp
  next
    case False
    have step: "handshake_read_io_loop env c
                = run_flow (handshake_read_io_loop env) (read_message env c)"
      using False by (simp add: handshake_read_io_loop_step)
    have pre: "take (length (blob_data (io c))) (B @ U) = blob_data (io c)"
      "length (blob_data (io c)) \<le> length (B @ U)" by (simp_all add: B_def)
    have fc: "frame env (io c) (B @ U) = ((r, t), n - length B, st)"
      using frame_canonical[OF inv pre] fr by (simp add: B_def)
    let ?x = "s2n_stuffer_skip_read (n - length B) (conn_in c)"
    have rf: "read_full_handshake_message env c =
                ((r, t),
                 if r < 0
                 then c\<lparr> conn_in := ?x, io := st, s2n_errno := S2N_ERR_BAD_MESSAGE,
                         s2n_debug_str := ''s2n_handshake_io.c:644'' \<rparr>
                 else c\<lparr> conn_in := ?x, io := st \<rparr>)"
      unfolding read_full_handshake_message_reassemble[OF less.prems] reassemble_def reassembled_def
        B_def[symmetric] U_def[symmetric] fc by simp
    consider (err) "r < 0" | (more) "r = 1" | (whole) "\<not> r < 0" "r \<noteq> 1" by blast
    then show "outcome (handshake_read_io_loop env c) = stream env c (B @ U)"
    proof cases
      case err
      have "handshake_read_io_loop env c =
              Some (- 1, c\<lparr> conn_in := ?x, io := st, s2n_errno := S2N_ERR_BAD_MESSAGE,
                         s2n_debug_str := ''s2n_handshake_io.c:644'' \<rparr>)"
        unfolding step read_message_def rf using err by simp
      moreover have "stream env c (B @ U) =
           S2N_ERROR ''s2n_handshake_io.c:644'' S2N_ERR_BAD_MESSAGE
                 (with_record s2n_stuffer_wiped s2n_stuffer_wiped ENCRYPTED (c\<lparr> io := st \<rparr>))"
        using err fr by (simp add: stream.simps)
      ultimately show ?thesis
        by (simp add: S2N_ERROR_def settle_def with_record_def w)
    next
      case more
      have "handshake_read_io_loop env c =
              Some (0, done_with_record (c\<lparr> conn_in := ?x, io := st \<rparr>))"
        unfolding step read_message_def rf using more by simp
      moreover have "stream env c (B @ U) =
           Some (0, with_record s2n_stuffer_wiped s2n_stuffer_wiped ENCRYPTED (c\<lparr> io := st \<rparr>))"
        using more fr by (simp add: stream.simps)
      ultimately show ?thesis
        by (simp add: done_with_record_def settle_def with_record_def w)
    next
      case whole
      from frame_whole_wiped[OF fr whole] have r0: "r = 0" by simp
      from frame_whole[OF inv pre(1)[symmetric] pre(2) fc[unfolded r0]]
      have k1: "1 \<le> n - length B" by (simp add: B_def)
      let ?c1 = "c\<lparr> conn_in := ?x, io := st \<rparr>"
      define fl where "fl = check_message env t (c\<lparr> io := st \<rparr>)"
      have c1: "?c1 = with_record ?x (header_in c) (in_status c) (c\<lparr> io := st \<rparr>)"
        by (simp add: with_record_def)
      have f1: "check_message env t ?c1 = flow_with ?x (header_in c) (in_status c) fl"
        unfolding c1 fl_def by (rule check_message_blind[OF env])
      have f2: "check_message env t
                  (with_record s2n_stuffer_wiped s2n_stuffer_wiped ENCRYPTED (c\<lparr> io := st \<rparr>))
                = flow_with s2n_stuffer_wiped s2n_stuffer_wiped ENCRYPTED fl"
        unfolding fl_def by (rule check_message_blind[OF env])
      have L: "handshake_read_io_loop env c
               = run_flow (handshake_read_io_loop env) (flow_with ?x (header_in c) (in_status c) fl)"
        unfolding step read_message_def rf using r0 by (simp add: f1)
      have R: "stream env c (B @ U) =
                (case flow_with s2n_stuffer_wiped s2n_stuffer_wiped ENCRYPTED fl of
                   Stop res \<Rightarrow> outcome res
                 | Next c' \<Rightarrow> stream env c' (drop n (B @ U)))"
        using fr r0 by (simp add: stream.simps f2)
      show ?thesis
      proof (cases fl)
        case (Stop res')
        then show ?thesis unfolding L R by simp
      next
        case (Next c7)
        have io7: "io c7 = s2n_stuffer_wiped"
          using check_message_Next[OF env] Next unfolding fl_def by blast
        let ?c7 = "with_record ?x (header_in c) (in_status c) c7"
        have p7: "io_partial env ?c7"
          by (simp add: io_partial_def io7 stuffer_partial_def s2n_stuffer_wiped_def)
        have m7: "s2n_stuffer_data_available (conn_in ?c7)
                  < s2n_stuffer_data_available (conn_in c)"
          using k1 False by (simp add: available_skip_read)
        have "outcome (handshake_read_io_loop env ?c7)
              = stream env ?c7 (blob_data (io ?c7) @ s2n_stuffer_unread (conn_in ?c7))"
          using m7 p7 by (rule less.hyps)
        also have "\<dots> = stream env c7 (drop (n - length B) U)"
          by (simp add: stream_blind io7 s2n_stuffer_wiped_def unread_skip_read U_def)
        also have "drop (n - length B) U = drop n (B @ U)" using k1 by simp
        finally show ?thesis unfolding L R Next by (simp add: stream_blind)
      qed
    qed
  qed
qed

text \<open>A stream can be cut anywhere: the second part is read after the first.\<close>

lemma stream_join:
  "stream env c (S1 @ S2) =
     (case stream env c S1 of
        None \<Rightarrow> None
      | Some (rc, c') \<Rightarrow>
          if rc < 0 then Some (rc, c') else stream env c' (blob_data (io c') @ S2))"
proof (induction "length S1" arbitrary: c S1 rule: less_induct)
  case less
  obtain res n st where fr0: "frame env s2n_stuffer_wiped S1 = (res, n, st)"
    by (cases "frame env s2n_stuffer_wiped S1") auto
  obtain r t where res: "res = (r, t)" by (cases res) auto
  note fr = fr0[unfolded res]
  let ?c1 = "with_record s2n_stuffer_wiped s2n_stuffer_wiped ENCRYPTED (c\<lparr> io := st \<rparr>)"
  consider (err) "r < 0" | (more) "r = 1" | (whole) "\<not> r < 0" "r \<noteq> 1" by blast
  then show ?case
  proof cases
    case err
    then have "fst (fst (frame env s2n_stuffer_wiped S1)) \<noteq> 1" using fr by simp
    then have "frame env s2n_stuffer_wiped (S1 @ S2) = ((r, t), n, st)"
      using fr by (simp add: frame_stable)
    then show ?thesis
      using err fr by (simp add: stream.simps[of env c] S2N_ERROR_def)
  next
    case more
    from frame_more[OF fr[unfolded more]]
    have st: "st = \<lparr> blob_data = S1, read_cursor = 0, wiped = False \<rparr>" by simp
    have "stream env c S1 = Some (0, ?c1)"
      using more fr by (simp add: stream.simps[of env c])
    moreover have "stream env ?c1 (blob_data (io ?c1) @ S2) = stream env c (S1 @ S2)"
      by (simp add: stream_blind st)
    ultimately show ?thesis by simp
  next
    case whole
    from frame_whole_wiped[OF fr whole] have r0: "r = 0" and n1: "1 \<le> n" and nS: "n \<le> length S1"
      by simp_all
    have "fst (fst (frame env s2n_stuffer_wiped S1)) \<noteq> 1" using fr r0 by simp
    then have fr2: "frame env s2n_stuffer_wiped (S1 @ S2) = ((r, t), n, st)"
      using fr by (simp add: frame_stable)
    show ?thesis
    proof (cases "check_message env t ?c1")
      case (Stop res')
      have a: "stream env c S1 = outcome res'" "stream env c (S1 @ S2) = outcome res'"
        using fr fr2 r0 Stop by (simp_all add: stream.simps[of env c])
      show ?thesis
      proof (cases res')
        case None
        then show ?thesis unfolding a by simp
      next
        case (Some p)
        obtain rc c' where p: "p = (rc, c')" by (cases p) auto
        from check_message_Stop[OF Stop[unfolded Some p]] have "rc < 0" .
        then show ?thesis unfolding a Some p by simp
      qed
    next
      case (Next c7)
      have a: "stream env c S1 = stream env c7 (drop n S1)"
        "stream env c (S1 @ S2) = stream env c7 (drop n S1 @ S2)"
        using fr fr2 r0 Next nS by (simp_all add: stream.simps[of env c])
      have "length (drop n S1) < length S1" using n1 nS by simp
      from less.hyps[OF this, of c7] show ?thesis unfolding a .
    qed
  qed
qed

lemma stream_partial:
  "stream env c S = Some (rc, c') \<Longrightarrow> 0 \<le> rc \<Longrightarrow> io_partial env c'"
proof (induction "length S" arbitrary: c S rule: less_induct)
  case less
  obtain res n st where fr0: "frame env s2n_stuffer_wiped S = (res, n, st)"
    by (cases "frame env s2n_stuffer_wiped S") auto
  obtain r t where res: "res = (r, t)" by (cases res) auto
  note fr = fr0[unfolded res]
  let ?c1 = "with_record s2n_stuffer_wiped s2n_stuffer_wiped ENCRYPTED (c\<lparr> io := st \<rparr>)"
  consider (err) "r < 0" | (more) "r = 1" | (whole) "\<not> r < 0" "r \<noteq> 1" by blast
  then show ?case
  proof cases
    case err
    then show ?thesis
      using less.prems fr by (simp add: stream.simps[of env c] S2N_ERROR_def)
  next
    case more
    from frame_more[OF fr[unfolded more]] have "stuffer_partial env st" by blast
    moreover have "c' = ?c1"
      using less.prems more fr by (simp add: stream.simps[of env c])
    ultimately show ?thesis by (simp add: io_partial_def)
  next
    case whole
    from frame_whole_wiped[OF fr whole] have r0: "r = 0" and n1: "1 \<le> n" and nS: "n \<le> length S"
      by simp_all
    show ?thesis
    proof (cases "check_message env t ?c1")
      case (Stop res')
      then have a: "outcome res' = Some (rc, c')"
        using less.prems fr r0 by (simp add: stream.simps[of env c])
      then obtain c'' where "res' = Some (rc, c'')" by (cases res') auto
      from check_message_Stop[OF Stop[unfolded this]] less.prems(2) show ?thesis by simp
    next
      case (Next c7)
      then have a: "stream env c7 (drop n S) = Some (rc, c')"
        using less.prems fr r0 by (simp add: stream.simps[of env c])
      have "length (drop n S) < length S" using n1 nS by simp
      from less.hyps[OF this a less.prems(2)] show ?thesis .
    qed
  qed
qed

lemma io_partial_settle [simp]: "io_partial env (settle c) = io_partial env c"
  by (simp add: io_partial_def settle_def stuffer_partial_def)

lemma handshake_read_io_loop_partial:
  assumes "read_path_collaborators env" and "io_partial env c"
    and "handshake_read_io_loop env c = Some (rc, c')" and "0 \<le> rc"
  shows "io_partial env c'"
proof -
  from loop_stream[OF assms(1,2)] assms(3)
  have "stream env c (blob_data (io c) @ s2n_stuffer_unread (conn_in c)) = Some (rc, settle c')"
    by simp
  from stream_partial[OF this assms(4)] show ?thesis by simp
qed

text \<open>The collaborator that reads records is not one of the loop over the messages.\<close>

lemma hash_update_reader:
  "hash_update (env\<lparr> s2n_read_full_record := f \<rparr>) = hash_update env"
  by (intro ext) (simp add: hash_update_def
        cong del: if_weak_cong option.case_cong_weak prod.case_cong_weak sum.case_cong_weak)

lemma hash_update_if_required_reader:
  "hash_update_if_required (env\<lparr> s2n_read_full_record := f \<rparr>) = hash_update_if_required env"
  by (intro ext) (simp add: hash_update_if_required_def hash_update_reader
        cong del: if_weak_cong option.case_cong_weak prod.case_cong_weak sum.case_cong_weak)

lemma s2n_conn_update_handshake_hashes_reader:
  "s2n_conn_update_handshake_hashes (env\<lparr> s2n_read_full_record := f \<rparr>)
   = s2n_conn_update_handshake_hashes env"
  by (intro ext)
     (simp add: s2n_conn_update_handshake_hashes_def hash_update_if_required_reader
        hash_update_reader
        cong del: if_weak_cong option.case_cong_weak prod.case_cong_weak sum.case_cong_weak)

lemma s2n_handshake_conn_update_hashes_reader:
  "s2n_handshake_conn_update_hashes (env\<lparr> s2n_read_full_record := f \<rparr>)
   = s2n_handshake_conn_update_hashes env"
  by (intro ext)
     (simp add: s2n_handshake_conn_update_hashes_def s2n_conn_update_handshake_hashes_reader
        cong del: if_weak_cong option.case_cong_weak prod.case_cong_weak sum.case_cong_weak)

lemma call_handler_reader:
  "call_handler (env\<lparr> s2n_read_full_record := f \<rparr>) = call_handler env"
  by (intro ext) (simp add: call_handler_def
        cong del: if_weak_cong option.case_cong_weak prod.case_cong_weak sum.case_cong_weak)

lemma s2n_advance_message_reader:
  "s2n_advance_message (env\<lparr> s2n_read_full_record := f \<rparr>) = s2n_advance_message env"
  by (intro ext) (simp add: s2n_advance_message_def
        cong del: if_weak_cong option.case_cong_weak prod.case_cong_weak sum.case_cong_weak)

lemma accept_message_reader:
  "accept_message (env\<lparr> s2n_read_full_record := f \<rparr>) = accept_message env"
  by (intro ext)
     (simp add: accept_message_def call_handler_reader s2n_handshake_conn_update_hashes_reader
        s2n_advance_message_reader
        cong del: if_weak_cong option.case_cong_weak prod.case_cong_weak sum.case_cong_weak)

lemma check_message_reader:
  "check_message (env\<lparr> s2n_read_full_record := f \<rparr>) t c = check_message env t c"
  by (simp add: check_message_def accept_message_reader
        cong del: if_weak_cong option.case_cong_weak prod.case_cong_weak sum.case_cong_weak)

lemma frame_reader: "frame (env\<lparr> s2n_read_full_record := f \<rparr>) st S = frame env st S"
  by (simp add: frame_def Let_def cong del: if_weak_cong)

lemma stream_reader: "stream (env\<lparr> s2n_read_full_record := f \<rparr>) c S = stream env c S"
proof (induction "length S" arbitrary: c S rule: less_induct)
  case less
  let ?env = "env\<lparr> s2n_read_full_record := f \<rparr>"
  obtain res n st where fr0: "frame env s2n_stuffer_wiped S = (res, n, st)"
    by (cases "frame env s2n_stuffer_wiped S") auto
  obtain r t where res: "res = (r, t)" by (cases res) auto
  note fr = fr0[unfolded res]
  let ?c1 = "with_record s2n_stuffer_wiped s2n_stuffer_wiped ENCRYPTED (c\<lparr> io := st \<rparr>)"
  consider (stop) "r < 0 \<or> r = 1" | (whole) "\<not> r < 0" "r \<noteq> 1" by blast
  then show ?case
  proof cases
    case stop
    then show ?thesis
      using fr by (auto simp add: stream.simps[of ?env c] stream.simps[of env c] frame_reader)
  next
    case whole
    from frame_whole_wiped[OF fr whole] have r0: "r = 0" and n1: "1 \<le> n" and nS: "n \<le> length S"
      by simp_all
    have "length (drop n S) < length S" using n1 nS by simp
    from less.hyps[OF this] have ih: "\<And>c'. stream ?env c' (drop n S) = stream env c' (drop n S)" .
    show ?thesis
      using fr r0
      by (simp add: stream.simps[of ?env c] stream.simps[of env c] frame_reader
          check_message_reader ih split: flow.splits)
  qed
qed

lemma read_path_collaborators_reader [simp]:
  "read_path_collaborators (env\<lparr> s2n_read_full_record := f \<rparr>) = read_path_collaborators env"
  by (simp add: read_path_collaborators_def)

lemma io_partial_reader [simp]:
  "io_partial (env\<lparr> s2n_read_full_record := f \<rparr>) c = io_partial env c"
  by (simp add: io_partial_def stuffer_partial_def)

subsection \<open>Handshake records\<close>

text \<open>
  The read path run over a list of handshake records: \<^verbatim>\<open>handshake_read_io\<close> is called
  once for each record, with \<^verbatim>\<open>s2n_read_full_record\<close> delivering it, until a call fails.
\<close>

definition deliver ::
  "byte list \<Rightarrow> 'x s2n_connection \<Rightarrow> (int \<times> byte \<times> bool) \<times> 'x s2n_connection"
where
  "deliver payload c =
     ((0, TLS_HANDSHAKE, False),
      c\<lparr> conn_in := \<lparr> blob_data = payload, read_cursor = 0, wiped = False \<rparr>,
         in_status := PLAINTEXT \<rparr>)"

fun read_records :: "'x s2n_env \<Rightarrow> byte list list \<Rightarrow> 'x s2n_connection \<Rightarrow> 'x ret" where
  "read_records env [] c = Some (0, c)"
| "read_records env (payload # rs) c =
     (case handshake_read_io (env\<lparr> s2n_read_full_record := deliver payload \<rparr>) c of
        None \<Rightarrow> None
      | Some (rc, c') \<Rightarrow> if rc < 0 then Some (rc, c') else read_records env rs c')"

lemma handshake_read_io_deliver:
  "handshake_read_io (env\<lparr> s2n_read_full_record := deliver payload \<rparr>) c =
     handshake_read_io_loop (env\<lparr> s2n_read_full_record := deliver payload \<rparr>)
       (with_record \<lparr> blob_data = payload, read_cursor = 0, wiped = False \<rparr> (header_in c) PLAINTEXT c)"
  by (rule handshake_read_io_handshake_record[where r = 0])
     (simp_all add: read_full_record_def deliver_def with_record_def)

lemma read_records_stream:
  assumes env: "read_path_collaborators env"
  shows "io_partial env c \<Longrightarrow>
         outcome (read_records env rs c) = stream env c (blob_data (io c) @ concat rs)"
proof (induction rs arbitrary: c)
  case Nil
  have inv: "stuffer_partial env (io c)" using Nil by (simp add: io_partial_def)
  have rc: "read_cursor (io c) = 0" using inv by (simp add: stuffer_partial_def)
  from frame_partial[OF inv] obtain t' where
    "frame env s2n_stuffer_wiped (blob_data (io c))
       = ((1, t'), length (blob_data (io c)),
          \<lparr> blob_data = blob_data (io c), read_cursor = 0, wiped = False \<rparr>)"
    by auto
  then show ?case
    by (simp add: stream.simps[of env c] settle_def buffer_eq[OF rc])
next
  case (Cons payload rs)
  let ?env = "env\<lparr> s2n_read_full_record := deliver payload \<rparr>"
  let ?c1 = "with_record \<lparr> blob_data = payload, read_cursor = 0, wiped = False \<rparr>
               (header_in c) PLAINTEXT c"
  have p1: "io_partial ?env ?c1"
    using Cons.prems by (simp add: io_partial_def stuffer_partial_def)
  have A: "outcome (handshake_read_io_loop ?env ?c1) = stream env c (blob_data (io c) @ payload)"
    using loop_stream[of ?env ?c1] env p1
    by (simp add: stream_reader stream_blind s2n_stuffer_unread_def)
  have J: "stream env c (blob_data (io c) @ concat (payload # rs)) =
     (case stream env c (blob_data (io c) @ payload) of
        None \<Rightarrow> None
      | Some (rc, c') \<Rightarrow>
          if rc < 0 then Some (rc, c') else stream env c' (blob_data (io c') @ concat rs))"
    using stream_join[of env c "blob_data (io c) @ payload" "concat rs"] by simp
  show ?case
  proof (cases "handshake_read_io_loop ?env ?c1")
    case None
    then show ?thesis using A unfolding J by (simp add: handshake_read_io_deliver)
  next
    case (Some p)
    obtain rc c' where p: "p = (rc, c')" by (cases p) auto
    note l = Some[unfolded p]
    from A l have s: "stream env c (blob_data (io c) @ payload) = Some (rc, settle c')" by simp
    show ?thesis
    proof (cases "rc < 0")
      case True
      then show ?thesis unfolding J s by (simp add: handshake_read_io_deliver l)
    next
      case False
      then have "0 \<le> rc" by simp
      from handshake_read_io_loop_partial[OF _ p1 l this] env have "io_partial env c'" by simp
      from Cons.IH[OF this] have "outcome (read_records env rs c')
          = stream env c' (blob_data (io c') @ concat rs)" .
      moreover have "blob_data (io (settle c')) = blob_data (io c')" by (simp add: settle_def)
      ultimately show ?thesis
        unfolding J s using False by (simp add: handshake_read_io_deliver l)
    qed
  qed
qed

text \<open>
  What a caller sees of a run: the return value, the error and the calls of handlers and
  hash updates with their payloads.
\<close>

definition verdict :: "'x ret \<Rightarrow> (int \<times> s2n_error \<times> s2n_event list) option" where
  "verdict res = map_option (\<lambda>(rc, c). (rc, s2n_errno c, trace c)) res"

lemma verdict_outcome: "verdict (outcome res) = verdict res"
  by (cases res) (auto simp: verdict_def settle_def)

text \<open>
  C3. Two lists of handshake records that carry the same byte stream, cut at any places
  (\<open>concat rs1 = concat rs2\<close>; one of them may be the stream in a single record), are
  read with the same outcome: the same return value and the same connection but for the
  record buffers, so the same error (\<open>S2N_ERR_BAD_MESSAGE\<close> for one if and only if for the
  other) and the same calls of handlers with the same reassembled messages. The
  collaborators are taken not to look at the record buffers, and the handshake buffer to
  hold no complete message when the first record arrives.
\<close>

theorem fragmentation_transparent:
  assumes "read_path_collaborators env" and "io_partial env c" and "concat rs1 = concat rs2"
  shows "outcome (read_records env rs1 c) = outcome (read_records env rs2 c)
         \<and> verdict (read_records env rs1 c) = verdict (read_records env rs2 c)"
proof -
  have "outcome (read_records env rs1 c) = outcome (read_records env rs2 c)"
    unfolding read_records_stream[OF assms(1,2)] assms(3) ..
  moreover from this have "verdict (outcome (read_records env rs1 c))
                           = verdict (outcome (read_records env rs2 c))" by simp
  ultimately show ?thesis unfolding verdict_outcome by simp
qed

lemma quiet_env_read_path: "read_path_collaborators quiet_env"
  by (simp add: read_path_collaborators_def record_blind_def record_free_def keeps_io_def
      quiet_env_def)

lemma conn_at_partial: "io_partial env (conn_at m t n w)"
  by (simp add: io_partial_def stuffer_partial_def conn_at_def s2n_stuffer_wiped_def)

lemma handshakes_INITIAL_Suc: "handshakes INITIAL (Suc 0) = Some SERVER_HELLO"
  using handshakes_INITIAL_1 by simp

text \<open>
  A client that expects \<open>SERVER_HELLO\<close> is sent one with a body of one byte, whole or in
  three records.
\<close>

lemma stream_hello:
  "verdict (stream quiet_env (conn_at S2N_CLIENT INITIAL 1 []) [2, 0, 0, 1, 9]) =
     Some (0, S2N_ERR_OK,
           [Ev_handler s2n_server_hello_recv
              \<lparr> blob_data = [2, 0, 0, 1, 9], read_cursor = 4, wiped = False \<rparr>,
            Ev_hash_update S2N_HASH_SHA256 [2, 0, 0, 1, 9]])"
  by (simp add: stream.simps frame_def Let_def header_length_def header_type_def uint24_def
      quiet_env_def s2n_stuffer_wiped_def check_message_def accept_message_def
      switch_to_client_auth_def skip_cert_status_def EXPECTED_MESSAGE_TYPE_def ACTIVE_STATE_def
      ACTIVE_MESSAGE_def handshakes_INITIAL_Suc tls_message_types action_def call_handler_def
      s2n_handshake_conn_update_hashes_def s2n_handshake_parse_header_def
      s2n_conn_update_handshake_hashes_def hash_update_if_required_def hash_update_def
      GUARD_def ok_def s2n_advance_message_def ext_def conn_at_def with_record_def
      s2n_stuffer_data_available_def s2n_stuffer_unread_def s2n_stuffer_skip_read_def
      TLS_HANDSHAKE_HEADER_LENGTH_def verdict_def settle_def)

theorem fragmentation_transparent_witness:
  "read_path_collaborators quiet_env
   \<and> io_partial quiet_env (conn_at S2N_CLIENT INITIAL 1 [])
   \<and> concat [[2, 0], [0, 1], [9 :: byte]] = concat [[2, 0, 0, 1, 9]]
   \<and> verdict (read_records quiet_env [[2, 0], [0, 1], [9]] (conn_at S2N_CLIENT INITIAL 1 [])) =
       Some (0, S2N_ERR_OK,
             [Ev_handler s2n_server_hello_recv
                \<lparr> blob_data = [2, 0, 0, 1, 9], read_cursor = 4, wiped = False \<rparr>,
              Ev_hash_update S2N_HASH_SHA256 [2, 0, 0, 1, 9]])"
proof -
  let ?c = "conn_at S2N_CLIENT INITIAL 1 [] :: wire s2n_connection"
  have p: "io_partial quiet_env ?c" by (rule conn_at_partial)
  have c: "concat [[2, 0], [0, 1], [9 :: byte]] = concat [[2, 0, 0, 1, 9]]" by simp
  have "verdict (read_records quiet_env [[2, 0, 0, 1, 9]] ?c)
        = verdict (outcome (read_records quiet_env [[2, 0, 0, 1, 9]] ?c))"
    by (simp only: verdict_outcome)
  also have "\<dots> = verdict (stream quiet_env ?c [2, 0, 0, 1, 9])"
    unfolding read_records_stream[OF quiet_env_read_path p]
    by (simp add: conn_at_def s2n_stuffer_wiped_def)
  finally have "verdict (read_records quiet_env [[2, 0, 0, 1, 9]] ?c) =
       Some (0, S2N_ERR_OK,
             [Ev_handler s2n_server_hello_recv
                \<lparr> blob_data = [2, 0, 0, 1, 9], read_cursor = 4, wiped = False \<rparr>,
              Ev_hash_update S2N_HASH_SHA256 [2, 0, 0, 1, 9]])"
    unfolding stream_hello .
  with fragmentation_transparent[OF quiet_env_read_path p c] quiet_env_read_path p c
  show ?thesis by simp
qed

section \<open>Transcript hashes\<close>

text \<open>
  Read off a trace: the bytes fed through the transcript hash of one algorithm, in the
  order of the calls, and the bytes written out in handshake records.
\<close>

fun hashed :: "s2n_hash_algorithm \<Rightarrow> s2n_event list \<Rightarrow> byte list" where
  "hashed alg [] = []"
| "hashed alg (Ev_hash_update a d # tr) = (if a = alg then d @ hashed alg tr else hashed alg tr)"
| "hashed alg (Ev_handler h st # tr) = hashed alg tr"
| "hashed alg (Ev_sslv2_handler st # tr) = hashed alg tr"
| "hashed alg (Ev_record_write t d # tr) = hashed alg tr"

fun written :: "s2n_event list \<Rightarrow> byte list" where
  "written [] = []"
| "written (Ev_record_write t d # tr) = (if t = TLS_HANDSHAKE then d @ written tr else written tr)"
| "written (Ev_handler h st # tr) = written tr"
| "written (Ev_sslv2_handler st # tr) = written tr"
| "written (Ev_hash_update a d # tr) = written tr"


text \<open>
  The hashes that \<^verbatim>\<open>s2n_conn_update_handshake_hashes\<close> updates: those for which
  \<^verbatim>\<open>s2n_handshake_is_hash_required\<close> holds, and MD5-SHA1 when it holds for both MD5 and
  SHA1. A hash is \<open>always_required\<close> when this holds whatever the connection.
\<close>

definition required :: "'x s2n_env \<Rightarrow> 'x s2n_connection \<Rightarrow> s2n_hash_algorithm \<Rightarrow> bool" where
  "required env c alg =
     (if alg = S2N_HASH_MD5_SHA1
      then s2n_handshake_is_hash_required env c S2N_HASH_MD5
           \<and> s2n_handshake_is_hash_required env c S2N_HASH_SHA1
      else s2n_handshake_is_hash_required env c alg)"


text \<open>A trace made of hash updates of the bytes \<open>d\<close> only.\<close>

definition hash_only :: "byte list \<Rightarrow> s2n_event list \<Rightarrow> bool" where
  "hash_only d tr = list_all (\<lambda>e. case e of Ev_hash_update a d' \<Rightarrow> d' = d | _ \<Rightarrow> False) tr"

lemma hashed_append [simp]: "hashed alg (tr1 @ tr2) = hashed alg tr1 @ hashed alg tr2"
  by (induction alg tr1 rule: hashed.induct) simp_all

lemma written_append [simp]: "written (tr1 @ tr2) = written tr1 @ written tr2"
  by (induction tr1 rule: written.induct) simp_all

lemma hash_only_append [simp]: "hash_only d (tr1 @ tr2) = (hash_only d tr1 \<and> hash_only d tr2)"
  by (simp add: hash_only_def)




text \<open>One conditional update of a transcript hash.\<close>

definition hash_event ::
  "'x s2n_env \<Rightarrow> 'x s2n_connection \<Rightarrow> s2n_hash_algorithm \<Rightarrow> byte list \<Rightarrow> s2n_event list"
where
  "hash_event env c a d = (if required env c a then [Ev_hash_update a d] else [])"








lemma hash_only_hash_event [simp]: "hash_only d (hash_event env c a d)"
  by (simp add: hash_event_def hash_only_def)


subsection \<open>The write path\<close>










subsection \<open>The read path\<close>









subsection \<open>Examples\<close>








subsection \<open>Writes that are suspended\<close>












subsection \<open>Every handshake byte is hashed once\<close>







end
